theory Spec2Isabelle
  imports Complex_Main "HOL-Library.Word"
begin

section \<open>Common data: errors, sizes, vectors\<close>

text \<open>
  A failed \<^verbatim>\<open>assert\<close>, a read or write outside a vector's storage, a null
  pointer dereference, a division by a zero grid spacing (whose result is no finite
  number) and a conversion of a double to an integer type that cannot hold it (which is
  undefined) are values of the model, so that a function of the source that can hit one
  returns \<open>error + 'a\<close>. Field samples, velocities and grid spacings of type
  \<^verbatim>\<open>double\<close> are modelled as reals (finite values, exact arithmetic); the doubles of
  the time stepping and of the clamped solver members, where infinities and NaN arise, have
  the type \<open>double\<close> below. A \<^verbatim>\<open>size_t\<close> value is a natural number; where a
  product of sizes can exceed its range, in the element count and the element index of
  \<^verbatim>\<open>Array3\<close>, the wrap-around modulo \<open>2 ^ 64\<close> is written out.
\<close>

datatype error = AssertionFailed | OutOfRange | NullPointer | NotFinite | UndefinedConversion

definition bindE :: "error + 'a \<Rightarrow> ('a \<Rightarrow> error + 'b) \<Rightarrow> error + 'b" where
  "bindE m f = (case m of Inl e \<Rightarrow> Inl e | Inr v \<Rightarrow> f v)"

text \<open>A serial \<^verbatim>\<open>for\<close> loop over the given indices, stopping at the first error.\<close>

fun forEachE :: "'i list \<Rightarrow> ('i \<Rightarrow> 's \<Rightarrow> error + 's) \<Rightarrow> 's \<Rightarrow> error + 's" where
  "forEachE [] body s = Inr s"
| "forEachE (i # rest) body s = bindE (body i s) (forEachE rest body)"

record Size3 =
  size_x :: nat
  size_y :: nat
  size_z :: nat

record Vector3D =
  vec_x :: real
  vec_y :: real
  vec_z :: real

section \<open>Array3 (Engine/Math/Array3.h)\<close>

text \<open>The result of an addition or a multiplication of \<^verbatim>\<open>size_t\<close> values.\<close>

definition sizeT :: "nat \<Rightarrow> nat" where
  "sizeT n = n mod 2 ^ 64"

text \<open>
  \<^verbatim>\<open>Array<T, 3>\<close> holds \<^verbatim>\<open>_size\<close> and the linear storage \<^verbatim>\<open>_data\<close>;
  element \<open>(i, j, k)\<close> lives at \<^verbatim>\<open>i + _size.x * (j + _size.y * k)\<close>, computed in
  \<^verbatim>\<open>size_t\<close>.
\<close>

record 'a Array3 =
  arr_size :: Size3
  arr_data :: "'a list"

definition linearIndex3 :: "Size3 \<Rightarrow> nat \<Rightarrow> nat \<Rightarrow> nat \<Rightarrow> nat" where
  "linearIndex3 sz i j k = sizeT (i + sizeT (size_x sz * sizeT (j + sizeT (size_y sz * k))))"

text \<open>\<^verbatim>\<open>at(i, j, k)\<close> and \<^verbatim>\<open>operator()(i, j, k)\<close>: the assertion, then the read.\<close>

definition at3 :: "'a Array3 \<Rightarrow> nat \<Rightarrow> nat \<Rightarrow> nat \<Rightarrow> error + 'a" where
  "at3 a i j k =
     (if i < size_x (arr_size a) \<and> j < size_y (arr_size a) \<and> k < size_z (arr_size a)
      then (if linearIndex3 (arr_size a) i j k < length (arr_data a)
            then Inr (arr_data a ! linearIndex3 (arr_size a) i j k)
            else Inl OutOfRange)
      else Inl AssertionFailed)"






section \<open>Doubles with infinities and NaN\<close>

text \<open>
  A \<^verbatim>\<open>double\<close> of the time stepping or of a clamped solver member: a finite value (a
  real; rounding and the overflow of a finite result are not modelled), an infinity, or
  NaN. There is one zero, which divides like \<^verbatim>\<open>+0.0\<close>, the zero that the conversion
  of an unsigned count yields. Comparisons with NaN are false, arithmetic on NaN gives
  NaN, and so do the difference of two equal infinities, zero times an infinity, zero
  divided by zero, and an infinity divided by an infinity.
\<close>

datatype double = Finite real | PosInf | NegInf | NaN

instantiation double :: "{ord, plus, uminus, minus, times, inverse}"
begin

fun less_double :: "double \<Rightarrow> double \<Rightarrow> bool" where
  "less_double (Finite a) (Finite b) \<longleftrightarrow> a < b"
| "less_double (Finite a) PosInf \<longleftrightarrow> True"
| "less_double NegInf (Finite b) \<longleftrightarrow> True"
| "less_double NegInf PosInf \<longleftrightarrow> True"
| "less_double a b \<longleftrightarrow> False"

fun less_eq_double :: "double \<Rightarrow> double \<Rightarrow> bool" where
  "less_eq_double (Finite a) (Finite b) \<longleftrightarrow> a \<le> b"
| "less_eq_double (Finite a) PosInf \<longleftrightarrow> True"
| "less_eq_double PosInf PosInf \<longleftrightarrow> True"
| "less_eq_double NegInf (Finite b) \<longleftrightarrow> True"
| "less_eq_double NegInf PosInf \<longleftrightarrow> True"
| "less_eq_double NegInf NegInf \<longleftrightarrow> True"
| "less_eq_double a b \<longleftrightarrow> False"

fun plus_double :: "double \<Rightarrow> double \<Rightarrow> double" where
  "plus_double (Finite a) (Finite b) = Finite (a + b)"
| "plus_double NaN b = NaN"
| "plus_double a NaN = NaN"
| "plus_double PosInf NegInf = NaN"
| "plus_double NegInf PosInf = NaN"
| "plus_double PosInf b = PosInf"
| "plus_double a PosInf = PosInf"
| "plus_double NegInf b = NegInf"
| "plus_double a NegInf = NegInf"

fun uminus_double :: "double \<Rightarrow> double" where
  "uminus_double (Finite a) = Finite (- a)"
| "uminus_double PosInf = NegInf"
| "uminus_double NegInf = PosInf"
| "uminus_double NaN = NaN"

definition minus_double :: "double \<Rightarrow> double \<Rightarrow> double" where
  "minus_double a b = a + (- b)"

fun times_double :: "double \<Rightarrow> double \<Rightarrow> double" where
  "times_double (Finite a) (Finite b) = Finite (a * b)"
| "times_double NaN b = NaN"
| "times_double a NaN = NaN"
| "times_double (Finite a) PosInf = (if a = 0 then NaN else if 0 < a then PosInf else NegInf)"
| "times_double (Finite a) NegInf = (if a = 0 then NaN else if 0 < a then NegInf else PosInf)"
| "times_double PosInf (Finite b) = (if b = 0 then NaN else if 0 < b then PosInf else NegInf)"
| "times_double NegInf (Finite b) = (if b = 0 then NaN else if 0 < b then NegInf else PosInf)"
| "times_double PosInf PosInf = PosInf"
| "times_double PosInf NegInf = NegInf"
| "times_double NegInf PosInf = NegInf"
| "times_double NegInf NegInf = PosInf"

fun divide_double :: "double \<Rightarrow> double \<Rightarrow> double" where
  "divide_double (Finite a) (Finite b) =
     (if b \<noteq> 0 then Finite (a / b)
      else if 0 < a then PosInf else if a < 0 then NegInf else NaN)"
| "divide_double NaN b = NaN"
| "divide_double a NaN = NaN"
| "divide_double (Finite a) b = Finite 0"
| "divide_double PosInf (Finite b) = (if 0 \<le> b then PosInf else NegInf)"
| "divide_double NegInf (Finite b) = (if 0 \<le> b then NegInf else PosInf)"
| "divide_double PosInf PosInf = NaN"
| "divide_double PosInf NegInf = NaN"
| "divide_double NegInf PosInf = NaN"
| "divide_double NegInf NegInf = NaN"

definition inverse_double :: "double \<Rightarrow> double" where
  "inverse_double a = divide (Finite 1) a"

instance ..

end

text \<open>\<^verbatim>\<open>std::ceil\<close>, and \<^verbatim>\<open>static_cast<double>\<close> of an \<^verbatim>\<open>unsigned int\<close>.\<close>

fun dceil :: "double \<Rightarrow> double" where
  "dceil (Finite a) = Finite (of_int \<lceil>a\<rceil>)"
| "dceil a = a"

definition ofUnsignedInt :: "32 word \<Rightarrow> double" where
  "ofUnsignedInt n = Finite (real (unat n))"

text \<open>
  \<^verbatim>\<open>static_cast<unsigned int>\<close> of a double: the fractional part is discarded; the
  conversion is undefined when the truncated value is no \<^verbatim>\<open>unsigned int\<close>, so for
  NaN, the infinities, a value of -1 or less, and a value of \<open>2 ^ 32\<close> or more.
\<close>

fun toUnsignedInt :: "double \<Rightarrow> error + 32 word" where
  "toUnsignedInt (Finite a) =
     (if - 1 < a \<and> a < 2 ^ 32 then Inr (of_nat (nat \<lfloor>a\<rfloor>)) else Inl UndefinedConversion)"
| "toUnsignedInt a = Inl UndefinedConversion"

text \<open>\<^verbatim>\<open>std::max(a, b)\<close> returns \<open>b\<close> when \<open>a < b\<close> and \<open>a\<close> otherwise.\<close>

definition stdMax :: "'a::ord \<Rightarrow> 'a \<Rightarrow> 'a" where
  "stdMax a b = (if a < b then b else a)"


definition inside3 :: "Size3 \<Rightarrow> nat \<Rightarrow> nat \<Rightarrow> nat \<Rightarrow> bool" where
  "inside3 sz i j k \<longleftrightarrow> i < size_x sz \<and> j < size_y sz \<and> k < size_z sz"





section \<open>MatrixCsr (Engine/Math/MatrixCsr.h)\<close>

record Size2 =
  size2_x :: nat
  size2_y :: nat

text \<open>
  \<^verbatim>\<open>MatrixCsr<T>\<close>: \<^verbatim>\<open>_size\<close> (rows in \<open>x\<close>, columns in \<open>y\<close>), the stored
  values \<^verbatim>\<open>_nonZeros\<close>, the row offsets \<^verbatim>\<open>_rowPointers\<close> and the column of each
  stored value, \<^verbatim>\<open>_columnIndices\<close>.
\<close>

record MatrixCsr =
  csr_size :: Size2
  nonZeros :: "real list"
  rowPointers :: "nat list"
  columnIndices :: "nat list"

text \<open>
  Modelled from the spec: \<^verbatim>\<open>kMaxSize\<close> of Utils/Constants.h, which is not among the
  sources; the sentinel is the largest \<^verbatim>\<open>size_t\<close>.
\<close>

definition kMaxSize :: nat where
  "kMaxSize = 2 ^ 64 - 1"

text \<open>Reading element \<open>i\<close> of a \<^verbatim>\<open>std::vector\<close>; a read outside the storage is an error value.\<close>

definition vecAt :: "'a list \<Rightarrow> nat \<Rightarrow> error + 'a" where
  "vecAt xs i = (if i < length xs then Inr (xs ! i) else Inl OutOfRange)"

text \<open>
  Modelled from the spec: \<^verbatim>\<open>binaryFind\<close> of the utilities header, which is not among the
  sources (the spec: element lookup via binary search within the row's column-index
  slice). Iterators are positions in the vector. \<open>lowerBound\<close> is the halving loop of
  \<^verbatim>\<open>std::lower_bound\<close> on the range \<open>[first, first + count)\<close>; \<open>binaryFind\<close> returns
  the position found when the element there is not greater than the value, else the end of the range.
\<close>

function lowerBound :: "nat list \<Rightarrow> nat \<Rightarrow> nat \<Rightarrow> nat \<Rightarrow> error + nat" where
  "lowerBound xs first count val =
     (if count = 0 then Inr first
      else (case vecAt xs (first + count div 2) of
              Inl e \<Rightarrow> Inl e
            | Inr c \<Rightarrow>
                if c < val
                then lowerBound xs (first + count div 2 + 1) (count - (count div 2 + 1)) val
                else lowerBound xs first (count div 2) val))"
  by pat_completeness auto
termination
  by (relation "measure (\<lambda>(xs, first, count, val). count)") auto

declare lowerBound.simps [simp del]

definition binaryFind :: "nat list \<Rightarrow> nat \<Rightarrow> nat \<Rightarrow> nat \<Rightarrow> error + nat" where
  "binaryFind xs first lastPos val =
     bindE (lowerBound xs first (lastPos - first) val) (\<lambda>pos.
       if pos \<noteq> lastPos
       then bindE (vecAt xs pos) (\<lambda>c. if \<not> val < c then Inr pos else Inr lastPos)
       else Inr lastPos)"

text \<open>\<^verbatim>\<open>hasElement(i, j)\<close>: the position of the stored value of \<open>(i, j)\<close>, or \<^verbatim>\<open>kMaxSize\<close>.\<close>

definition hasElement :: "MatrixCsr \<Rightarrow> nat \<Rightarrow> nat \<Rightarrow> error + nat" where
  "hasElement m i j =
     (if i \<ge> size2_x (csr_size m) \<or> j \<ge> size2_y (csr_size m) then Inr kMaxSize
      else bindE (vecAt (rowPointers m) i) (\<lambda>rowBegin.
           bindE (vecAt (rowPointers m) (i + 1)) (\<lambda>rowEnd.
           bindE (binaryFind (columnIndices m) rowBegin rowEnd j) (\<lambda>iter.
             if iter \<noteq> rowEnd then Inr iter else Inr kMaxSize))))"

text \<open>\<^verbatim>\<open>operator()(i, j)\<close>: the element read.\<close>

definition csrAt :: "MatrixCsr \<Rightarrow> nat \<Rightarrow> nat \<Rightarrow> error + real" where
  "csrAt m i j =
     bindE (hasElement m i j) (\<lambda>nzIndex.
       if nzIndex = kMaxSize then Inr 0 else vecAt (nonZeros m) nzIndex)"

text \<open>\<^verbatim>\<open>clear()\<close>, which is all the default constructor does.\<close>

definition clear :: "MatrixCsr \<Rightarrow> MatrixCsr" where
  "clear m = \<lparr>csr_size = \<lparr>size2_x = 0, size2_y = 0\<rparr>, nonZeros = [],
              rowPointers = [0], columnIndices = []\<rparr>"

text \<open>
  A dense matrix expression, as \<^verbatim>\<open>compress\<close> uses one: its number of rows, its number
  of columns and its element function.
\<close>

record MatrixExpression =
  expr_rows :: nat
  expr_cols :: nat
  expr_at :: "nat \<Rightarrow> nat \<Rightarrow> real"

text \<open>
  \<^verbatim>\<open>compress(other, epsilon)\<close> for a matrix expression. The size is set, the stored
  values and the column indices are cleared, the row pointers are left as they are; then
  each row appends its start offset to the row pointers and its entries of magnitude above
  \<^verbatim>\<open>epsilon\<close> to the stored values; the final offset is appended last.
\<close>

definition compressRow :: "MatrixExpression \<Rightarrow> real \<Rightarrow> nat \<Rightarrow> MatrixCsr \<Rightarrow> MatrixCsr" where
  "compressRow other epsilon i m =
     fold (\<lambda>j m'. if \<bar>expr_at other i j\<bar> > epsilon
                  then m'\<lparr>nonZeros := nonZeros m' @ [expr_at other i j],
                          columnIndices := columnIndices m' @ [j]\<rparr>
                  else m')
          [0..<expr_cols other]
          (m\<lparr>rowPointers := rowPointers m @ [length (nonZeros m)]\<rparr>)"

definition compress :: "MatrixCsr \<Rightarrow> MatrixExpression \<Rightarrow> real \<Rightarrow> MatrixCsr" where
  "compress m other epsilon =
     (let m0 = m\<lparr>csr_size := \<lparr>size2_x = expr_rows other, size2_y = expr_cols other\<rparr>,
                 nonZeros := [], columnIndices := []\<rparr>;
          m1 = fold (compressRow other epsilon) [0..<expr_rows other] m0
      in m1\<lparr>rowPointers := rowPointers m1 @ [length (nonZeros m1)]\<rparr>)"

text \<open>
  \<^verbatim>\<open>compress(lst, epsilon)\<close> for an initializer list: the sibling overload, which
  clears the row pointers as well. Each row is asserted to have the length of the first.
\<close>

definition compressListRow :: "real \<Rightarrow> real list \<Rightarrow> MatrixCsr \<Rightarrow> MatrixCsr" where
  "compressListRow epsilon row m =
     fold (\<lambda>j m'. if \<bar>row ! j\<bar> > epsilon
                  then m'\<lparr>nonZeros := nonZeros m' @ [row ! j],
                          columnIndices := columnIndices m' @ [j]\<rparr>
                  else m')
          [0..<length row]
          (m\<lparr>rowPointers := rowPointers m @ [length (nonZeros m)]\<rparr>)"

definition compressList :: "MatrixCsr \<Rightarrow> real list list \<Rightarrow> real \<Rightarrow> error + MatrixCsr" where
  "compressList m lst epsilon =
     (let numRows = length lst;
          numCols = (if numRows > 0 then length (hd lst) else 0);
          m0 = m\<lparr>csr_size := \<lparr>size2_x = numRows, size2_y = numCols\<rparr>,
                 nonZeros := [], rowPointers := [], columnIndices := []\<rparr>
      in bindE (forEachE lst (\<lambda>row m'.
                  if numCols = length row then Inr (compressListRow epsilon row m')
                  else Inl AssertionFailed) m0)
           (\<lambda>m1. Inr (m1\<lparr>rowPointers := rowPointers m1 @ [length (nonZeros m1)]\<rparr>)))"

text \<open>
  The representation invariant the element read relies on: a row pointer for every row
  and one more, each row's slice inside the column indices, as many stored values as
  column indices, and fewer of them than the sentinel.
\<close>

definition csrWellFormed :: "MatrixCsr \<Rightarrow> bool" where
  "csrWellFormed m \<longleftrightarrow>
     size2_x (csr_size m) < length (rowPointers m) \<and>
     (\<forall>i < size2_x (csr_size m). rowPointers m ! i \<le> rowPointers m ! (i + 1) \<and>
                                  rowPointers m ! (i + 1) \<le> length (columnIndices m)) \<and>
     length (nonZeros m) = length (columnIndices m) \<and>
     length (nonZeros m) < kMaxSize"

text \<open>A value is stored for \<open>(i, j)\<close>: some position of row \<open>i\<close>'s slice carries column \<open>j\<close>.\<close>

definition storedAt :: "MatrixCsr \<Rightarrow> nat \<Rightarrow> nat \<Rightarrow> bool" where
  "storedAt m i j \<longleftrightarrow>
     i < size2_x (csr_size m) \<and> j < size2_y (csr_size m) \<and>
     (\<exists>p. rowPointers m ! i \<le> p \<and> p < rowPointers m ! (i + 1) \<and> columnIndices m ! p = j)"

text \<open>Concrete inputs: a 2x2 dense matrix and a matrix with one stored value.\<close>

definition denseExample :: MatrixExpression where
  "denseExample = \<lparr>expr_rows = 2, expr_cols = 2,
                   expr_at = (\<lambda>i j. if i = 0 then (if j = 0 then 1 else 2)
                                     else (if j = 0 then 3 else 4))\<rparr>"

definition csrExample :: MatrixCsr where
  "csrExample = \<lparr>csr_size = \<lparr>size2_x = 2, size2_y = 2\<rparr>, nonZeros = [5],
                 rowPointers = [0, 0, 1], columnIndices = [1]\<rparr>"

text \<open>The default constructor: \<^verbatim>\<open>clear()\<close> on empty members.\<close>

definition newMatrixCsr :: MatrixCsr where
  "newMatrixCsr = clear \<lparr>csr_size = \<lparr>size2_x = 0, size2_y = 0\<rparr>, nonZeros = [],
                         rowPointers = [], columnIndices = []\<rparr>"

text \<open>
  A default-constructed matrix after two calls of \<^verbatim>\<open>compress\<close> with the dense
  2x2 matrix, the second with an \<^verbatim>\<open>epsilon\<close> that no entry exceeds.
\<close>

definition twiceCompressed :: MatrixCsr where
  "twiceCompressed = compress (compress newMatrixCsr denseExample 0) denseExample 100"

section \<open>PhysicsAnimation (Engine/Simulation/PhysicsAnimation.cpp)\<close>

text \<open>
  Modelled from the spec: \<^verbatim>\<open>kEpsilonD\<close> of Utils/Constants.h, which is not among the
  sources; the spec calls it a small epsilon, here the machine epsilon of a double. The
  proofs use only that it is positive.
\<close>

definition kEpsilonD :: real where
  "kEpsilonD = 1 / 2 ^ 52"

text \<open>
  A \<^verbatim>\<open>Frame\<close> (its header is not among the sources): the \<^verbatim>\<open>int\<close> index, a
  32-bit word read as two's complement, and the seconds per frame.
  \<^verbatim>\<open>timeInSeconds()\<close> is index times interval.
\<close>

record Frame =
  frame_index :: "32 word"
  frame_timeIntervalInSeconds :: double

definition timeInSeconds :: "Frame \<Rightarrow> double" where
  "timeInSeconds f = Finite (real_of_int (sint (frame_index f))) * frame_timeIntervalInSeconds f"

text \<open>
  The members of \<^verbatim>\<open>PhysicsAnimation\<close>; the substep count is an
  \<^verbatim>\<open>unsigned int\<close>. A subclass adds its own members: the record is extensible, and
  the functions below work on every extension.
\<close>

record PhysicsAnimation =
  currentFrame :: Frame
  isUsingFixedSubTimeSteps :: bool
  numberOfFixedSubTimeSteps :: "32 word"
  currentTime :: double
  isInitialized :: bool

text \<open>
  The virtual member functions a subclass overrides. A hook reads the whole object and
  returns the members of the subclass: the model takes it that a hook returns and does not
  call the public setters of \<^verbatim>\<open>PhysicsAnimation\<close> on its own object, so the members
  above change only where PhysicsAnimation.cpp assigns them.
  \<^verbatim>\<open>PhysicsAnimation::numberOfSubTimeSteps\<close> itself returns the fixed count and
  \<^verbatim>\<open>PhysicsAnimation::onInitialize\<close> itself does nothing.
\<close>

record 'z hooks =
  hook_onAdvanceTimeStep :: "double \<Rightarrow> 'z PhysicsAnimation_scheme \<Rightarrow> 'z"
  hook_numberOfSubTimeSteps :: "'z PhysicsAnimation_scheme \<Rightarrow> double \<Rightarrow> 32 word"
  hook_onInitialize :: "'z PhysicsAnimation_scheme \<Rightarrow> 'z"

definition setMembers :: "'z \<Rightarrow> 'z PhysicsAnimation_scheme \<Rightarrow> 'z PhysicsAnimation_scheme" where
  "setMembers z s = PhysicsAnimation.more_update (\<lambda>_. z) s"

definition baseHooks :: "'z hooks" where
  "baseHooks = \<lparr>hook_onAdvanceTimeStep = (\<lambda>dt s. PhysicsAnimation.more s),
                hook_numberOfSubTimeSteps = (\<lambda>s dt. numberOfFixedSubTimeSteps s),
                hook_onInitialize = (\<lambda>s. PhysicsAnimation.more s)\<rparr>"

text \<open>
  The calls of \<^verbatim>\<open>onInitialize\<close>, \<^verbatim>\<open>advanceTimeStep\<close> and
  \<^verbatim>\<open>onAdvanceTimeStep\<close>, and the calls of \<^verbatim>\<open>numberOfSubTimeSteps\<close> in the
  adaptive loop, are recorded, in order and with their argument (for the last, also its
  result), in a list of events that the functions of the model pass along and return: the
  claims about how often and with which interval a function runs are stated on it.
\<close>

datatype event =
  OnInitialize | AdvanceTimeStep double | NumberOfSubTimeSteps double "32 word" |
  OnAdvanceTimeStep double


text \<open>
  The fixed branch of \<^verbatim>\<open>advanceTimeStep\<close>: the loop
  \<^verbatim>\<open>for (unsigned int i = 0; i < N; ++i)\<close> as recursion on the number of iterations
  left.
\<close>

fun fixedLoop ::
  "'z hooks \<Rightarrow> double \<Rightarrow> nat \<Rightarrow>
   'z PhysicsAnimation_scheme \<times> event list \<Rightarrow> 'z PhysicsAnimation_scheme \<times> event list" where
  "fixedLoop H actualTimeInterval 0 (s, evs) = (s, evs)"
| "fixedLoop H actualTimeInterval (Suc n) (s, evs) =
     (let s1 = setMembers (hook_onAdvanceTimeStep H actualTimeInterval s) s
      in fixedLoop H actualTimeInterval n
           (s1\<lparr>currentTime := currentTime s1 + actualTimeInterval\<rparr>,
            evs @ [OnAdvanceTimeStep actualTimeInterval]))"

text \<open>
  The adaptive branch: \<^verbatim>\<open>while (remainingTime > kEpsilonD)\<close>. A loop may run
  forever, so not returning is the value \<open>None\<close>. A step count of 0 makes the quotient
  \<^verbatim>\<open>remainingTime / numSteps\<close> infinite, the substep is taken with it, and the
  remaining time is then minus infinity. The loop returns the state, the events and the
  remaining time it ended with.
\<close>

partial_function (option) adaptiveLoop ::
  "'z hooks \<Rightarrow> double \<Rightarrow> 'z PhysicsAnimation_scheme \<times> event list \<Rightarrow>
   (('z PhysicsAnimation_scheme \<times> event list) \<times> double) option" where
  "adaptiveLoop H remainingTime sl =
     (if remainingTime > Finite kEpsilonD
      then (let numSteps = hook_numberOfSubTimeSteps H (fst sl) remainingTime;
                actualTimeInterval = remainingTime / ofUnsignedInt numSteps;
                s1 = setMembers (hook_onAdvanceTimeStep H actualTimeInterval (fst sl)) (fst sl)
            in adaptiveLoop H (remainingTime - actualTimeInterval)
                 (s1\<lparr>currentTime := currentTime s1 + actualTimeInterval\<rparr>,
                  snd sl @ [NumberOfSubTimeSteps remainingTime numSteps,
                            OnAdvanceTimeStep actualTimeInterval]))
      else Some (sl, remainingTime))"

text \<open>\<^verbatim>\<open>advanceTimeStep(timeIntervalInSeconds)\<close>.\<close>

definition advanceTimeStep ::
  "'z hooks \<Rightarrow> double \<Rightarrow> 'z PhysicsAnimation_scheme \<times> event list \<Rightarrow>
   ('z PhysicsAnimation_scheme \<times> event list) option" where
  "advanceTimeStep H timeIntervalInSeconds = (\<lambda>(s, evs).
     (let s0 = s\<lparr>currentTime := timeInSeconds (currentFrame s)\<rparr>;
          evs0 = evs @ [AdvanceTimeStep timeIntervalInSeconds]
      in if isUsingFixedSubTimeSteps s0
         then Some (fixedLoop H
                 (timeIntervalInSeconds / ofUnsignedInt (numberOfFixedSubTimeSteps s0))
                 (unat (numberOfFixedSubTimeSteps s0)) (s0, evs0))
         else map_option fst (adaptiveLoop H timeIntervalInSeconds (s0, evs0))))"



text \<open>
  The substep sizes among the events, the step counts that \<^verbatim>\<open>numberOfSubTimeSteps\<close>
  returned, how many calls of \<^verbatim>\<open>advanceTimeStep\<close> there are, and the sum of a list of
  doubles, added up from the left.
\<close>

fun substepSizes :: "event list \<Rightarrow> double list" where
  "substepSizes [] = []"
| "substepSizes (OnAdvanceTimeStep dt # evs) = dt # substepSizes evs"
| "substepSizes (e # evs) = substepSizes evs"

fun stepCounts :: "event list \<Rightarrow> 32 word list" where
  "stepCounts [] = []"
| "stepCounts (NumberOfSubTimeSteps r n # evs) = n # stepCounts evs"
| "stepCounts (e # evs) = stepCounts evs"

fun advanceCalls :: "event list \<Rightarrow> nat" where
  "advanceCalls [] = 0"
| "advanceCalls (AdvanceTimeStep dt # evs) = Suc (advanceCalls evs)"
| "advanceCalls (e # evs) = advanceCalls evs"

definition totalTime :: "double list \<Rightarrow> double" where
  "totalTime ds = foldl (+) (Finite 0) ds"

text \<open>
  The adaptive policy in the words of the spec, on the events of one run of the loop that
  starts with the given remaining time: every substep follows a query of
  \<^verbatim>\<open>numberOfSubTimeSteps\<close> made with the time remaining at that moment, which exceeds
  the epsilon, its size is that remaining time divided by the count returned, the
  remaining time decreases by the size taken, and what is left after the last substep is
  the final remainder, which does not exceed the epsilon.
\<close>

fun recomputedFromRemaining :: "double \<Rightarrow> event list \<Rightarrow> double \<Rightarrow> bool" where
  "recomputedFromRemaining remaining [] final \<longleftrightarrow>
     final = remaining \<and> \<not> remaining > Finite kEpsilonD"
| "recomputedFromRemaining remaining (NumberOfSubTimeSteps r n # OnAdvanceTimeStep dt # evs) final \<longleftrightarrow>
     r = remaining \<and> remaining > Finite kEpsilonD \<and> dt = remaining / ofUnsignedInt n \<and>
     recomputedFromRemaining (remaining - dt) evs final"
| "recomputedFromRemaining remaining evs final \<longleftrightarrow> False"

text \<open>
  A freshly constructed animation (current frame index -1, one second per frame) in fixed
  mode with 2 substeps.
\<close>

definition exampleAnimation :: "unit PhysicsAnimation_scheme" where
  "exampleAnimation =
     \<lparr>currentFrame = \<lparr>frame_index = - 1, frame_timeIntervalInSeconds = Finite 1\<rparr>,
      isUsingFixedSubTimeSteps = True, numberOfFixedSubTimeSteps = 2,
      currentTime = Finite 0, isInitialized = False\<rparr>"

text \<open>What PhysicsAnimation.cpp leaves alone during the substeps.\<close>

definition sameSettings :: "'z PhysicsAnimation_scheme \<Rightarrow> 'z PhysicsAnimation_scheme \<Rightarrow> bool" where
  "sameSettings s s' \<longleftrightarrow>
     currentFrame s' = currentFrame s \<and> isUsingFixedSubTimeSteps s' = isUsingFixedSubTimeSteps s \<and>
     numberOfFixedSubTimeSteps s' = numberOfFixedSubTimeSteps s \<and> isInitialized s' = isInitialized s"


text \<open>The frame with a given index and one second per frame.\<close>

definition frameAt :: "32 word \<Rightarrow> Frame" where
  "frameAt i = \<lparr>frame_index = i, frame_timeIntervalInSeconds = Finite 1\<rparr>"

section \<open>GridFluidSolver3 (Engine/Simulation/GridFluidSolver3.cpp)\<close>

subsection \<open>Grids, fields and collaborators\<close>

text \<open>A scalar or vector field is the function that samples it.\<close>

type_synonym ScalarField3 = "Vector3D \<Rightarrow> real"
type_synonym VectorField3 = "Vector3D \<Rightarrow> Vector3D"

text \<open>
  The grid classes are not among the sources; the solver touches their shape and their
  sample arrays, which is what the records hold. A face-centered grid has one array per
  velocity component.
\<close>

record Grid3 =
  resolution :: Size3
  gridSpacing :: Vector3D
  origin :: Vector3D

record ScalarGrid3 = Grid3 +
  sg_data :: "real Array3"

record CollocatedVectorGrid3 = Grid3 +
  cg_data :: "Vector3D Array3"

record FaceCenteredGrid3 = Grid3 +
  fc_dataU :: "real Array3"
  fc_dataV :: "real Array3"
  fc_dataW :: "real Array3"

text \<open>
  A vector layer is a collocated grid, a face-centered grid or a grid of another layout:
  the two \<^verbatim>\<open>dynamic_pointer_cast\<close>s of \<^verbatim>\<open>computeAdvection\<close> tell them apart.
\<close>

datatype VectorGrid3 =
  Collocated CollocatedVectorGrid3 | FaceCentered FaceCenteredGrid3 | OtherVectorGrid

text \<open>
  \<^verbatim>\<open>GridSystemData3\<close>, as far as the solver reads it. The velocity is held once, in
  \<open>gs_velocity\<close>; the entry of the advectable vector list at \<open>gs_velocityIdx\<close> stands
  for the same grid and is never read (the loop of \<^verbatim>\<open>computeAdvection\<close> skips it).
\<close>

record GridSystemData3 =
  gs_resolution :: Size3
  gs_gridSpacing :: Vector3D
  gs_origin :: Vector3D
  gs_velocity :: FaceCenteredGrid3
  gs_velocityIdx :: nat
  gs_advectableScalarDataList :: "ScalarGrid3 list"
  gs_advectableVectorDataList :: "VectorGrid3 list"

text \<open>
  The pluggable solvers are objects with virtual member functions and no state the fluid
  solver reads: each is the function, or the functions, it dispatches to. An output grid
  is passed in with its content before the call and returned with its content after.
\<close>

record AdvectionSolver3 =
  advectScalar :: "ScalarGrid3 \<Rightarrow> FaceCenteredGrid3 \<Rightarrow> real \<Rightarrow> ScalarGrid3 \<Rightarrow> ScalarField3 \<Rightarrow> ScalarGrid3"
  advectCollocated :: "CollocatedVectorGrid3 \<Rightarrow> FaceCenteredGrid3 \<Rightarrow> real \<Rightarrow>
                       CollocatedVectorGrid3 \<Rightarrow> ScalarField3 \<Rightarrow> CollocatedVectorGrid3"
  advectFaceCentered :: "FaceCenteredGrid3 \<Rightarrow> FaceCenteredGrid3 \<Rightarrow> real \<Rightarrow>
                         FaceCenteredGrid3 \<Rightarrow> ScalarField3 \<Rightarrow> FaceCenteredGrid3"

type_synonym GridDiffusionSolver3 =
  "FaceCenteredGrid3 \<Rightarrow> double \<Rightarrow> real \<Rightarrow> FaceCenteredGrid3 \<Rightarrow> ScalarField3 \<Rightarrow> ScalarField3 \<Rightarrow>
   FaceCenteredGrid3"

record 'b GridPressureSolver3 =
  pressureSolve :: "FaceCenteredGrid3 \<Rightarrow> real \<Rightarrow> FaceCenteredGrid3 \<Rightarrow> ScalarField3 \<Rightarrow>
                    VectorField3 \<Rightarrow> ScalarField3 \<Rightarrow> bool \<Rightarrow> FaceCenteredGrid3"
  suggestedBoundaryConditionSolver :: "'b option"

text \<open>
  What the solver calls on classes and helpers that are not among the sources: the
  collider \<open>'x\<close>, the emitter \<open>'e\<close> (which may write to the grids it was given), the
  boundary condition solver \<open>'b\<close>, the grid classes' positions and cell-center values,
  and \<^verbatim>\<open>extrapolateToRegion\<close>. They are parameters of the model. A depth argument is
  the result of the conversion \<^verbatim>\<open>static_cast<unsigned int>(std::ceil(_maxCfl))\<close>,
  which may be undefined: the parameter receives that result as it is.
\<close>

record ('x, 'e, 'b) collaborators =
  update_collider :: "'x \<Rightarrow> double \<Rightarrow> real \<Rightarrow> 'x"
  update_emitter :: "'e \<Rightarrow> double \<Rightarrow> real \<Rightarrow> GridSystemData3 \<Rightarrow> 'e \<times> GridSystemData3"
  bc_updateCollider :: "'b \<Rightarrow> 'x option \<Rightarrow> Size3 \<Rightarrow> Vector3D \<Rightarrow> Vector3D \<Rightarrow> 'b"
  bc_constrainVelocity :: "'b \<Rightarrow> FaceCenteredGrid3 \<Rightarrow> error + 32 word \<Rightarrow> FaceCenteredGrid3"
  bc_colliderSdf :: "'b \<Rightarrow> ScalarField3"
  bc_colliderVelocityField :: "'b \<Rightarrow> VectorField3"
  bc_setClosedDomainBoundaryFlag :: "'b \<Rightarrow> int \<Rightarrow> 'b"
  valueAtCellCenter :: "FaceCenteredGrid3 \<Rightarrow> nat \<Rightarrow> nat \<Rightarrow> nat \<Rightarrow> Vector3D"
  uPosition :: "FaceCenteredGrid3 \<Rightarrow> nat \<Rightarrow> nat \<Rightarrow> nat \<Rightarrow> Vector3D"
  vPosition :: "FaceCenteredGrid3 \<Rightarrow> nat \<Rightarrow> nat \<Rightarrow> nat \<Rightarrow> Vector3D"
  wPosition :: "FaceCenteredGrid3 \<Rightarrow> nat \<Rightarrow> nat \<Rightarrow> nat \<Rightarrow> Vector3D"
  scalarDataPosition :: "ScalarGrid3 \<Rightarrow> nat \<Rightarrow> nat \<Rightarrow> nat \<Rightarrow> Vector3D"
  collocatedDataPosition :: "CollocatedVectorGrid3 \<Rightarrow> nat \<Rightarrow> nat \<Rightarrow> nat \<Rightarrow> Vector3D"
  extrapolateToRegion ::
    "real Array3 \<Rightarrow> 8 word Array3 \<Rightarrow> error + 32 word \<Rightarrow> real Array3 \<Rightarrow> real Array3"
  extrapolateToRegionVector ::
    "Vector3D Array3 \<Rightarrow> 8 word Array3 \<Rightarrow> error + 32 word \<Rightarrow> Vector3D Array3 \<Rightarrow> Vector3D Array3"

text \<open>
  The members of \<^verbatim>\<open>GridFluidSolver3\<close>, a subclass of \<^verbatim>\<open>PhysicsAnimation\<close>. A
  shared pointer that may be null is an option. The viscosity coefficient and the maximum
  CFL number are doubles that a setter stores as \<^verbatim>\<open>std::max\<close> returns them, so they
  may be infinite or NaN.
\<close>

record ('x, 'e, 'b) GridFluidSolver3 = PhysicsAnimation +
  gravity :: Vector3D
  viscosityCoefficient :: double
  maxCfl :: double
  useCompressedLinearSys :: bool
  closedDomainBoundaryFlag :: int
  grids :: GridSystemData3
  collider :: "'x option"
  emitter :: "'e option"
  advectionSolver :: "AdvectionSolver3 option"
  diffusionSolver :: "GridDiffusionSolver3 option"
  pressureSolver :: "'b GridPressureSolver3 option"
  boundaryConditionSolver :: "'b option"

subsection \<open>Helpers\<close>

text \<open>Modelled from the spec: \<^verbatim>\<open>min3\<close> of the math utilities, the least of three values.\<close>

definition min3 :: "real \<Rightarrow> real \<Rightarrow> real \<Rightarrow> real" where
  "min3 a b c = min (min a b) c"

text \<open>
  Modelled from the spec: \<^verbatim>\<open>kMaxD\<close> of Utils/Constants.h, the largest double, and
  \<^verbatim>\<open>isInsideSdf\<close> of the level set utilities: a point is inside where the signed
  distance is negative.
\<close>

definition kMaxD :: real where
  "kMaxD = (2 - 1 / 2 ^ 52) * 2 ^ 1023"

definition isInsideSdf :: "real \<Rightarrow> bool" where
  "isInsideSdf phi \<longleftrightarrow> phi < 0"

text \<open>A division of doubles; by zero its result is not a finite number.\<close>

definition divD :: "real \<Rightarrow> real \<Rightarrow> error + real" where
  "divD a b = (if b = 0 then Inl NotFinite else Inr (a / b))"

definition vadd :: "Vector3D \<Rightarrow> Vector3D \<Rightarrow> Vector3D" where
  "vadd a b = \<lparr>vec_x = vec_x a + vec_x b, vec_y = vec_y a + vec_y b, vec_z = vec_z a + vec_z b\<rparr>"

definition smul :: "real \<Rightarrow> Vector3D \<Rightarrow> Vector3D" where
  "smul c a = \<lparr>vec_x = c * vec_x a, vec_y = c * vec_y a, vec_z = c * vec_z a\<rparr>"

definition lengthSquared :: "Vector3D \<Rightarrow> real" where
  "lengthSquared a = vec_x a * vec_x a + vec_y a * vec_y a + vec_z a * vec_z a"

text \<open>
  The cells in the order of \<^verbatim>\<open>forEachCellIndex\<close> (i fastest, k slowest); an array
  whose every element is updated by the same function (\<^verbatim>\<open>forEachUIndex\<close> with
  \<^verbatim>\<open>u(i, j, k) += c\<close>); an array of a given size filled index by index
  (\<^verbatim>\<open>parallelForEachIndex\<close> on a fresh marker array).
\<close>

definition cellIndices :: "Size3 \<Rightarrow> (nat \<times> nat \<times> nat) list" where
  "cellIndices sz =
     concat (map (\<lambda>k. concat (map (\<lambda>j. map (\<lambda>i. (i, j, k)) [0..<size_x sz]) [0..<size_y sz]))
               [0..<size_z sz])"

definition forEachElement :: "('a \<Rightarrow> 'a) \<Rightarrow> 'a Array3 \<Rightarrow> 'a Array3" where
  "forEachElement f a = a\<lparr>arr_data := map f (arr_data a)\<rparr>"

definition tabulate3 :: "Size3 \<Rightarrow> (nat \<Rightarrow> nat \<Rightarrow> nat \<Rightarrow> 'a) \<Rightarrow> 'a Array3" where
  "tabulate3 sz f =
     \<lparr>arr_size = sz,
      arr_data = map (\<lambda>n. f (n mod size_x sz) ((n div size_x sz) mod size_y sz)
                             (n div (size_x sz * size_y sz)))
                     [0..<size_x sz * size_y sz * size_z sz]\<rparr>"

subsection \<open>Setters, CFL number and substep count\<close>

















text \<open>
  \<^verbatim>\<open>cfl(timeIntervalInSeconds)\<close>: the running maximum starts at 0 and is raised by
  each component of the cell-center velocity plus interval times gravity, cell by cell;
  the result is that maximum times the interval, divided by the least grid spacing.
\<close>

definition cfl ::
  "('x, 'e, 'b) collaborators \<Rightarrow> real \<Rightarrow> ('x, 'e, 'b) GridFluidSolver3 \<Rightarrow> error + real" where
  "cfl E dt s =
     (let vel = gs_velocity (grids s);
          maxVel = fold (\<lambda>(i, j, k) (maxVel :: real).
                      (let v = vadd (valueAtCellCenter E vel i j k) (smul dt (gravity s))
                       in stdMax (stdMax (stdMax maxVel (vec_x v)) (vec_y v)) (vec_z v)))
                    (cellIndices (resolution vel)) 0;
          spacing = gs_gridSpacing (grids s);
          minGridSize = min3 (vec_x spacing) (vec_y spacing) (vec_z spacing)
      in divD (maxVel * dt) minGridSize)"


text \<open>
  The depth \<^verbatim>\<open>static_cast<unsigned int>(std::ceil(_maxCfl))\<close> of
  \<^verbatim>\<open>applyBoundaryCondition\<close> and \<^verbatim>\<open>extrapolateIntoCollider\<close>.
\<close>

definition depthOfMaxCfl :: "('x, 'e, 'b) GridFluidSolver3 \<Rightarrow> error + 32 word" where
  "depthOfMaxCfl s = toUnsignedInt (dceil (maxCfl s))"

text \<open>
  The CFL number in the words of the spec: the maximum over all cells of the componentwise
  absolute value of cell-center velocity plus interval times gravity, times the interval,
  divided by the least grid spacing.
\<close>

definition cflOfSpec ::
  "('x, 'e, 'b) collaborators \<Rightarrow> real \<Rightarrow> ('x, 'e, 'b) GridFluidSolver3 \<Rightarrow> real" where
  "cflOfSpec E dt s =
     (let vel = gs_velocity (grids s);
          speeds = concat (map (\<lambda>(i, j, k).
                     (let v = vadd (valueAtCellCenter E vel i j k) (smul dt (gravity s))
                      in [\<bar>vec_x v\<bar>, \<bar>vec_y v\<bar>, \<bar>vec_z v\<bar>]))
                   (cellIndices (resolution vel)));
          spacing = gs_gridSpacing (grids s)
      in fold max speeds 0 * dt / min3 (vec_x spacing) (vec_y spacing) (vec_z spacing))"



subsection \<open>The substep pipeline\<close>

definition velocity :: "('x, 'e, 'b) GridFluidSolver3 \<Rightarrow> FaceCenteredGrid3" where
  "velocity s = gs_velocity (grids s)"

definition setVelocity ::
  "FaceCenteredGrid3 \<Rightarrow> ('x, 'e, 'b) GridFluidSolver3 \<Rightarrow> ('x, 'e, 'b) GridFluidSolver3" where
  "setVelocity vel s = s\<lparr>grids := (grids s)\<lparr>gs_velocity := vel\<rparr>\<rparr>"

text \<open>
  \<^verbatim>\<open>colliderSdf()\<close> and \<^verbatim>\<open>colliderVelocityField()\<close> dereference the boundary
  condition solver without a null check; \<^verbatim>\<open>fluidSdf()\<close> is the constant field of
  value \<^verbatim>\<open>-kMaxD\<close>.
\<close>

definition colliderSdf ::
  "('x, 'e, 'b) collaborators \<Rightarrow> ('x, 'e, 'b) GridFluidSolver3 \<Rightarrow> error + ScalarField3" where
  "colliderSdf E s =
     (case boundaryConditionSolver s of None \<Rightarrow> Inl NullPointer | Some b \<Rightarrow> Inr (bc_colliderSdf E b))"

definition colliderVelocityField ::
  "('x, 'e, 'b) collaborators \<Rightarrow> ('x, 'e, 'b) GridFluidSolver3 \<Rightarrow> error + VectorField3" where
  "colliderVelocityField E s =
     (case boundaryConditionSolver s of
        None \<Rightarrow> Inl NullPointer
      | Some b \<Rightarrow> Inr (bc_colliderVelocityField E b))"

definition fluidSdf :: ScalarField3 where
  "fluidSdf = (\<lambda>p. - kMaxD)"

text \<open>
  \<^verbatim>\<open>applyBoundaryCondition()\<close>: with a boundary condition solver, the velocity is
  constrained with the depth \<^verbatim>\<open>ceil(_maxCfl)\<close>. (The velocity pointer of the grid
  system is never null.)
\<close>

definition applyBoundaryCondition ::
  "('x, 'e, 'b) collaborators \<Rightarrow> ('x, 'e, 'b) GridFluidSolver3 \<Rightarrow> ('x, 'e, 'b) GridFluidSolver3" where
  "applyBoundaryCondition E s =
     (case boundaryConditionSolver s of
        None \<Rightarrow> s
      | Some b \<Rightarrow> setVelocity (bc_constrainVelocity E b (velocity s) (depthOfMaxCfl s)) s)"

definition updateCollider ::
  "('x, 'e, 'b) collaborators \<Rightarrow> real \<Rightarrow> ('x, 'e, 'b) GridFluidSolver3 \<Rightarrow> ('x, 'e, 'b) GridFluidSolver3" where
  "updateCollider E dt s =
     (case collider s of
        None \<Rightarrow> s
      | Some c \<Rightarrow> s\<lparr>collider := Some (update_collider E c (currentTime s) dt)\<rparr>)"

definition updateEmitter ::
  "('x, 'e, 'b) collaborators \<Rightarrow> real \<Rightarrow> ('x, 'e, 'b) GridFluidSolver3 \<Rightarrow> ('x, 'e, 'b) GridFluidSolver3" where
  "updateEmitter E dt s =
     (case emitter s of
        None \<Rightarrow> s
      | Some e \<Rightarrow>
          (let (e', g') = update_emitter E e (currentTime s) dt (grids s)
           in s\<lparr>emitter := Some e', grids := g'\<rparr>))"

text \<open>The two callbacks, empty in this class.\<close>

definition onBeginAdvanceTimeStep ::
  "real \<Rightarrow> ('x, 'e, 'b) GridFluidSolver3 \<Rightarrow> ('x, 'e, 'b) GridFluidSolver3" where
  "onBeginAdvanceTimeStep dt s = s"

definition onEndAdvanceTimeStep ::
  "real \<Rightarrow> ('x, 'e, 'b) GridFluidSolver3 \<Rightarrow> ('x, 'e, 'b) GridFluidSolver3" where
  "onEndAdvanceTimeStep dt s = s"

definition beginAdvanceTimeStep ::
  "('x, 'e, 'b) collaborators \<Rightarrow> real \<Rightarrow> ('x, 'e, 'b) GridFluidSolver3 \<Rightarrow> ('x, 'e, 'b) GridFluidSolver3" where
  "beginAdvanceTimeStep E dt s =
     (let s1 = updateCollider E dt s;
          s2 = updateEmitter E dt s1;
          s3 = (case boundaryConditionSolver s2 of
                  None \<Rightarrow> s2
                | Some b \<Rightarrow>
                    s2\<lparr>boundaryConditionSolver :=
                         Some (bc_updateCollider E b (collider s2) (gs_resolution (grids s2))
                                 (gs_gridSpacing (grids s2)) (gs_origin (grids s2)))\<rparr>);
          s4 = applyBoundaryCondition E s3
      in onBeginAdvanceTimeStep dt s4)"

definition endAdvanceTimeStep ::
  "real \<Rightarrow> ('x, 'e, 'b) GridFluidSolver3 \<Rightarrow> ('x, 'e, 'b) GridFluidSolver3" where
  "endAdvanceTimeStep dt s = onEndAdvanceTimeStep dt s"

text \<open>
  \<^verbatim>\<open>computeGravity\<close>: each component of gravity above the epsilon in magnitude is
  added, times the interval, to every sample of its velocity array.
\<close>

definition computeGravity ::
  "('x, 'e, 'b) collaborators \<Rightarrow> real \<Rightarrow> ('x, 'e, 'b) GridFluidSolver3 \<Rightarrow> ('x, 'e, 'b) GridFluidSolver3" where
  "computeGravity E dt s =
     (if lengthSquared (gravity s) > kEpsilonD
      then (let vel = velocity s;
                vel1 = (if \<bar>vec_x (gravity s)\<bar> > kEpsilonD
                        then vel\<lparr>fc_dataU := forEachElement (\<lambda>u. u + dt * vec_x (gravity s)) (fc_dataU vel)\<rparr>
                        else vel);
                vel2 = (if \<bar>vec_y (gravity s)\<bar> > kEpsilonD
                        then vel1\<lparr>fc_dataV := forEachElement (\<lambda>v. v + dt * vec_y (gravity s)) (fc_dataV vel1)\<rparr>
                        else vel1);
                vel3 = (if \<bar>vec_z (gravity s)\<bar> > kEpsilonD
                        then vel2\<lparr>fc_dataW := forEachElement (\<lambda>w. w + dt * vec_z (gravity s)) (fc_dataW vel2)\<rparr>
                        else vel2)
            in applyBoundaryCondition E (setVelocity vel3 s))
      else s)"

definition computeExternalForces ::
  "('x, 'e, 'b) collaborators \<Rightarrow> real \<Rightarrow> ('x, 'e, 'b) GridFluidSolver3 \<Rightarrow> ('x, 'e, 'b) GridFluidSolver3" where
  "computeExternalForces E dt s = computeGravity E dt s"

text \<open>
  \<^verbatim>\<open>computeViscosity\<close>: runs when the diffusion solver is not null and the viscosity
  coefficient exceeds the epsilon.
\<close>

definition computeViscosity ::
  "('x, 'e, 'b) collaborators \<Rightarrow> real \<Rightarrow> ('x, 'e, 'b) GridFluidSolver3 \<Rightarrow>
   error + ('x, 'e, 'b) GridFluidSolver3" where
  "computeViscosity E dt s =
     (case diffusionSolver s of
        None \<Rightarrow> Inr s
      | Some solve \<Rightarrow>
          if viscosityCoefficient s > Finite kEpsilonD
          then (let vel = velocity s; vel0 = vel
                in bindE (colliderSdf E s) (\<lambda>sdf.
                     Inr (applyBoundaryCondition E
                            (setVelocity (solve vel0 (viscosityCoefficient s) dt vel sdf fluidSdf) s))))
          else Inr s)"

text \<open>\<^verbatim>\<open>computePressure\<close>: runs when the pressure solver is not null.\<close>

definition computePressure ::
  "('x, 'e, 'b) collaborators \<Rightarrow> real \<Rightarrow> ('x, 'e, 'b) GridFluidSolver3 \<Rightarrow>
   error + ('x, 'e, 'b) GridFluidSolver3" where
  "computePressure E dt s =
     (case pressureSolver s of
        None \<Rightarrow> Inr s
      | Some p \<Rightarrow>
          (let vel = velocity s; vel0 = vel
           in bindE (colliderSdf E s) (\<lambda>sdf.
              bindE (colliderVelocityField E s) (\<lambda>colliderVel.
                Inr (applyBoundaryCondition E
                       (setVelocity (pressureSolve p vel0 dt vel sdf colliderVel fluidSdf
                                       (useCompressedLinearSys s)) s))))))"

text \<open>
  The three overloads of \<^verbatim>\<open>extrapolateIntoCollider\<close>: a marker array of the size of
  the data, 0 where the collider's signed distance at the data position is inside and 1
  elsewhere, then \<^verbatim>\<open>extrapolateToRegion\<close> with the depth \<^verbatim>\<open>ceil(_maxCfl)\<close>. In
  \<^verbatim>\<open>computeAdvection\<close> each call follows a call of \<^verbatim>\<open>colliderSdf()\<close>, so the
  dereference is made once, in front.
\<close>

definition markerOf :: "ScalarField3 \<Rightarrow> Size3 \<Rightarrow> (nat \<Rightarrow> nat \<Rightarrow> nat \<Rightarrow> Vector3D) \<Rightarrow> 8 word Array3" where
  "markerOf sdf sz pos = tabulate3 sz (\<lambda>i j k. if isInsideSdf (sdf (pos i j k)) then 0 else 1)"

definition extrapolateIntoColliderScalar ::
  "('x, 'e, 'b) collaborators \<Rightarrow> ('x, 'e, 'b) GridFluidSolver3 \<Rightarrow> ScalarGrid3 \<Rightarrow> error + ScalarGrid3" where
  "extrapolateIntoColliderScalar E s grid =
     bindE (colliderSdf E s) (\<lambda>sdf.
       (let marker = markerOf sdf (arr_size (sg_data grid)) (scalarDataPosition E grid);
            depth = depthOfMaxCfl s
        in Inr (grid\<lparr>sg_data := extrapolateToRegion E (sg_data grid) marker depth (sg_data grid)\<rparr>)))"

definition extrapolateIntoColliderCollocated ::
  "('x, 'e, 'b) collaborators \<Rightarrow> ('x, 'e, 'b) GridFluidSolver3 \<Rightarrow> CollocatedVectorGrid3 \<Rightarrow>
   error + CollocatedVectorGrid3" where
  "extrapolateIntoColliderCollocated E s grid =
     bindE (colliderSdf E s) (\<lambda>sdf.
       (let marker = markerOf sdf (arr_size (cg_data grid)) (collocatedDataPosition E grid);
            depth = depthOfMaxCfl s
        in Inr (grid\<lparr>cg_data := extrapolateToRegionVector E (cg_data grid) marker depth (cg_data grid)\<rparr>)))"

definition extrapolateIntoColliderFaceCentered ::
  "('x, 'e, 'b) collaborators \<Rightarrow> ('x, 'e, 'b) GridFluidSolver3 \<Rightarrow> FaceCenteredGrid3 \<Rightarrow>
   error + FaceCenteredGrid3" where
  "extrapolateIntoColliderFaceCentered E s grid =
     bindE (colliderSdf E s) (\<lambda>sdf.
       (let uMarker = markerOf sdf (arr_size (fc_dataU grid)) (uPosition E grid);
            vMarker = markerOf sdf (arr_size (fc_dataV grid)) (vPosition E grid);
            wMarker = markerOf sdf (arr_size (fc_dataW grid)) (wPosition E grid);
            depth = depthOfMaxCfl s
        in Inr (grid\<lparr>fc_dataU := extrapolateToRegion E (fc_dataU grid) uMarker depth (fc_dataU grid),
                     fc_dataV := extrapolateToRegion E (fc_dataV grid) vMarker depth (fc_dataV grid),
                     fc_dataW := extrapolateToRegion E (fc_dataW grid) wMarker depth (fc_dataW grid)\<rparr>)))"

text \<open>
  \<^verbatim>\<open>computeAdvection\<close>: runs when the advection solver is not null. Every advectable
  scalar layer and every advectable vector layer but the velocity is advected through the
  current velocity from its own clone and extrapolated into the collider; then the velocity
  is advected through its clone, and the boundary condition is applied.
\<close>

definition advectScalarLayer ::
  "('x, 'e, 'b) collaborators \<Rightarrow> AdvectionSolver3 \<Rightarrow> real \<Rightarrow> nat \<Rightarrow>
   ('x, 'e, 'b) GridFluidSolver3 \<Rightarrow> error + ('x, 'e, 'b) GridFluidSolver3" where
  "advectScalarLayer E solver dt i s =
     bindE (vecAt (gs_advectableScalarDataList (grids s)) i) (\<lambda>grid.
     bindE (colliderSdf E s) (\<lambda>sdf.
       (let grid0 = grid
        in bindE (extrapolateIntoColliderScalar E s
                    (advectScalar solver grid0 (velocity s) dt grid sdf)) (\<lambda>grid'.
             Inr (s\<lparr>grids := (grids s)\<lparr>gs_advectableScalarDataList :=
                      (gs_advectableScalarDataList (grids s))[i := grid']\<rparr>\<rparr>)))))"

definition advectVectorLayer ::
  "('x, 'e, 'b) collaborators \<Rightarrow> AdvectionSolver3 \<Rightarrow> real \<Rightarrow> nat \<Rightarrow>
   ('x, 'e, 'b) GridFluidSolver3 \<Rightarrow> error + ('x, 'e, 'b) GridFluidSolver3" where
  "advectVectorLayer E solver dt i s =
     (if i = gs_velocityIdx (grids s) then Inr s
      else bindE (vecAt (gs_advectableVectorDataList (grids s)) i) (\<lambda>layer.
        (case layer of
           Collocated grid \<Rightarrow>
             bindE (colliderSdf E s) (\<lambda>sdf.
             bindE (extrapolateIntoColliderCollocated E s
                      (advectCollocated solver grid (velocity s) dt grid sdf)) (\<lambda>grid'.
               Inr (s\<lparr>grids := (grids s)\<lparr>gs_advectableVectorDataList :=
                        (gs_advectableVectorDataList (grids s))[i := Collocated grid']\<rparr>\<rparr>)))
         | FaceCentered grid \<Rightarrow>
             bindE (colliderSdf E s) (\<lambda>sdf.
             bindE (extrapolateIntoColliderFaceCentered E s
                      (advectFaceCentered solver grid (velocity s) dt grid sdf)) (\<lambda>grid'.
               Inr (s\<lparr>grids := (grids s)\<lparr>gs_advectableVectorDataList :=
                        (gs_advectableVectorDataList (grids s))[i := FaceCentered grid']\<rparr>\<rparr>)))
         | OtherVectorGrid \<Rightarrow> Inr s)))"

definition computeAdvection ::
  "('x, 'e, 'b) collaborators \<Rightarrow> real \<Rightarrow> ('x, 'e, 'b) GridFluidSolver3 \<Rightarrow>
   error + ('x, 'e, 'b) GridFluidSolver3" where
  "computeAdvection E dt s =
     (case advectionSolver s of
        None \<Rightarrow> Inr s
      | Some solver \<Rightarrow>
          bindE (forEachE [0..<length (gs_advectableScalarDataList (grids s))]
                   (advectScalarLayer E solver dt) s) (\<lambda>s1.
          bindE (forEachE [0..<length (gs_advectableVectorDataList (grids s1))]
                   (advectVectorLayer E solver dt) s1) (\<lambda>s2.
          bindE (colliderSdf E s2) (\<lambda>sdf.
            (let vel = velocity s2; vel0 = vel
             in Inr (applyBoundaryCondition E
                       (setVelocity (advectFaceCentered solver vel0 vel0 dt vel sdf) s2)))))))"

text \<open>
  \<^verbatim>\<open>onAdvanceTimeStep(timeIntervalInSeconds)\<close>: nothing is done on a grid with a zero
  in its resolution; else the stages run in order.
\<close>

definition onAdvanceTimeStep ::
  "('x, 'e, 'b) collaborators \<Rightarrow> real \<Rightarrow> ('x, 'e, 'b) GridFluidSolver3 \<Rightarrow>
   error + ('x, 'e, 'b) GridFluidSolver3" where
  "onAdvanceTimeStep E dt s =
     (if size_x (gs_resolution (grids s)) = 0 \<or> size_y (gs_resolution (grids s)) = 0 \<or>
         size_z (gs_resolution (grids s)) = 0
      then Inr s
      else bindE (computeViscosity E dt (computeExternalForces E dt (beginAdvanceTimeStep E dt s)))
             (\<lambda>s3. bindE (computePressure E dt s3)
             (\<lambda>s4. bindE (computeAdvection E dt s4)
             (\<lambda>s5. Inr (endAdvanceTimeStep dt s5)))))"

subsection \<open>Concrete inputs\<close>

text \<open>
  Collaborators that do nothing, over one-element types; the cell-center value of a
  velocity grid is here the triple of the first samples of its three arrays.
\<close>

definition exampleCollaborators :: "(unit, unit, unit) collaborators" where
  "exampleCollaborators =
     \<lparr>update_collider = (\<lambda>c t dt. c),
      update_emitter = (\<lambda>e t dt g. (e, g)),
      bc_updateCollider = (\<lambda>b c sz sp og. b),
      bc_constrainVelocity = (\<lambda>b vel depth. vel),
      bc_colliderSdf = (\<lambda>b p. 1),
      bc_colliderVelocityField = (\<lambda>b p. \<lparr>vec_x = 0, vec_y = 0, vec_z = 0\<rparr>),
      bc_setClosedDomainBoundaryFlag = (\<lambda>b flag. b),
      valueAtCellCenter = (\<lambda>vel i j k.
         \<lparr>vec_x = hd (arr_data (fc_dataU vel)), vec_y = hd (arr_data (fc_dataV vel)),
          vec_z = hd (arr_data (fc_dataW vel))\<rparr>),
      uPosition = (\<lambda>g i j k. \<lparr>vec_x = 0, vec_y = 0, vec_z = 0\<rparr>),
      vPosition = (\<lambda>g i j k. \<lparr>vec_x = 0, vec_y = 0, vec_z = 0\<rparr>),
      wPosition = (\<lambda>g i j k. \<lparr>vec_x = 0, vec_y = 0, vec_z = 0\<rparr>),
      scalarDataPosition = (\<lambda>g i j k. \<lparr>vec_x = 0, vec_y = 0, vec_z = 0\<rparr>),
      collocatedDataPosition = (\<lambda>g i j k. \<lparr>vec_x = 0, vec_y = 0, vec_z = 0\<rparr>),
      extrapolateToRegion = (\<lambda>src marker depth dst. dst),
      extrapolateToRegionVector = (\<lambda>src marker depth dst. dst)\<rparr>"

text \<open>
  A solver on a grid of one cell of spacing 1 whose velocity is (-1, 0, 0) everywhere,
  without gravity, without collider, emitter and solvers.
\<close>

definition oneCell :: Size3 where
  "oneCell = \<lparr>size_x = 1, size_y = 1, size_z = 1\<rparr>"

definition unitVector :: Vector3D where
  "unitVector = \<lparr>vec_x = 1, vec_y = 1, vec_z = 1\<rparr>"

definition zeroVector :: Vector3D where
  "zeroVector = \<lparr>vec_x = 0, vec_y = 0, vec_z = 0\<rparr>"

definition exampleVelocity :: FaceCenteredGrid3 where
  "exampleVelocity =
     \<lparr>resolution = oneCell, gridSpacing = unitVector, origin = zeroVector,
      fc_dataU = \<lparr>arr_size = \<lparr>size_x = 2, size_y = 1, size_z = 1\<rparr>, arr_data = [- 1, - 1]\<rparr>,
      fc_dataV = \<lparr>arr_size = \<lparr>size_x = 1, size_y = 2, size_z = 1\<rparr>, arr_data = [0, 0]\<rparr>,
      fc_dataW = \<lparr>arr_size = \<lparr>size_x = 1, size_y = 1, size_z = 2\<rparr>, arr_data = [0, 0]\<rparr>\<rparr>"

definition exampleSolver :: "(unit, unit, unit) GridFluidSolver3" where
  "exampleSolver =
     \<lparr>currentFrame = frameAt (- 1), isUsingFixedSubTimeSteps = False,
      numberOfFixedSubTimeSteps = 1, currentTime = Finite 0, isInitialized = False,
      gravity = zeroVector, viscosityCoefficient = Finite 0, maxCfl = Finite 5,
      useCompressedLinearSys = False, closedDomainBoundaryFlag = 63,
      grids = \<lparr>gs_resolution = oneCell, gs_gridSpacing = unitVector, gs_origin = zeroVector,
               gs_velocity = exampleVelocity, gs_velocityIdx = 0,
               gs_advectableScalarDataList = [], gs_advectableVectorDataList = [OtherVectorGrid]\<rparr>,
      collider = None, emitter = None, advectionSolver = None, diffusionSolver = None,
      pressureSolver = None, boundaryConditionSolver = Some ()\<rparr>"

text \<open>A vector without a negative component.\<close>

definition nonNegative :: "Vector3D \<Rightarrow> bool" where
  "nonNegative v \<longleftrightarrow> 0 \<le> vec_x v \<and> 0 \<le> vec_y v \<and> 0 \<le> vec_z v"

text \<open>The test that opens \<^verbatim>\<open>onAdvanceTimeStep\<close>: a component of the resolution is zero.\<close>

definition emptyGrid :: "('x, 'e, 'b) GridFluidSolver3 \<Rightarrow> bool" where
  "emptyGrid s \<longleftrightarrow>
     size_x (gs_resolution (grids s)) = 0 \<or> size_y (gs_resolution (grids s)) = 0 \<or>
     size_z (gs_resolution (grids s)) = 0"

text \<open>The example solver on a grid without cells along x.\<close>

definition exampleEmptySolver :: "(unit, unit, unit) GridFluidSolver3" where
  "exampleEmptySolver =
     exampleSolver\<lparr>grids := (grids exampleSolver)\<lparr>gs_resolution := \<lparr>size_x = 0, size_y = 1, size_z = 1\<rparr>\<rparr>\<rparr>"


section \<open>GridBlockedBoundaryConditionSolver2 (Engine/Simulation/GridBlockedBoundaryConditionSolver2.cpp)\<close>

subsection \<open>2-D arrays and the face-centered grid\<close>

record Vector2D =
  v2_x :: real
  v2_y :: real

text \<open>
  \<^verbatim>\<open>Array2\<close> and \<^verbatim>\<open>FaceCenteredGrid2\<close> are not among the sources. The array is
  modelled after \<^verbatim>\<open>Array3\<close>: element \<open>(i, j)\<close> lives at \<open>i + width * j\<close>, and
  \<^verbatim>\<open>operator()\<close> asserts that the index is inside. The grid holds its resolution and
  one array per velocity component; by the spec the u-array has one sample more than the
  resolution along x, the v-array one more along y.
\<close>

record 'a Array2 =
  arr2_size :: Size2
  arr2_data :: "'a list"

definition linearIndex2 :: "Size2 \<Rightarrow> nat \<Rightarrow> nat \<Rightarrow> nat" where
  "linearIndex2 sz i j = i + size2_x sz * j"

definition at2 :: "'a Array2 \<Rightarrow> nat \<Rightarrow> nat \<Rightarrow> error + 'a" where
  "at2 a i j =
     (if i < size2_x (arr2_size a) \<and> j < size2_y (arr2_size a)
      then (if linearIndex2 (arr2_size a) i j < length (arr2_data a)
            then Inr (arr2_data a ! linearIndex2 (arr2_size a) i j)
            else Inl OutOfRange)
      else Inl AssertionFailed)"

definition set2 :: "'a Array2 \<Rightarrow> nat \<Rightarrow> nat \<Rightarrow> 'a \<Rightarrow> error + 'a Array2" where
  "set2 a i j v =
     (if i < size2_x (arr2_size a) \<and> j < size2_y (arr2_size a)
      then (if linearIndex2 (arr2_size a) i j < length (arr2_data a)
            then Inr (a\<lparr>arr2_data := (arr2_data a)[linearIndex2 (arr2_size a) i j := v]\<rparr>)
            else Inl OutOfRange)
      else Inl AssertionFailed)"

definition wellFormed2 :: "'a Array2 \<Rightarrow> bool" where
  "wellFormed2 a \<longleftrightarrow> length (arr2_data a) = size2_x (arr2_size a) * size2_y (arr2_size a)"

definition filled2 :: "Size2 \<Rightarrow> 'a \<Rightarrow> 'a Array2" where
  "filled2 sz v = \<lparr>arr2_size = sz, arr2_data = replicate (size2_x sz * size2_y sz) v\<rparr>"

text \<open>The indices in the order of \<^verbatim>\<open>forEachIndex\<close>: i fastest.\<close>

definition cellIndices2 :: "Size2 \<Rightarrow> (nat \<times> nat) list" where
  "cellIndices2 sz = concat (map (\<lambda>j. map (\<lambda>i. (i, j)) [0..<size2_x sz]) [0..<size2_y sz])"

record FaceCenteredGrid2 =
  fc2_resolution :: Size2
  fc2_dataU :: "real Array2"
  fc2_dataV :: "real Array2"

definition setU :: "FaceCenteredGrid2 \<Rightarrow> nat \<Rightarrow> nat \<Rightarrow> real \<Rightarrow> error + FaceCenteredGrid2" where
  "setU vel i j x = bindE (set2 (fc2_dataU vel) i j x) (\<lambda>u. Inr (vel\<lparr>fc2_dataU := u\<rparr>))"

definition setV :: "FaceCenteredGrid2 \<Rightarrow> nat \<Rightarrow> nat \<Rightarrow> real \<Rightarrow> error + FaceCenteredGrid2" where
  "setV vel i j x = bindE (set2 (fc2_dataV vel) i j x) (\<lambda>v. Inr (vel\<lparr>fc2_dataV := v\<rparr>))"

subsection \<open>The solver\<close>

definition kFluid :: "8 word" where
  "kFluid = 1"

definition kCollider :: "8 word" where
  "kCollider = 0"

text \<open>
  The members the blocked solver uses: the collider (possibly null) and the domain flag of
  the abstract base class, the samples of the cell-centered collider SDF that the
  fractional base class caches, and the marker array of the blocked solver itself.
\<close>

record 'c GridBlockedBoundaryConditionSolver2 =
  bs_collider :: "'c option"
  bs_closedDomainBoundaryFlag :: int
  bs_colliderSdf :: "real Array2"
  bs_marker :: "8 word Array2"

text \<open>
  What the solver calls on code that is not among the sources: the collider's
  \<^verbatim>\<open>velocityAt\<close>, the face positions of the grid, and the two member functions of
  \<^verbatim>\<open>GridFractionalBoundaryConditionSolver2\<close> that the blocked solver extends.
\<close>

record 'c collaborators2 =
  velocityAt :: "'c \<Rightarrow> Vector2D \<Rightarrow> Vector2D"
  uPosition2 :: "FaceCenteredGrid2 \<Rightarrow> nat \<Rightarrow> nat \<Rightarrow> Vector2D"
  vPosition2 :: "FaceCenteredGrid2 \<Rightarrow> nat \<Rightarrow> nat \<Rightarrow> Vector2D"
  fractionalConstrainVelocity ::
    "'c GridBlockedBoundaryConditionSolver2 \<Rightarrow> FaceCenteredGrid2 \<Rightarrow> nat \<Rightarrow> FaceCenteredGrid2"
  fractionalOnColliderUpdated ::
    "Size2 \<Rightarrow> Vector2D \<Rightarrow> Vector2D \<Rightarrow> 'c GridBlockedBoundaryConditionSolver2 \<Rightarrow>
     'c GridBlockedBoundaryConditionSolver2"

text \<open>\<^verbatim>\<open>collider()->velocityAt(p)\<close>: the collider pointer is dereferenced without a check.\<close>

definition colliderVelocityAt ::
  "'c collaborators2 \<Rightarrow> 'c GridBlockedBoundaryConditionSolver2 \<Rightarrow> Vector2D \<Rightarrow> error + Vector2D" where
  "colliderVelocityAt E solver p =
     (case bs_collider solver of None \<Rightarrow> Inl NullPointer | Some c \<Rightarrow> Inr (velocityAt E c p))"

text \<open>\<open>size - 1\<close> on a \<^verbatim>\<open>size_t\<close>: 0 wraps around to the largest value.\<close>

definition decSize :: "nat \<Rightarrow> nat" where
  "decSize n = (n + 2 ^ 64 - 1) mod 2 ^ 64"

text \<open>
  One of the four tests of the loop body, \<^verbatim>\<open>guard && _marker(neighbour) == kFluid\<close>,
  with its assignment: the neighbour is read only when the guard holds.
\<close>

definition whenFluid ::
  "bool \<Rightarrow> (error + 8 word) \<Rightarrow> (FaceCenteredGrid2 \<Rightarrow> error + FaceCenteredGrid2) \<Rightarrow>
   FaceCenteredGrid2 \<Rightarrow> error + FaceCenteredGrid2" where
  "whenFluid guard neighbour assign vel =
     (if guard then bindE neighbour (\<lambda>m. if m = kFluid then assign vel else Inr vel) else Inr vel)"

text \<open>The body of the loop of \<^verbatim>\<open>constrainVelocity\<close> at the cell \<open>(i, j)\<close>.\<close>

definition noFluxAt ::
  "'c collaborators2 \<Rightarrow> 'c GridBlockedBoundaryConditionSolver2 \<Rightarrow> Size2 \<Rightarrow>
   (nat \<Rightarrow> nat \<Rightarrow> Vector2D) \<Rightarrow> (nat \<Rightarrow> nat \<Rightarrow> Vector2D) \<Rightarrow> nat \<times> nat \<Rightarrow>
   FaceCenteredGrid2 \<Rightarrow> error + FaceCenteredGrid2" where
  "noFluxAt E solver sz uPos vPos = (\<lambda>(i, j) vel.
     bindE (at2 (bs_marker solver) i j) (\<lambda>m.
       if m = kCollider
       then bindE (whenFluid (i > 0) (at2 (bs_marker solver) (i - 1) j)
                     (\<lambda>w. bindE (colliderVelocityAt E solver (uPos i j))
                             (\<lambda>colliderVel. setU w i j (v2_x colliderVel))) vel) (\<lambda>vel1.
            bindE (whenFluid (i < decSize (size2_x sz)) (at2 (bs_marker solver) (i + 1) j)
                     (\<lambda>w. bindE (colliderVelocityAt E solver (uPos (i + 1) j))
                             (\<lambda>colliderVel. setU w (i + 1) j (v2_x colliderVel))) vel1) (\<lambda>vel2.
            bindE (whenFluid (j > 0) (at2 (bs_marker solver) i (j - 1))
                     (\<lambda>w. bindE (colliderVelocityAt E solver (vPos i j))
                             (\<lambda>colliderVel. setV w i j (v2_y colliderVel))) vel2) (\<lambda>vel3.
            whenFluid (j < decSize (size2_y sz)) (at2 (bs_marker solver) i (j + 1))
                     (\<lambda>w. bindE (colliderVelocityAt E solver (vPos i (j + 1)))
                             (\<lambda>colliderVel. setV w i (j + 1) (v2_y colliderVel))) vel3)))
       else Inr vel))"

text \<open>
  \<^verbatim>\<open>constrainVelocity(velocity, extrapolationDepth)\<close>: the constraint of the fractional
  base class first, then the loop over the indices of the marker array.
\<close>

definition constrainVelocity ::
  "'c collaborators2 \<Rightarrow> 'c GridBlockedBoundaryConditionSolver2 \<Rightarrow> FaceCenteredGrid2 \<Rightarrow> nat \<Rightarrow>
   error + FaceCenteredGrid2" where
  "constrainVelocity E solver velocityGrid extrapolationDepth =
     (let vel0 = fractionalConstrainVelocity E solver velocityGrid extrapolationDepth
      in forEachE (cellIndices2 (arr2_size (bs_marker solver)))
           (noFluxAt E solver (fc2_resolution vel0) (uPosition2 E vel0) (vPosition2 E vel0)) vel0)"

text \<open>
  \<^verbatim>\<open>onColliderUpdated(gridSize, gridSpacing, gridOrigin)\<close>: the fractional base class
  rebuilds the SDF; the marker array is resized to the grid size and every cell is marked
  collider where its SDF sample is inside, fluid elsewhere. Every element of the resized
  array is assigned, so the resize is modelled as a fresh array of the new size.
\<close>

definition onColliderUpdated ::
  "'c collaborators2 \<Rightarrow> Size2 \<Rightarrow> Vector2D \<Rightarrow> Vector2D \<Rightarrow> 'c GridBlockedBoundaryConditionSolver2 \<Rightarrow>
   error + 'c GridBlockedBoundaryConditionSolver2" where
  "onColliderUpdated E gridSize spacing gridOrigin solver =
     (let solver1 = fractionalOnColliderUpdated E gridSize spacing gridOrigin solver;
          sdf = bs_colliderSdf solver1
      in bindE (forEachE (cellIndices2 gridSize)
                  (\<lambda>(i, j) marker.
                     bindE (at2 sdf i j) (\<lambda>phi.
                       set2 marker i j (if isInsideSdf phi then kCollider else kFluid)))
                  (filled2 gridSize 0))
           (\<lambda>marker. Inr (solver1\<lparr>bs_marker := marker\<rparr>)))"

subsection \<open>Notions used to state what the loop assigns\<close>

text \<open>The unchecked read and the index range of a size.\<close>

definition raw2 :: "'a Array2 \<Rightarrow> nat \<Rightarrow> nat \<Rightarrow> 'a" where
  "raw2 a i j = arr2_data a ! linearIndex2 (arr2_size a) i j"

definition inside2 :: "Size2 \<Rightarrow> nat \<Rightarrow> nat \<Rightarrow> bool" where
  "inside2 sz i j \<longleftrightarrow> i < size2_x sz \<and> j < size2_y sz"

text \<open>The shape of a velocity grid of a given resolution, and of the marker array.\<close>

definition uSize :: "Size2 \<Rightarrow> Size2" where
  "uSize sz = \<lparr>size2_x = size2_x sz + 1, size2_y = size2_y sz\<rparr>"

definition vSize :: "Size2 \<Rightarrow> Size2" where
  "vSize sz = \<lparr>size2_x = size2_x sz, size2_y = size2_y sz + 1\<rparr>"

definition gridShape :: "Size2 \<Rightarrow> FaceCenteredGrid2 \<Rightarrow> bool" where
  "gridShape sz vel \<longleftrightarrow>
     size2_x sz < 2 ^ 64 \<and> size2_y sz < 2 ^ 64 \<and> fc2_resolution vel = sz \<and>
     wellFormed2 (fc2_dataU vel) \<and> arr2_size (fc2_dataU vel) = uSize sz \<and>
     wellFormed2 (fc2_dataV vel) \<and> arr2_size (fc2_dataV vel) = vSize sz"

definition arrayShape :: "Size2 \<Rightarrow> 'a Array2 \<Rightarrow> bool" where
  "arrayShape sz a \<longleftrightarrow> wellFormed2 a \<and> arr2_size a = sz"

text \<open>
  Which cell assigns which face: the cell \<open>(i, j)\<close> assigns the u-face \<open>(a, b)\<close>, or the
  v-face \<open>(a, b)\<close>, of a grid of resolution \<open>sz\<close>.
\<close>

definition writesU :: "8 word Array2 \<Rightarrow> Size2 \<Rightarrow> nat \<times> nat \<Rightarrow> nat \<times> nat \<Rightarrow> bool" where
  "writesU marker sz = (\<lambda>(i, j) (a, b).
     raw2 marker i j = kCollider \<and> b = j \<and>
     ((a = i \<and> 0 < i \<and> raw2 marker (i - 1) j = kFluid) \<or>
      (a = i + 1 \<and> i + 1 < size2_x sz \<and> raw2 marker (i + 1) j = kFluid)))"

definition writesV :: "8 word Array2 \<Rightarrow> Size2 \<Rightarrow> nat \<times> nat \<Rightarrow> nat \<times> nat \<Rightarrow> bool" where
  "writesV marker sz = (\<lambda>(i, j) (a, b).
     raw2 marker i j = kCollider \<and> a = i \<and>
     ((b = j \<and> 0 < j \<and> raw2 marker i (j - 1) = kFluid) \<or>
      (b = j + 1 \<and> j + 1 < size2_y sz \<and> raw2 marker i (j + 1) = kFluid)))"

text \<open>
  A velocity grid \<open>vel'\<close> differs from \<open>vel\<close> exactly on the u-faces in \<open>PU\<close> and the
  v-faces in \<open>PV\<close>, where it holds the collider's velocity component at the face position.
\<close>

definition assigned ::
  "Size2 \<Rightarrow> (nat \<Rightarrow> nat \<Rightarrow> real) \<Rightarrow> (nat \<Rightarrow> nat \<Rightarrow> real) \<Rightarrow>
   (nat \<times> nat \<Rightarrow> bool) \<Rightarrow> (nat \<times> nat \<Rightarrow> bool) \<Rightarrow> FaceCenteredGrid2 \<Rightarrow> FaceCenteredGrid2 \<Rightarrow> bool" where
  "assigned sz valU valV PU PV vel vel' \<longleftrightarrow>
     gridShape sz vel' \<and>
     (\<forall>a b. inside2 (uSize sz) a b \<longrightarrow>
        raw2 (fc2_dataU vel') a b = (if PU (a, b) then valU a b else raw2 (fc2_dataU vel) a b)) \<and>
     (\<forall>a b. inside2 (vSize sz) a b \<longrightarrow>
        raw2 (fc2_dataV vel') a b = (if PV (a, b) then valV a b else raw2 (fc2_dataV vel) a b))"

text \<open>
  The classification of a cell by \<^verbatim>\<open>onColliderUpdated\<close>: collider where the cached SDF
  sample of the cell is inside, fluid where it is not.
\<close>

definition colliderCell :: "'c GridBlockedBoundaryConditionSolver2 \<Rightarrow> nat \<Rightarrow> nat \<Rightarrow> bool" where
  "colliderCell solver i j \<longleftrightarrow> (\<exists>phi. at2 (bs_colliderSdf solver) i j = Inr phi \<and> isInsideSdf phi)"

definition fluidCell :: "'c GridBlockedBoundaryConditionSolver2 \<Rightarrow> nat \<Rightarrow> nat \<Rightarrow> bool" where
  "fluidCell solver i j \<longleftrightarrow> (\<exists>phi. at2 (bs_colliderSdf solver) i j = Inr phi \<and> \<not> isInsideSdf phi)"

subsection \<open>The fractional base class for a null collider\<close>

text \<open>
  Modelled from the spec: the direction bits of Utils/Constants.h, one bit per domain
  face, and the test of a bit in the closed-domain flag.
\<close>

definition kDirectionLeft :: int where "kDirectionLeft = 1"
definition kDirectionRight :: int where "kDirectionRight = 2"
definition kDirectionDown :: int where "kDirectionDown = 4"
definition kDirectionUp :: int where "kDirectionUp = 8"
definition kDirectionAll :: int where "kDirectionAll = 63"

definition closedAt :: "int \<Rightarrow> int \<Rightarrow> bool" where
  "closedAt flag direction \<longleftrightarrow> and flag direction \<noteq> 0"

text \<open>An array whose every element is replaced by a function of its index and its value.\<close>

definition mapIndexed2 :: "(nat \<Rightarrow> nat \<Rightarrow> 'a \<Rightarrow> 'a) \<Rightarrow> 'a Array2 \<Rightarrow> 'a Array2" where
  "mapIndexed2 f a =
     a\<lparr>arr2_data := map (\<lambda>n. f (n mod size2_x (arr2_size a)) (n div size2_x (arr2_size a))
                                   (arr2_data a ! n))
                        [0..<length (arr2_data a)]\<rparr>"

text \<open>
  Modelled from the spec: \<^verbatim>\<open>GridFractionalBoundaryConditionSolver2\<close>, whose source file
  is not among the sources, for a null collider. The spec: a null collider is treated as
  an empty domain, the SDF is +infinity everywhere and only the domain-boundary closure
  applies; \<^verbatim>\<open>constrainVelocity\<close> projects the velocity at the domain-boundary faces
  marked closed to the collider's own velocity (zero relative normal flow) and leaves the
  velocities on open boundary faces untouched. So, without a collider, the u-samples of the
  first column are set to 0 when the left side is closed, those of the last column when
  the right side is, the v-samples of the first row when the bottom is closed, those of
  the last row when the top is; and the cached SDF holds the largest double everywhere.
\<close>

definition specFractionalConstrainVelocity ::
  "'c GridBlockedBoundaryConditionSolver2 \<Rightarrow> FaceCenteredGrid2 \<Rightarrow> nat \<Rightarrow> FaceCenteredGrid2" where
  "specFractionalConstrainVelocity solver vel depth =
     vel\<lparr>fc2_dataU :=
           mapIndexed2 (\<lambda>i j u.
             if (i = 0 \<and> closedAt (bs_closedDomainBoundaryFlag solver) kDirectionLeft) \<or>
                (i + 1 = size2_x (arr2_size (fc2_dataU vel)) \<and>
                 closedAt (bs_closedDomainBoundaryFlag solver) kDirectionRight)
             then 0 else u) (fc2_dataU vel),
         fc2_dataV :=
           mapIndexed2 (\<lambda>i j v.
             if (j = 0 \<and> closedAt (bs_closedDomainBoundaryFlag solver) kDirectionDown) \<or>
                (j + 1 = size2_y (arr2_size (fc2_dataV vel)) \<and>
                 closedAt (bs_closedDomainBoundaryFlag solver) kDirectionUp)
             then 0 else v) (fc2_dataV vel)\<rparr>"

definition specFractionalOnColliderUpdated ::
  "Size2 \<Rightarrow> Vector2D \<Rightarrow> Vector2D \<Rightarrow> 'c GridBlockedBoundaryConditionSolver2 \<Rightarrow>
   'c GridBlockedBoundaryConditionSolver2" where
  "specFractionalOnColliderUpdated gridSize spacing gridOrigin solver =
     solver\<lparr>bs_colliderSdf := filled2 gridSize kMaxD\<rparr>"

definition nullColliderCollaborators ::
  "('c \<Rightarrow> Vector2D \<Rightarrow> Vector2D) \<Rightarrow> (FaceCenteredGrid2 \<Rightarrow> nat \<Rightarrow> nat \<Rightarrow> Vector2D) \<Rightarrow>
   (FaceCenteredGrid2 \<Rightarrow> nat \<Rightarrow> nat \<Rightarrow> Vector2D) \<Rightarrow> 'c collaborators2" where
  "nullColliderCollaborators velAt uPos vPos =
     \<lparr>velocityAt = velAt, uPosition2 = uPos, vPosition2 = vPos,
      fractionalConstrainVelocity = specFractionalConstrainVelocity,
      fractionalOnColliderUpdated = specFractionalOnColliderUpdated\<rparr>"

text \<open>A face-centered grid of a given resolution filled with one vector, as \<^verbatim>\<open>fill\<close> leaves it.\<close>

definition uniformVelocity :: "Size2 \<Rightarrow> Vector2D \<Rightarrow> FaceCenteredGrid2" where
  "uniformVelocity sz c =
     \<lparr>fc2_resolution = sz, fc2_dataU = filled2 (uSize sz) (v2_x c),
      fc2_dataV = filled2 (vSize sz) (v2_y c)\<rparr>"

text \<open>
  A u-face, or a v-face, lies between a collider cell and a fluid cell.
\<close>

definition interfaceU :: "'c GridBlockedBoundaryConditionSolver2 \<Rightarrow> nat \<Rightarrow> nat \<Rightarrow> bool" where
  "interfaceU solver a b \<longleftrightarrow>
     0 < a \<and> ((colliderCell solver a b \<and> fluidCell solver (a - 1) b) \<or>
              (colliderCell solver (a - 1) b \<and> fluidCell solver a b))"

definition interfaceV :: "'c GridBlockedBoundaryConditionSolver2 \<Rightarrow> nat \<Rightarrow> nat \<Rightarrow> bool" where
  "interfaceV solver a b \<longleftrightarrow>
     0 < b \<and> ((colliderCell solver a b \<and> fluidCell solver a (b - 1)) \<or>
              (colliderCell solver a (b - 1) \<and> fluidCell solver a b))"

text \<open>
  Collaborators for a concrete run: the collider moves with velocity (7, 9) everywhere, the
  base class leaves the velocity alone and caches an SDF of two cells, the left one
  outside and the right one inside the collider.
\<close>

definition twoCells :: Size2 where
  "twoCells = \<lparr>size2_x = 2, size2_y = 1\<rparr>"

definition exampleCollaborators2 :: "unit collaborators2" where
  "exampleCollaborators2 =
     \<lparr>velocityAt = (\<lambda>c p. \<lparr>v2_x = 7, v2_y = 9\<rparr>),
      uPosition2 = (\<lambda>g i j. \<lparr>v2_x = 0, v2_y = 0\<rparr>),
      vPosition2 = (\<lambda>g i j. \<lparr>v2_x = 0, v2_y = 0\<rparr>),
      fractionalConstrainVelocity = (\<lambda>solver vel depth. vel),
      fractionalOnColliderUpdated = (\<lambda>sz sp og solver.
         solver\<lparr>bs_colliderSdf := \<lparr>arr2_size = twoCells, arr2_data = [1, - 1]\<rparr>\<rparr>)\<rparr>"

text \<open>The solver after \<^verbatim>\<open>onColliderUpdated\<close> on these two cells.\<close>

definition exampleBoundarySolver :: "unit GridBlockedBoundaryConditionSolver2" where
  "exampleBoundarySolver =
     \<lparr>bs_collider = Some (), bs_closedDomainBoundaryFlag = kDirectionAll,
      bs_colliderSdf = \<lparr>arr2_size = twoCells, arr2_data = [1, - 1]\<rparr>,
      bs_marker = \<lparr>arr2_size = twoCells, arr2_data = [kFluid, kCollider]\<rparr>\<rparr>"

text \<open>
  The inputs of the two tests of the repository: a 10x10 grid filled with (1, 1) and a
  solver without collider, with all sides closed or with the left and the top closed.
\<close>

definition testGridSize :: Size2 where
  "testGridSize = \<lparr>size2_x = 10, size2_y = 10\<rparr>"

definition newBoundarySolver :: "int \<Rightarrow> unit GridBlockedBoundaryConditionSolver2" where
  "newBoundarySolver flag =
     \<lparr>bs_collider = None, bs_closedDomainBoundaryFlag = flag,
      bs_colliderSdf = \<lparr>arr2_size = \<lparr>size2_x = 0, size2_y = 0\<rparr>, arr2_data = []\<rparr>,
      bs_marker = \<lparr>arr2_size = \<lparr>size2_x = 0, size2_y = 0\<rparr>, arr2_data = []\<rparr>\<rparr>"

definition testCollaborators :: "unit collaborators2" where
  "testCollaborators =
     nullColliderCollaborators (\<lambda>c p. p) (\<lambda>g i j. \<lparr>v2_x = 0, v2_y = 0\<rparr>)
       (\<lambda>g i j. \<lparr>v2_x = 0, v2_y = 0\<rparr>)"


section \<open>Proofs: error monad and loops\<close>

lemma bindE_Inr [simp]: "bindE (Inr v) f = f v"
  by (simp add: bindE_def)

lemma bindE_Inl [simp]: "bindE (Inl e) f = Inl e"
  by (simp add: bindE_def)



section \<open>Proofs: Array3 resize\<close>







lemma at3_outside:
  "\<not> inside3 (arr_size a) i j k \<Longrightarrow> at3 a i j k = Inl AssertionFailed"
  by (auto simp add: at3_def inside3_def)













section \<open>Proofs: MatrixCsr element read\<close>

lemma vecAt_inside [simp]: "i < length xs \<Longrightarrow> vecAt xs i = Inr (xs ! i)"
  by (simp add: vecAt_def)

lemma lowerBound_result:
  "first + count \<le> length xs \<Longrightarrow>
   \<exists>pos. lowerBound xs first count val = Inr pos \<and> first \<le> pos \<and> pos \<le> first + count \<and>
         (pos = first + count \<or> \<not> xs ! pos < val)"
proof (induction xs first count val rule: lowerBound.induct)
  case (1 xs first count val)
  show ?case
  proof (cases "count = 0")
    case True
    then show ?thesis by (simp add: lowerBound.simps)
  next
    case False
    let ?it = "first + count div 2"
    have it: "?it < length xs" using False "1.prems" by (simp add: less_le_trans)
    then have rd: "vecAt xs ?it = Inr (xs ! ?it)" by simp
    show ?thesis
    proof (cases "xs ! ?it < val")
      case True
      have "?it + 1 + (count - (count div 2 + 1)) \<le> length xs"
        using False "1.prems" by simp
      from "1.IH"(1) [OF False rd True this] True False rd show ?thesis
        by (subst lowerBound.simps) auto
    next
      case lt: False
      have "first + count div 2 \<le> length xs" using it by simp
      from "1.IH"(2) [OF False rd lt this] lt False rd show ?thesis
        by (subst lowerBound.simps) auto
    qed
  qed
qed

lemma binaryFind_result:
  assumes "first \<le> lastPos" "lastPos \<le> length xs"
  shows "\<exists>pos. binaryFind xs first lastPos val = Inr pos \<and>
           (pos = lastPos \<or> (first \<le> pos \<and> pos < lastPos \<and> xs ! pos = val))"
proof -
  from assms have "first + (lastPos - first) \<le> length xs" by simp
  from lowerBound_result [OF this, of val] assms obtain pos where
    p: "lowerBound xs first (lastPos - first) val = Inr pos" "first \<le> pos" "pos \<le> lastPos"
       "pos = lastPos \<or> \<not> xs ! pos < val"
    by auto
  show ?thesis
  proof (cases "pos = lastPos")
    case True
    with p(1) show ?thesis by (simp add: binaryFind_def)
  next
    case False
    with p assms have "pos < length xs" "pos < lastPos" "\<not> xs ! pos < val" by auto
    with p(1) p(2) False show ?thesis by (auto simp add: binaryFind_def)
  qed
qed

lemma hasElement_result:
  assumes "csrWellFormed m"
  shows "\<exists>r. hasElement m i j = Inr r \<and>
           (r = kMaxSize \<or>
            (i < size2_x (csr_size m) \<and> j < size2_y (csr_size m) \<and>
             rowPointers m ! i \<le> r \<and> r < rowPointers m ! (i + 1) \<and>
             r < length (nonZeros m) \<and> columnIndices m ! r = j))"
proof (cases "i \<ge> size2_x (csr_size m) \<or> j \<ge> size2_y (csr_size m)")
  case True
  then show ?thesis by (auto simp add: hasElement_def)
next
  case False
  then have i: "i < size2_x (csr_size m)" and j: "j < size2_y (csr_size m)" by auto
  from assms i have rp: "i < length (rowPointers m)" "i + 1 < length (rowPointers m)"
    and mono: "rowPointers m ! i \<le> rowPointers m ! (i + 1)"
    and bound: "rowPointers m ! (i + 1) \<le> length (columnIndices m)"
    and len: "length (nonZeros m) = length (columnIndices m)"
    by (auto simp add: csrWellFormed_def)
  from binaryFind_result [OF mono bound, of j] obtain pos where
    p: "binaryFind (columnIndices m) (rowPointers m ! i) (rowPointers m ! (i + 1)) j = Inr pos"
       "pos = rowPointers m ! (i + 1) \<or>
        (rowPointers m ! i \<le> pos \<and> pos < rowPointers m ! (i + 1) \<and> columnIndices m ! pos = j)"
    by blast
  have h: "hasElement m i j = (if pos \<noteq> rowPointers m ! (i + 1) then Inr pos else Inr kMaxSize)"
    using False rp p(1) by (simp add: hasElement_def)
  show ?thesis
  proof (cases "pos = rowPointers m ! (i + 1)")
    case True
    with h show ?thesis by simp
  next
    case ne: False
    with p(2) bound len have "pos < length (nonZeros m)" by simp
    with h ne p(2) i j show ?thesis by auto
  qed
qed

text \<open>
  On a matrix that satisfies the representation invariant the element read is total: it
  returns a value for every index pair, in range or not, without reading outside any of
  the three vectors; \<^verbatim>\<open>hasElement\<close> returns the sentinel and the read returns 0
  whenever no value is stored for the pair.
\<close>

lemma csrAt_on_well_formed:
  assumes "csrWellFormed m"
  shows "(\<exists>v. csrAt m i j = Inr v) \<and>
         (\<not> storedAt m i j \<longrightarrow> hasElement m i j = Inr kMaxSize \<and> csrAt m i j = Inr 0) \<and>
         (i \<ge> size2_x (csr_size m) \<or> j \<ge> size2_y (csr_size m) \<longrightarrow>
            hasElement m i j = Inr kMaxSize \<and> csrAt m i j = Inr 0)"
proof -
  from hasElement_result [OF assms, of i j] obtain r where
    r: "hasElement m i j = Inr r"
       "r = kMaxSize \<or>
            (i < size2_x (csr_size m) \<and> j < size2_y (csr_size m) \<and>
             rowPointers m ! i \<le> r \<and> r < rowPointers m ! (i + 1) \<and>
             r < length (nonZeros m) \<and> columnIndices m ! r = j)"
    by blast
  have total: "\<exists>v. csrAt m i j = Inr v"
    using r by (auto simp add: csrAt_def)
  have absent: "hasElement m i j = Inr kMaxSize \<and> csrAt m i j = Inr 0" if "\<not> storedAt m i j"
  proof -
    from that r(2) have "r = kMaxSize" by (auto simp add: storedAt_def)
    with r(1) show ?thesis by (simp add: csrAt_def)
  qed
  have "\<not> storedAt m i j" if "i \<ge> size2_x (csr_size m) \<or> j \<ge> size2_y (csr_size m)"
    using that by (auto simp add: storedAt_def)
  with total absent show ?thesis by blast
qed

lemma upt_0_2: "[0..<2] = [0, 1]"
  by (simp add: upt_rec)

lemma twiceCompressed_eq:
  "twiceCompressed =
     \<lparr>csr_size = \<lparr>size2_x = 2, size2_y = 2\<rparr>, nonZeros = [],
      rowPointers = [0, 0, 2, 4, 0, 0, 0], columnIndices = []\<rparr>"
  by (simp add: twiceCompressed_def compress_def compressRow_def newMatrixCsr_def clear_def
      denseExample_def upt_0_2)

text \<open>
  C10. The claim: for every CSR matrix and every index pair the element read is total
  and never reads outside the storage. The code at a matrix that the public interface
  produces, a default-constructed matrix after \<^verbatim>\<open>compress(D, 0)\<close> and
  \<^verbatim>\<open>compress(D, 100)\<close> with the dense matrix D = ((1, 2), (3, 4)): the row pointers
  that \<^verbatim>\<open>compress\<close> never clears have piled up to 0, 0, 2, 4, 0, 0, 0 while no column
  index is stored, the index pair (1, 0) is in range, and \<^verbatim>\<open>hasElement(1, 0)\<close>
  searches the positions 0 and 1 of the empty column index vector: a read outside the
  storage, where the claim promises the value 0. After the same two calls of the sibling
  overload, which clears the row pointers, the read returns 0.
\<close>

theorem csrAt_reads_outside_storage:
  "rowPointers twiceCompressed = [0, 0, 2, 4, 0, 0, 0] \<and> columnIndices twiceCompressed = [] \<and>
   csr_size twiceCompressed = \<lparr>size2_x = 2, size2_y = 2\<rparr> \<and>
   hasElement twiceCompressed 1 0 = Inl OutOfRange \<and> csrAt twiceCompressed 1 0 = Inl OutOfRange \<and>
   bindE (compressList newMatrixCsr [[1, 2], [3, 4]] 0)
     (\<lambda>m. bindE (compressList m [[1, 2], [3, 4]] 100) (\<lambda>m'. csrAt m' 1 0)) = Inr 0"
  unfolding twiceCompressed_eq
  by (simp add: csrAt_def hasElement_def binaryFind_def lowerBound.simps vecAt_def
      compressList_def compressListRow_def newMatrixCsr_def clear_def upt_0_2 kMaxSize_def)

section \<open>Proofs: MatrixCsr compress\<close>

lemma compress_newMatrixCsr_denseExample:
  "compress newMatrixCsr denseExample 0 =
     \<lparr>csr_size = \<lparr>size2_x = 2, size2_y = 2\<rparr>, nonZeros = [1, 2, 3, 4],
      rowPointers = [0, 0, 2, 4], columnIndices = [0, 1, 0, 1]\<rparr>"
  by (simp add: compress_def compressRow_def newMatrixCsr_def clear_def denseExample_def upt_0_2)

text \<open>
  C6. The claim: after \<^verbatim>\<open>compress(D, epsilon)\<close> the element read returns \<open>D(i, j)\<close>
  wherever its magnitude exceeds \<^verbatim>\<open>epsilon\<close>, and 0 elsewhere. The code at a
  default-constructed matrix and the dense matrix ((1, 2), (3, 4)) with \<^verbatim>\<open>epsilon\<close> 0:
  the row pointer 0 that \<^verbatim>\<open>clear()\<close> left is kept in front of the new ones, every row
  reads the slice of the row before it, and the read of (0, 0) returns 0 where the dense
  value is 1, the read of (1, 0) returns 1 where the dense value is 3.
\<close>

theorem compress_keeps_stale_row_pointers:
  "rowPointers (compress newMatrixCsr denseExample 0) = [0, 0, 2, 4] \<and>
   expr_at denseExample 0 0 = 1 \<and> csrAt (compress newMatrixCsr denseExample 0) 0 0 = Inr 0 \<and>
   expr_at denseExample 1 0 = 3 \<and> csrAt (compress newMatrixCsr denseExample 0) 1 0 = Inr 1"
  unfolding compress_newMatrixCsr_denseExample
  by (simp add: csrAt_def hasElement_def binaryFind_def lowerBound.simps kMaxSize_def
      denseExample_def)

section \<open>Proofs: PhysicsAnimation substeps\<close>

lemma kEpsilonD_pos: "0 < kEpsilonD"
  by (simp add: kEpsilonD_def)

lemma double_minus [simp]:
  "Finite a - Finite b = Finite (a - b)"
  "Finite a - PosInf = NegInf"
  "PosInf - PosInf = NaN"
  by (simp_all add: minus_double_def)

lemma real_unat_nonneg: "0 \<le> real (unat n)"
  by (rule of_nat_0_le_iff)

lemma unsigned_real_nonneg [simp]: "(0::real) \<le> unsigned n"
  using real_unat_nonneg [of n] by simp

lemma unat_less_32: "unat (n::32 word) < 2 ^ 32"
  using unsigned_less [of n, where 'a = nat] by simp

lemma not_less_double: "(b::double) \<le> v \<Longrightarrow> \<not> v < b"
  by (cases v; cases b) simp_all

lemma ofUnsignedInt_divide:
  "0 < a \<Longrightarrow> Finite a / ofUnsignedInt n =
     (if n = 0 then PosInf else Finite (a / real (unat n)))"
  "PosInf / ofUnsignedInt n = PosInf"
  by (simp_all add: ofUnsignedInt_def unsigned_eq_0_iff)

lemma sameSettings_refl [simp]: "sameSettings s s"
  by (simp add: sameSettings_def)

lemma sameSettings_trans: "sameSettings s t \<Longrightarrow> sameSettings t u \<Longrightarrow> sameSettings s u"
  by (simp add: sameSettings_def)

lemma sameSettings_step [simp]:
  "sameSettings s ((setMembers z s)\<lparr>currentTime := t\<rparr>)"
  by (simp add: sameSettings_def setMembers_def)

lemma substepSizes_append: "substepSizes (xs @ ys) = substepSizes xs @ substepSizes ys"
  by (induction xs rule: substepSizes.induct) simp_all


lemma substepSizes_replicate:
  "substepSizes (replicate n (OnAdvanceTimeStep dt)) = replicate n dt"
  by (induction n) simp_all


lemma foldl_plus_Finite:
  "foldl (+) (Finite a) (map Finite xs) = Finite (a + sum_list xs)"
  by (induction xs arbitrary: a) (simp_all add: add.assoc)

lemma totalTime_Finite: "totalTime (map Finite xs) = Finite (sum_list xs)"
  by (simp add: totalTime_def foldl_plus_Finite)

lemma sum_list_replicate_real: "sum_list (replicate n (x::real)) = real n * x"
  by (induction n) (simp_all add: algebra_simps)

lemma totalTime_replicate: "totalTime (replicate n (Finite x)) = Finite (real n * x)"
  using totalTime_Finite [of "replicate n x"] by (simp add: sum_list_replicate_real)

lemma fixedLoop_events:
  "\<exists>s'. fixedLoop H dt n (s, evs) = (s', evs @ replicate n (OnAdvanceTimeStep dt)) \<and>
        sameSettings s s'"
proof (induction n arbitrary: s evs)
  case 0
  then show ?case by simp
next
  case (Suc n)
  let ?s1 = "(setMembers (hook_onAdvanceTimeStep H dt s) s)
               \<lparr>currentTime := currentTime (setMembers (hook_onAdvanceTimeStep H dt s) s) + dt\<rparr>"
  from Suc.IH [of ?s1 "evs @ [OnAdvanceTimeStep dt]"] obtain s' where
    e: "fixedLoop H dt n (?s1, evs @ [OnAdvanceTimeStep dt]) =
       (s', (evs @ [OnAdvanceTimeStep dt]) @ replicate n (OnAdvanceTimeStep dt))"
    and t: "sameSettings ?s1 s'"
    by blast
  have "sameSettings s ?s1" by simp
  then have "sameSettings s s'" using t by (rule sameSettings_trans)
  moreover have "fixedLoop H dt (Suc n) (s, evs) =
      (s', evs @ replicate (Suc n) (OnAdvanceTimeStep dt))"
    using e by (simp add: Let_def)
  ultimately show ?case by blast
qed

text \<open>A substep with a count from 1 to \<open>M\<close> shrinks the remaining time by a fixed factor.\<close>

lemma shrink_bound:
  fixes r :: real
  assumes "0 \<le> r" "1 \<le> n" "n \<le> M"
  shows "0 \<le> r - r / real n" "r - r / real n \<le> r * (1 - 1 / real M)"
proof -
  have n: "0 < real n" and m: "0 < real M" using assms by simp_all
  have "r * 1 \<le> r * real n" using assms by (intro mult_left_mono) simp_all
  then have "r / real n \<le> r" using n by (simp add: field_simps)
  then show "0 \<le> r - r / real n" by simp
  have "1 / real M \<le> 1 / real n" using assms n by (simp add: frac_le)
  then have "r * (1 / real M) \<le> r * (1 / real n)" using assms(1) by (rule mult_left_mono)
  then show "r - r / real n \<le> r * (1 - 1 / real M)" by (simp add: algebra_simps)
qed

lemma enough_iterations:
  fixes r :: real
  assumes "1 \<le> M"
  shows "\<exists>k. r * (1 - 1 / real M) ^ k \<le> kEpsilonD"
proof (cases "r \<le> kEpsilonD")
  case True
  then have "r * (1 - 1 / real M) ^ 0 \<le> kEpsilonD" by simp
  then show ?thesis by blast
next
  case False
  then have r: "0 < r" using kEpsilonD_pos by simp
  have q: "0 \<le> 1 - 1 / real M" "1 - 1 / real M < 1" using assms by simp_all
  have "0 < kEpsilonD / r" using r kEpsilonD_pos by simp
  from real_arch_pow_inv [OF this q(2)] obtain k where "(1 - 1 / real M) ^ k < kEpsilonD / r"
    by blast
  then have "r * (1 - 1 / real M) ^ k \<le> kEpsilonD" using r by (simp add: field_simps)
  then show ?thesis by blast
qed

lemma adaptiveLoop_stops:
  "\<not> r > Finite kEpsilonD \<Longrightarrow> adaptiveLoop H r sl = Some (sl, r)"
  by (subst adaptiveLoop.simps) simp

lemma adaptiveLoop_step:
  "r > Finite kEpsilonD \<Longrightarrow>
   adaptiveLoop H r (s, evs) =
     adaptiveLoop H (r - r / ofUnsignedInt (hook_numberOfSubTimeSteps H s r))
       ((setMembers (hook_onAdvanceTimeStep H (r / ofUnsignedInt (hook_numberOfSubTimeSteps H s r)) s) s)
          \<lparr>currentTime :=
             currentTime (setMembers (hook_onAdvanceTimeStep H
                            (r / ofUnsignedInt (hook_numberOfSubTimeSteps H s r)) s) s) +
             r / ofUnsignedInt (hook_numberOfSubTimeSteps H s r)\<rparr>,
        evs @ [NumberOfSubTimeSteps r (hook_numberOfSubTimeSteps H s r),
               OnAdvanceTimeStep (r / ofUnsignedInt (hook_numberOfSubTimeSteps H s r))])"
  by (subst adaptiveLoop.simps) (simp add: Let_def)

text \<open>
  The adaptive loop on a finite remaining time: a count is an \<^verbatim>\<open>unsigned int\<close>, so
  below \<open>2 ^ 32\<close>, and every substep with a count other than 0 shrinks the remaining time
  by the factor \<open>1 - 1 / 2 ^ 32\<close> at least; a count of 0 ends the loop at once.
\<close>

lemma adaptiveLoop_ends_finite:
  assumes M: "\<And>n::32 word. unat n \<le> M"
  shows "x * (1 - 1 / real M) ^ k \<le> kEpsilonD \<Longrightarrow>
   \<exists>s' new final. adaptiveLoop H (Finite x) (s, evs) = Some ((s', evs @ new), final) \<and>
      recomputedFromRemaining (Finite x) new final \<and> final \<le> Finite kEpsilonD \<and>
      advanceCalls new = 0 \<and> count_list new OnInitialize = 0 \<and> sameSettings s s' \<and>
      (0 \<notin> set (stepCounts new) \<longrightarrow>
         (\<exists>f sizes. final = Finite f \<and> (0 \<le> x \<longrightarrow> 0 \<le> f) \<and>
            substepSizes new = map Finite sizes \<and> sum_list sizes = x - f))"
proof (induction k arbitrary: x s evs)
  case 0
  then have n: "\<not> Finite x > Finite kEpsilonD" by simp
  have "adaptiveLoop H (Finite x) (s, evs) = Some ((s, evs @ []), Finite x)"
    using adaptiveLoop_stops [OF n] by simp
  moreover have "recomputedFromRemaining (Finite x) [] (Finite x)" using n by simp
  moreover have "Finite x \<le> Finite kEpsilonD" using n by simp
  moreover have "substepSizes [] = map Finite [] \<and> sum_list [] = x - x" by simp
  ultimately show ?case
    by (intro exI [of _ s] exI [of _ "[]"] exI [of _ "Finite x"]) auto
next
  case (Suc k)
  show ?case
  proof (cases "Finite x > Finite kEpsilonD")
    case False
    have "adaptiveLoop H (Finite x) (s, evs) = Some ((s, evs @ []), Finite x)"
      using adaptiveLoop_stops [OF False] by simp
    moreover have "recomputedFromRemaining (Finite x) [] (Finite x)" using False by simp
    moreover have "Finite x \<le> Finite kEpsilonD" using False by simp
    moreover have "substepSizes [] = map Finite [] \<and> sum_list [] = x - x" by simp
    ultimately show ?thesis
      by (intro exI [of _ s] exI [of _ "[]"] exI [of _ "Finite x"]) auto
  next
    case True
    then have x: "kEpsilonD < x" by simp
    then have x0: "0 < x" using kEpsilonD_pos by simp
    let ?n = "hook_numberOfSubTimeSteps H s (Finite x)"
    let ?dt = "Finite x / ofUnsignedInt ?n"
    let ?s1 = "(setMembers (hook_onAdvanceTimeStep H ?dt s) s)
                 \<lparr>currentTime := currentTime (setMembers (hook_onAdvanceTimeStep H ?dt s) s) + ?dt\<rparr>"
    let ?evs1 = "evs @ [NumberOfSubTimeSteps (Finite x) ?n, OnAdvanceTimeStep ?dt]"
    let ?head = "[NumberOfSubTimeSteps (Finite x) ?n, OnAdvanceTimeStep ?dt]"
    have step: "adaptiveLoop H (Finite x) (s, evs) = adaptiveLoop H (Finite x - ?dt) (?s1, ?evs1)"
      by (rule adaptiveLoop_step [OF True])
    have t1: "sameSettings s ?s1" by simp
    show ?thesis
    proof (cases "?n = 0")
      case True
      then have dt: "?dt = PosInf" using x0 by (simp add: ofUnsignedInt_divide)
      have "adaptiveLoop H (Finite x - ?dt) (?s1, ?evs1) = Some ((?s1, ?evs1), NegInf)"
        unfolding dt by (simp add: adaptiveLoop_stops)
      with step have e: "adaptiveLoop H (Finite x) (s, evs) = Some ((?s1, evs @ ?head), NegInf)"
        by simp
      have p: "recomputedFromRemaining (Finite x) ?head NegInf"
        using \<open>Finite x > Finite kEpsilonD\<close> dt by simp
      have z: "0 \<in> set (stepCounts ?head)" using True by simp
      have c: "advanceCalls ?head = 0" "count_list ?head OnInitialize = 0" by simp_all
      have f: "NegInf \<le> Finite kEpsilonD" by simp
      from e p f c t1 z show ?thesis by blast
    next
      case False
      then have n1: "1 \<le> unat ?n" by (simp add: unat_eq_0 Suc_le_eq unat_gt_0)
      have nM: "unat ?n \<le> M" by (rule M)
      have M1: "1 \<le> M" using n1 nM by (rule order_trans)
      have dt: "?dt = Finite (x / real (unat ?n))"
        using x0 False by (simp add: ofUnsignedInt_divide)
      let ?d = "x / real (unat ?n)"
      have r0: "0 \<le> x" using x0 by simp
      have q: "0 \<le> 1 - 1 / real M" using M1 by simp
      from shrink_bound [OF r0 n1 nM]
      have b: "0 \<le> x - ?d" "x - ?d \<le> x * (1 - 1 / real M)" .
      have "(x - ?d) * (1 - 1 / real M) ^ k \<le>
            (x * (1 - 1 / real M)) * (1 - 1 / real M) ^ k"
        using b(2) q by (intro mult_right_mono) simp_all
      also have "\<dots> = x * (1 - 1 / real M) ^ Suc k" by simp
      finally have "(x - ?d) * (1 - 1 / real M) ^ k \<le> kEpsilonD" using Suc.prems by simp
      from Suc.IH [OF this, of ?s1 ?evs1] obtain s' new final where
        rec: "adaptiveLoop H (Finite (x - ?d)) (?s1, ?evs1) = Some ((s', ?evs1 @ new), final)"
        and p: "recomputedFromRemaining (Finite (x - ?d)) new final"
        and f: "final \<le> Finite kEpsilonD"
        and c: "advanceCalls new = 0" "count_list new OnInitialize = 0"
        and t: "sameSettings ?s1 s'"
        and sm: "0 \<notin> set (stepCounts new) \<longrightarrow>
           (\<exists>f sizes. final = Finite f \<and> (0 \<le> x - ?d \<longrightarrow> 0 \<le> f) \<and>
              substepSizes new = map Finite sizes \<and> sum_list sizes = x - ?d - f)"
        by blast
      let ?new = "?head @ new"
      have e: "adaptiveLoop H (Finite x) (s, evs) = Some ((s', evs @ ?new), final)"
        using step rec by (simp add: dt)
      have t': "sameSettings s s'" using t1 t by (rule sameSettings_trans)
      have p': "recomputedFromRemaining (Finite x) ?new final"
        using p \<open>Finite x > Finite kEpsilonD\<close> by (simp add: dt)
      have c': "advanceCalls ?new = 0" "count_list ?new OnInitialize = 0" using c by simp_all
      have sm': "\<exists>f sizes. final = Finite f \<and> (0 \<le> x \<longrightarrow> 0 \<le> f) \<and>
            substepSizes ?new = map Finite sizes \<and> sum_list sizes = x - f"
        if "0 \<notin> set (stepCounts ?new)"
      proof -
        from that have "0 \<notin> set (stepCounts new)" by simp
        with sm obtain f sizes where
          g: "final = Finite f" "0 \<le> x - ?d \<longrightarrow> 0 \<le> f"
             "substepSizes new = map Finite sizes" "sum_list sizes = x - ?d - f"
          by blast
        have "substepSizes ?new = map Finite (?d # sizes)" using g(3) by (simp add: dt)
        moreover have "sum_list (?d # sizes) = x - f" using g(4) by simp
        moreover have "0 \<le> f" using g(2) b(1) by simp
        ultimately show ?thesis using g(1) by blast
      qed
      from e p' f c' t' sm' show ?thesis by blast
    qed
  qed
qed

lemma adaptiveLoop_finite:
  "\<exists>s' new final. adaptiveLoop H (Finite x) (s, evs) = Some ((s', evs @ new), final) \<and>
      recomputedFromRemaining (Finite x) new final \<and> final \<le> Finite kEpsilonD \<and>
      advanceCalls new = 0 \<and> count_list new OnInitialize = 0 \<and> sameSettings s s' \<and>
      (0 \<notin> set (stepCounts new) \<longrightarrow>
         (\<exists>f sizes. final = Finite f \<and> (0 \<le> x \<longrightarrow> 0 \<le> f) \<and>
            substepSizes new = map Finite sizes \<and> sum_list sizes = x - f))"
proof -
  have M: "unat n \<le> 2 ^ 32" for n :: "32 word"
    using unat_less_32 [of n] by simp
  have "(1::nat) \<le> 2 ^ 32" by simp
  from enough_iterations [OF this, of x] obtain k where
    "x * (1 - 1 / real (2 ^ 32)) ^ k \<le> kEpsilonD"
    by blast
  from adaptiveLoop_ends_finite [of "2 ^ 32", OF M this, of H s evs] show ?thesis .
qed

text \<open>
  From an infinite remaining time the loop takes one infinite substep and ends with the
  remaining time NaN.
\<close>

lemma adaptiveLoop_infinite:
  "\<exists>s' new. adaptiveLoop H PosInf (s, evs) = Some ((s', evs @ new), NaN) \<and>
      recomputedFromRemaining PosInf new NaN \<and>
      advanceCalls new = 0 \<and> count_list new OnInitialize = 0 \<and> sameSettings s s'"
proof -
  let ?n = "hook_numberOfSubTimeSteps H s PosInf"
  let ?s1 = "(setMembers (hook_onAdvanceTimeStep H PosInf s) s)
               \<lparr>currentTime := currentTime (setMembers (hook_onAdvanceTimeStep H PosInf s) s) + PosInf\<rparr>"
  let ?head = "[NumberOfSubTimeSteps PosInf ?n, OnAdvanceTimeStep PosInf]"
  have g: "PosInf > Finite kEpsilonD" by simp
  have "adaptiveLoop H PosInf (s, evs) = adaptiveLoop H NaN (?s1, evs @ ?head)"
    using adaptiveLoop_step [OF g, of H s evs] by (simp add: ofUnsignedInt_divide)
  then have "adaptiveLoop H PosInf (s, evs) = Some ((?s1, evs @ ?head), NaN)"
    by (simp add: adaptiveLoop_stops)
  moreover have "recomputedFromRemaining PosInf ?head NaN"
    by (simp add: ofUnsignedInt_divide)
  moreover have "advanceCalls ?head = 0" "count_list ?head OnInitialize = 0" "sameSettings s ?s1"
    by simp_all
  ultimately show ?thesis by blast
qed


lemma foldl_plus_PosInf: "foldl (+) PosInf (replicate n PosInf) = PosInf"
  by (induction n) simp_all

lemma totalTime_equal_substeps:
  assumes "n \<noteq> 0" "Finite 0 < T"
  shows "totalTime (replicate (unat n) (T / ofUnsignedInt n)) = T"
proof (cases T)
  case (Finite x)
  from assms(1) have "0 < unat n" by (simp add: unat_gt_0)
  then have N: "0 < real (unat n)" by (simp only: of_nat_0_less_iff)
  from assms Finite have "T / ofUnsignedInt n = Finite (x / real (unat n))"
    by (simp add: ofUnsignedInt_divide)
  then show ?thesis
    using N Finite by (simp only: totalTime_replicate) simp
next
  case PosInf
  from assms(1) have "0 < unat n" by (simp add: unat_gt_0)
  then obtain k where k: "unat n = Suc k" by (cases "unat n") simp_all
  show ?thesis
    unfolding PosInf k by (simp add: totalTime_def ofUnsignedInt_divide foldl_plus_PosInf)
qed (use assms(2) in simp_all)

text \<open>
  C2, as amended. For every interval \<open>T > 0\<close>: in fixed mode with a configured count
  \<open>N\<close> other than 0, \<^verbatim>\<open>advanceTimeStep\<close> returns after exactly \<open>N\<close> substeps of
  size \<open>T / N\<close>, which sum to \<open>T\<close>; in adaptive mode it returns, whatever the hooks,
  each substep is the time remaining at its iteration divided by the count that
  \<^verbatim>\<open>numberOfSubTimeSteps\<close> returned for that remaining time, and the loop ends with a
  remaining time that does not exceed \<^verbatim>\<open>kEpsilonD\<close>; when \<open>T\<close> is finite that
  remainder is at most \<^verbatim>\<open>kEpsilonD\<close>, and when moreover no count returned during the
  run was 0 it lies between 0 and \<^verbatim>\<open>kEpsilonD\<close> and the substep sizes and the
  remainder sum to \<open>T\<close>.
\<close>

theorem advanceTimeStep_consumes_interval:
  assumes "Finite 0 < T"
  shows "(isUsingFixedSubTimeSteps s \<and> numberOfFixedSubTimeSteps s \<noteq> 0 \<longrightarrow>
           (\<exists>s' new. advanceTimeStep H T (s, evs) = Some (s', evs @ AdvanceTimeStep T # new) \<and>
              substepSizes new =
                replicate (unat (numberOfFixedSubTimeSteps s))
                  (T / ofUnsignedInt (numberOfFixedSubTimeSteps s)) \<and>
              totalTime (substepSizes new) = T)) \<and>
         (\<not> isUsingFixedSubTimeSteps s \<longrightarrow>
           (\<exists>s' new final.
              advanceTimeStep H T (s, evs) = Some (s', evs @ AdvanceTimeStep T # new) \<and>
              recomputedFromRemaining T new final \<and> \<not> final > Finite kEpsilonD \<and>
              (T \<noteq> PosInf \<longrightarrow> final \<le> Finite kEpsilonD \<and>
                 (0 \<notin> set (stepCounts new) \<longrightarrow>
                    (\<exists>f. final = Finite f \<and> 0 \<le> f \<and> f \<le> kEpsilonD \<and>
                       totalTime (substepSizes new) + final = T)))))"
proof (intro conjI impI)
  assume h: "isUsingFixedSubTimeSteps s \<and> numberOfFixedSubTimeSteps s \<noteq> 0"
  let ?N = "unat (numberOfFixedSubTimeSteps s)"
  let ?s0 = "s\<lparr>currentTime := timeInSeconds (currentFrame s)\<rparr>"
  let ?dt = "T / ofUnsignedInt (numberOfFixedSubTimeSteps s)"
  let ?new = "replicate ?N (OnAdvanceTimeStep ?dt)"
  from h have n: "numberOfFixedSubTimeSteps s \<noteq> 0" ..
  from fixedLoop_events [of H ?dt ?N ?s0 "evs @ [AdvanceTimeStep T]"] obtain s' where
    "fixedLoop H ?dt ?N (?s0, evs @ [AdvanceTimeStep T]) =
       (s', (evs @ [AdvanceTimeStep T]) @ ?new)"
    by blast
  then have "advanceTimeStep H T (s, evs) = Some (s', evs @ AdvanceTimeStep T # ?new)"
    using h by (simp add: advanceTimeStep_def Let_def)
  moreover have "substepSizes ?new = replicate ?N ?dt"
    by (rule substepSizes_replicate)
  moreover have "totalTime (substepSizes ?new) = T"
    by (simp only: substepSizes_replicate totalTime_equal_substeps [OF n assms])
  ultimately show "\<exists>s' new. advanceTimeStep H T (s, evs) = Some (s', evs @ AdvanceTimeStep T # new) \<and>
              substepSizes new = replicate ?N ?dt \<and> totalTime (substepSizes new) = T"
    by blast
next
  assume h: "\<not> isUsingFixedSubTimeSteps s"
  let ?s0 = "s\<lparr>currentTime := timeInSeconds (currentFrame s)\<rparr>"
  let ?evs0 = "evs @ [AdvanceTimeStep T]"
  have a: "advanceTimeStep H T (s, evs) = map_option fst (adaptiveLoop H T (?s0, ?evs0))"
    using h by (simp add: advanceTimeStep_def Let_def)
  show "\<exists>s' new final.
              advanceTimeStep H T (s, evs) = Some (s', evs @ AdvanceTimeStep T # new) \<and>
              recomputedFromRemaining T new final \<and> \<not> final > Finite kEpsilonD \<and>
              (T \<noteq> PosInf \<longrightarrow> final \<le> Finite kEpsilonD \<and>
                 (0 \<notin> set (stepCounts new) \<longrightarrow>
                    (\<exists>f. final = Finite f \<and> 0 \<le> f \<and> f \<le> kEpsilonD \<and>
                       totalTime (substepSizes new) + final = T)))"
  proof (cases T)
    case (Finite x)
    with assms have x: "0 < x" by simp
    from adaptiveLoop_finite [of H x ?s0 ?evs0]
    obtain s' new final where
      e: "adaptiveLoop H (Finite x) (?s0, ?evs0) = Some ((s', ?evs0 @ new), final)"
      and p: "recomputedFromRemaining (Finite x) new final"
      and f: "final \<le> Finite kEpsilonD"
      and sm: "0 \<notin> set (stepCounts new) \<longrightarrow>
           (\<exists>f sizes. final = Finite f \<and> (0 \<le> x \<longrightarrow> 0 \<le> f) \<and>
              substepSizes new = map Finite sizes \<and> sum_list sizes = x - f)"
      by blast
    from e a have r: "advanceTimeStep H T (s, evs) = Some (s', evs @ AdvanceTimeStep T # new)"
      by (simp add: Finite)
    from f have g: "\<not> final > Finite kEpsilonD" by (rule not_less_double)
    have "\<exists>f. final = Finite f \<and> 0 \<le> f \<and> f \<le> kEpsilonD \<and>
            totalTime (substepSizes new) + final = T"
      if "0 \<notin> set (stepCounts new)"
    proof -
      from sm that obtain g sizes where
        g: "final = Finite g" "0 \<le> x \<longrightarrow> 0 \<le> g"
           "substepSizes new = map Finite sizes" "sum_list sizes = x - g"
        by blast
      have "g \<le> kEpsilonD" using f g(1) by simp
      moreover have "0 \<le> g" using g(2) x by simp
      moreover have "totalTime (substepSizes new) + final = T"
        using g(1) g(3) g(4) by (simp add: totalTime_Finite Finite)
      ultimately show ?thesis using g(1) by blast
    qed
    with r p f g show ?thesis unfolding Finite by blast
  next
    case PosInf
    from adaptiveLoop_infinite [of H ?s0 ?evs0] obtain s' new where
      e: "adaptiveLoop H PosInf (?s0, ?evs0) = Some ((s', ?evs0 @ new), NaN)"
      and p: "recomputedFromRemaining PosInf new NaN"
      by blast
    from e a have "advanceTimeStep H T (s, evs) = Some (s', evs @ AdvanceTimeStep T # new)"
      by (simp add: PosInf)
    moreover have "\<not> NaN > Finite kEpsilonD" by simp
    ultimately show ?thesis using p unfolding PosInf by blast
  qed (use assms in simp_all)
qed

text \<open>
  Both modes at \<open>T = 1\<close> with the hooks of \<^verbatim>\<open>PhysicsAnimation\<close> itself: two fixed
  substeps, and the adaptive loop with the count 1.
\<close>

theorem advanceTimeStep_consumes_interval_witness:
  "Finite 0 < Finite 1 \<and> isUsingFixedSubTimeSteps exampleAnimation \<and>
   numberOfFixedSubTimeSteps exampleAnimation \<noteq> 0 \<and>
   (\<exists>s' new. advanceTimeStep baseHooks (Finite 1) (exampleAnimation, []) =
                Some (s', AdvanceTimeStep (Finite 1) # new) \<and>
             substepSizes new = [Finite (1 / 2), Finite (1 / 2)] \<and>
             totalTime (substepSizes new) = Finite 1) \<and>
   \<not> isUsingFixedSubTimeSteps
        (exampleAnimation\<lparr>isUsingFixedSubTimeSteps := False, numberOfFixedSubTimeSteps := 1\<rparr>) \<and>
   Finite 1 \<noteq> PosInf \<and>
   (\<exists>s' new final.
      advanceTimeStep baseHooks (Finite 1)
        (exampleAnimation\<lparr>isUsingFixedSubTimeSteps := False, numberOfFixedSubTimeSteps := 1\<rparr>, []) =
        Some (s', AdvanceTimeStep (Finite 1) # new) \<and>
      stepCounts new = [1] \<and> 0 \<notin> set (stepCounts new) \<and>
      recomputedFromRemaining (Finite 1) new final \<and>
      (\<exists>f. final = Finite f \<and> 0 \<le> f \<and> f \<le> kEpsilonD \<and>
         totalTime (substepSizes new) + final = Finite 1))"
proof -
  let ?a = "exampleAnimation\<lparr>isUsingFixedSubTimeSteps := False, numberOfFixedSubTimeSteps := 1\<rparr>"
  have t: "Finite 0 < Finite 1" by simp
  have f: "isUsingFixedSubTimeSteps exampleAnimation \<and> numberOfFixedSubTimeSteps exampleAnimation \<noteq> 0"
    by (simp add: exampleAnimation_def)
  have n: "numberOfFixedSubTimeSteps exampleAnimation = 2" by (simp add: exampleAnimation_def)
  have a: "\<not> isUsingFixedSubTimeSteps ?a" by simp
  have r2: "replicate 2 x = [x, x]" for x :: double by (simp add: numeral_2_eq_2)
  from advanceTimeStep_consumes_interval [OF t, of exampleAnimation baseHooks "[]"] f
  have 1: "\<exists>s' new. advanceTimeStep baseHooks (Finite 1) (exampleAnimation, []) =
                Some (s', AdvanceTimeStep (Finite 1) # new) \<and>
             substepSizes new = [Finite (1 / 2), Finite (1 / 2)] \<and>
             totalTime (substepSizes new) = Finite 1"
    by (simp add: n r2 ofUnsignedInt_def)
  have run: "advanceTimeStep baseHooks (Finite 1) (?a, []) =
      Some (?a\<lparr>currentTime := Finite 0\<rparr>,
            [AdvanceTimeStep (Finite 1), NumberOfSubTimeSteps (Finite 1) 1,
             OnAdvanceTimeStep (Finite 1)])"
    using kEpsilonD_pos
    by (simp add: advanceTimeStep_def adaptiveLoop_step adaptiveLoop_stops baseHooks_def
        exampleAnimation_def timeInSeconds_def ofUnsignedInt_def setMembers_def kEpsilonD_def)
  from advanceTimeStep_consumes_interval [OF t, of ?a baseHooks "[]"] a
  obtain s' new final where
    u: "advanceTimeStep baseHooks (Finite 1) (?a, []) = Some (s', [] @ AdvanceTimeStep (Finite 1) # new)"
       "recomputedFromRemaining (Finite 1) new final"
       "Finite 1 \<noteq> PosInf \<longrightarrow> final \<le> Finite kEpsilonD \<and>
          (0 \<notin> set (stepCounts new) \<longrightarrow>
            (\<exists>f. final = Finite f \<and> 0 \<le> f \<and> f \<le> kEpsilonD \<and>
               totalTime (substepSizes new) + final = Finite 1))"
    by blast
  from u(1) run have new: "new = [NumberOfSubTimeSteps (Finite 1) 1, OnAdvanceTimeStep (Finite 1)]"
    by simp
  then have c: "stepCounts new = [1]" "0 \<notin> set (stepCounts new)" by simp_all
  with u have 2: "\<exists>s' new final.
      advanceTimeStep baseHooks (Finite 1) (?a, []) = Some (s', AdvanceTimeStep (Finite 1) # new) \<and>
      stepCounts new = [1] \<and> 0 \<notin> set (stepCounts new) \<and>
      recomputedFromRemaining (Finite 1) new final \<and>
      (\<exists>f. final = Finite f \<and> 0 \<le> f \<and> f \<le> kEpsilonD \<and>
         totalTime (substepSizes new) + final = Finite 1)"
    by (intro exI [of _ s'] exI [of _ new] exI [of _ final]) simp
  from t f 1 a 2 show ?thesis by simp
qed

text \<open>
  C2 as stated fails with the count 0, which \<^verbatim>\<open>setNumberOfFixedSubTimeSteps\<close>
  accepts. In fixed mode the loop body never runs, no substep is taken and nothing of the
  interval 1 is consumed. In adaptive mode, where \<^verbatim>\<open>PhysicsAnimation\<close>'s own
  \<^verbatim>\<open>numberOfSubTimeSteps\<close> returns that count, the one substep taken is infinite and
  the remaining time ends at minus infinity. And from an infinite interval the adaptive
  loop, here with the count 1, ends with the remaining time NaN, which is not at most
  \<^verbatim>\<open>kEpsilonD\<close>.
\<close>

theorem advanceTimeStep_zero_fixed_steps:
  "advanceTimeStep baseHooks (Finite 1) (exampleAnimation\<lparr>numberOfFixedSubTimeSteps := 0\<rparr>, []) =
     Some (exampleAnimation\<lparr>numberOfFixedSubTimeSteps := 0, currentTime := Finite (- 1)\<rparr>,
           [AdvanceTimeStep (Finite 1)]) \<and>
   totalTime (substepSizes [AdvanceTimeStep (Finite 1)]) = Finite 0 \<and>
   adaptiveLoop baseHooks (Finite 1)
     (exampleAnimation\<lparr>isUsingFixedSubTimeSteps := False, numberOfFixedSubTimeSteps := 0\<rparr>, []) =
     Some ((exampleAnimation\<lparr>isUsingFixedSubTimeSteps := False, numberOfFixedSubTimeSteps := 0,
                             currentTime := PosInf\<rparr>,
            [NumberOfSubTimeSteps (Finite 1) 0, OnAdvanceTimeStep PosInf]), NegInf) \<and>
   advanceTimeStep baseHooks (Finite 1)
     (exampleAnimation\<lparr>isUsingFixedSubTimeSteps := False, numberOfFixedSubTimeSteps := 0\<rparr>, []) =
     Some (exampleAnimation\<lparr>isUsingFixedSubTimeSteps := False, numberOfFixedSubTimeSteps := 0,
                            currentTime := PosInf\<rparr>,
           [AdvanceTimeStep (Finite 1), NumberOfSubTimeSteps (Finite 1) 0,
            OnAdvanceTimeStep PosInf]) \<and>
   adaptiveLoop baseHooks PosInf
     (exampleAnimation\<lparr>isUsingFixedSubTimeSteps := False, numberOfFixedSubTimeSteps := 1\<rparr>, []) =
     Some ((exampleAnimation\<lparr>isUsingFixedSubTimeSteps := False, numberOfFixedSubTimeSteps := 1,
                             currentTime := PosInf\<rparr>,
            [NumberOfSubTimeSteps PosInf 1, OnAdvanceTimeStep PosInf]), NaN) \<and>
   \<not> NaN \<le> Finite kEpsilonD"
  using kEpsilonD_pos
  by (simp add: advanceTimeStep_def adaptiveLoop_step adaptiveLoop_stops baseHooks_def
      exampleAnimation_def timeInSeconds_def ofUnsignedInt_def setMembers_def totalTime_def
      kEpsilonD_def)

section \<open>Proofs: PhysicsAnimation update\<close>










section \<open>Proofs: GridFluidSolver3 setters and CFL number\<close>








lemma stdMax_eq_max: "stdMax a b = max a (b::real)"
  by (simp add: stdMax_def max_def)

lemma running_maximum:
  assumes "\<forall>c \<in> set cells. nonNegative (case c of (i, j, k) \<Rightarrow> V i j k)"
  shows "fold (\<lambda>(i, j, k) maxVel.
            (let v = V i j k in stdMax (stdMax (stdMax maxVel (vec_x v)) (vec_y v)) (vec_z v)))
           cells acc =
         fold max (concat (map (\<lambda>(i, j, k).
            (let v = V i j k in [\<bar>vec_x v\<bar>, \<bar>vec_y v\<bar>, \<bar>vec_z v\<bar>])) cells)) acc"
  using assms
proof (induction cells arbitrary: acc)
  case Nil
  then show ?case by simp
next
  case (Cons c cells)
  obtain i j k where c: "c = (i, j, k)" by (cases c) auto
  from Cons.prems c have n: "nonNegative (V i j k)" by simp
  from Cons.prems have r: "\<forall>c \<in> set cells. nonNegative (case c of (i, j, k) \<Rightarrow> V i j k)" by simp
  have "stdMax (stdMax (stdMax acc (vec_x (V i j k))) (vec_y (V i j k))) (vec_z (V i j k)) =
        max \<bar>vec_z (V i j k)\<bar> (max \<bar>vec_y (V i j k)\<bar> (max \<bar>vec_x (V i j k)\<bar> acc))"
    using n by (simp add: stdMax_eq_max nonNegative_def max.commute)
  then show ?case using Cons.IH [OF r] c by (simp add: Let_def)
qed

text \<open>
  Where no component of cell-center velocity plus \<open>dt\<close> times gravity is negative and the
  least grid spacing is not zero, the code computes the CFL number of the spec.
\<close>

lemma cfl_agrees_on_nonnegative_flow:
  assumes "\<forall>c \<in> set (cellIndices (resolution (gs_velocity (grids s)))).
             nonNegative (case c of (i, j, k) \<Rightarrow>
               vadd (valueAtCellCenter E (gs_velocity (grids s)) i j k) (smul dt (gravity s)))"
    and "min3 (vec_x (gs_gridSpacing (grids s))) (vec_y (gs_gridSpacing (grids s)))
           (vec_z (gs_gridSpacing (grids s))) \<noteq> 0"
  shows "cfl E dt s = Inr (cflOfSpec E dt s)"
  using assms(2) running_maximum [OF assms(1), of 0]
  by (simp add: cfl_def cflOfSpec_def divD_def Let_def)

lemma cellIndices_oneCell: "cellIndices oneCell = [(0, 0, 0)]"
  by (simp add: cellIndices_def oneCell_def)

lemma cfl_example: "cfl exampleCollaborators 1 exampleSolver = Inr 0"
  by (simp add: cfl_def exampleSolver_def exampleVelocity_def exampleCollaborators_def
      cellIndices_oneCell vadd_def smul_def zeroVector_def unitVector_def stdMax_def min3_def divD_def)

lemma cflOfSpec_example: "cflOfSpec exampleCollaborators 1 exampleSolver = 1"
  by (simp add: cflOfSpec_def exampleSolver_def exampleVelocity_def exampleCollaborators_def
      cellIndices_oneCell vadd_def smul_def zeroVector_def unitVector_def min3_def)

text \<open>
  C1. The claim: \<^verbatim>\<open>cfl(dt)\<close> is the maximum over all cells of the componentwise
  absolute value of cell-center velocity plus \<open>dt\<close> times gravity, times \<open>dt\<close>, divided by
  the least grid spacing. The code takes no absolute value: on one cell of spacing 1 with
  cell-center velocity (-1, 0, 0), no gravity and \<open>dt = 1\<close> it returns 0, where the claimed
  value is 1.
\<close>

theorem cfl_ignores_negative_velocity:
  "valueAtCellCenter exampleCollaborators (gs_velocity (grids exampleSolver)) 0 0 0 =
     \<lparr>vec_x = - 1, vec_y = 0, vec_z = 0\<rparr> \<and>
   cfl exampleCollaborators 1 exampleSolver = Inr 0 \<and>
   cflOfSpec exampleCollaborators 1 exampleSolver = 1"
  using cfl_example cflOfSpec_example
  by (simp add: exampleCollaborators_def exampleSolver_def exampleVelocity_def)


section \<open>Proofs: GridFluidSolver3 substep\<close>

lemma applyBoundaryCondition_solvers [simp]:
  "diffusionSolver (applyBoundaryCondition E s) = diffusionSolver s"
  "pressureSolver (applyBoundaryCondition E s) = pressureSolver s"
  "advectionSolver (applyBoundaryCondition E s) = advectionSolver s"
  by (simp_all add: applyBoundaryCondition_def setVelocity_def split: option.splits)

lemma beginAdvanceTimeStep_solvers [simp]:
  "diffusionSolver (beginAdvanceTimeStep E dt s) = diffusionSolver s"
  "pressureSolver (beginAdvanceTimeStep E dt s) = pressureSolver s"
  "advectionSolver (beginAdvanceTimeStep E dt s) = advectionSolver s"
  by (simp_all add: beginAdvanceTimeStep_def onBeginAdvanceTimeStep_def updateCollider_def
      updateEmitter_def Let_def split: option.splits prod.splits)

lemma computeExternalForces_solvers [simp]:
  "diffusionSolver (computeExternalForces E dt s) = diffusionSolver s"
  "pressureSolver (computeExternalForces E dt s) = pressureSolver s"
  "advectionSolver (computeExternalForces E dt s) = advectionSolver s"
  by (simp_all add: computeExternalForces_def computeGravity_def setVelocity_def Let_def)

lemma computeViscosity_solvers:
  "computeViscosity E dt s = Inr s' \<Longrightarrow>
   pressureSolver s' = pressureSolver s \<and> advectionSolver s' = advectionSolver s"
  by (auto simp add: computeViscosity_def colliderSdf_def setVelocity_def Let_def
      split: option.splits if_splits)

lemma computePressure_solvers:
  "computePressure E dt s = Inr s' \<Longrightarrow> advectionSolver s' = advectionSolver s"
  by (auto simp add: computePressure_def colliderSdf_def colliderVelocityField_def setVelocity_def
      Let_def split: option.splits if_splits)

lemma computeViscosity_skipped: "diffusionSolver s = None \<Longrightarrow> computeViscosity E dt s = Inr s"
  by (simp add: computeViscosity_def)

lemma computePressure_skipped: "pressureSolver s = None \<Longrightarrow> computePressure E dt s = Inr s"
  by (simp add: computePressure_def)

lemma computeAdvection_skipped: "advectionSolver s = None \<Longrightarrow> computeAdvection E dt s = Inr s"
  by (simp add: computeAdvection_def)

lemma bindE_cong_Inr:
  "(\<And>v. m = Inr v \<Longrightarrow> f v = g v) \<Longrightarrow> bindE m f = bindE m g"
  by (cases m) simp_all

text \<open>
  C8. On a grid with a zero in its resolution \<^verbatim>\<open>onAdvanceTimeStep\<close> returns the
  solver unchanged, without an error. A null diffusion, pressure or advection solver makes
  its stage return the solver unchanged, and the substep is then the remaining stages in
  their order: begin, external forces, the two other solver stages, end.
\<close>

theorem onAdvanceTimeStep_skips:
  "(emptyGrid s \<longrightarrow> onAdvanceTimeStep E dt s = Inr s) \<and>
   (diffusionSolver s = None \<longrightarrow> computeViscosity E dt s = Inr s) \<and>
   (pressureSolver s = None \<longrightarrow> computePressure E dt s = Inr s) \<and>
   (advectionSolver s = None \<longrightarrow> computeAdvection E dt s = Inr s) \<and>
   (\<not> emptyGrid s \<and> diffusionSolver s = None \<longrightarrow>
      onAdvanceTimeStep E dt s =
        bindE (computePressure E dt (computeExternalForces E dt (beginAdvanceTimeStep E dt s)))
          (\<lambda>s4. bindE (computeAdvection E dt s4) (\<lambda>s5. Inr (endAdvanceTimeStep dt s5)))) \<and>
   (\<not> emptyGrid s \<and> pressureSolver s = None \<longrightarrow>
      onAdvanceTimeStep E dt s =
        bindE (computeViscosity E dt (computeExternalForces E dt (beginAdvanceTimeStep E dt s)))
          (\<lambda>s3. bindE (computeAdvection E dt s3) (\<lambda>s5. Inr (endAdvanceTimeStep dt s5)))) \<and>
   (\<not> emptyGrid s \<and> advectionSolver s = None \<longrightarrow>
      onAdvanceTimeStep E dt s =
        bindE (computeViscosity E dt (computeExternalForces E dt (beginAdvanceTimeStep E dt s)))
          (\<lambda>s3. bindE (computePressure E dt s3) (\<lambda>s4. Inr (endAdvanceTimeStep dt s4))))"
proof (intro conjI impI)
  show "onAdvanceTimeStep E dt s = Inr s" if "emptyGrid s"
    using that by (simp add: onAdvanceTimeStep_def emptyGrid_def)
  show "computeViscosity E dt s = Inr s" if "diffusionSolver s = None"
    using that by (rule computeViscosity_skipped)
  show "computePressure E dt s = Inr s" if "pressureSolver s = None"
    using that by (rule computePressure_skipped)
  show "computeAdvection E dt s = Inr s" if "advectionSolver s = None"
    using that by (rule computeAdvection_skipped)
  let ?s2 = "computeExternalForces E dt (beginAdvanceTimeStep E dt s)"
  show "onAdvanceTimeStep E dt s =
        bindE (computePressure E dt ?s2)
          (\<lambda>s4. bindE (computeAdvection E dt s4) (\<lambda>s5. Inr (endAdvanceTimeStep dt s5)))"
    if h: "\<not> emptyGrid s \<and> diffusionSolver s = None"
  proof -
    from h have "diffusionSolver ?s2 = None" by simp
    then have "computeViscosity E dt ?s2 = Inr ?s2" by (rule computeViscosity_skipped)
    with h show ?thesis by (simp add: onAdvanceTimeStep_def emptyGrid_def)
  qed
  show "onAdvanceTimeStep E dt s =
        bindE (computeViscosity E dt ?s2)
          (\<lambda>s3. bindE (computeAdvection E dt s3) (\<lambda>s5. Inr (endAdvanceTimeStep dt s5)))"
    if h: "\<not> emptyGrid s \<and> pressureSolver s = None"
  proof -
    have "bindE (computePressure E dt s3)
            (\<lambda>s4. bindE (computeAdvection E dt s4) (\<lambda>s5. Inr (endAdvanceTimeStep dt s5))) =
          bindE (computeAdvection E dt s3) (\<lambda>s5. Inr (endAdvanceTimeStep dt s5))"
      if "computeViscosity E dt ?s2 = Inr s3" for s3
    proof -
      from computeViscosity_solvers [OF that] h have "pressureSolver s3 = None" by simp
      then show ?thesis by (simp add: computePressure_skipped)
    qed
    then have "bindE (computeViscosity E dt ?s2)
            (\<lambda>s3. bindE (computePressure E dt s3)
            (\<lambda>s4. bindE (computeAdvection E dt s4) (\<lambda>s5. Inr (endAdvanceTimeStep dt s5)))) =
          bindE (computeViscosity E dt ?s2)
            (\<lambda>s3. bindE (computeAdvection E dt s3) (\<lambda>s5. Inr (endAdvanceTimeStep dt s5)))"
      by (rule bindE_cong_Inr)
    with h show ?thesis by (simp add: onAdvanceTimeStep_def emptyGrid_def)
  qed
  show "onAdvanceTimeStep E dt s =
        bindE (computeViscosity E dt ?s2)
          (\<lambda>s3. bindE (computePressure E dt s3) (\<lambda>s4. Inr (endAdvanceTimeStep dt s4)))"
    if h: "\<not> emptyGrid s \<and> advectionSolver s = None"
  proof -
    have "bindE (computeAdvection E dt s4) (\<lambda>s5. Inr (endAdvanceTimeStep dt s5)) =
          Inr (endAdvanceTimeStep dt s4)"
      if v: "computeViscosity E dt ?s2 = Inr s3" and p: "computePressure E dt s3 = Inr s4" for s3 s4
    proof -
      from computeViscosity_solvers [OF v] computePressure_solvers [OF p] h
      have "advectionSolver s4 = None" by simp
      then show ?thesis by (simp add: computeAdvection_skipped)
    qed
    then have "bindE (computePressure E dt s3)
            (\<lambda>s4. bindE (computeAdvection E dt s4) (\<lambda>s5. Inr (endAdvanceTimeStep dt s5))) =
          bindE (computePressure E dt s3) (\<lambda>s4. Inr (endAdvanceTimeStep dt s4))"
      if "computeViscosity E dt ?s2 = Inr s3" for s3
      using that by (intro bindE_cong_Inr) blast
    then have "bindE (computeViscosity E dt ?s2)
            (\<lambda>s3. bindE (computePressure E dt s3)
            (\<lambda>s4. bindE (computeAdvection E dt s4) (\<lambda>s5. Inr (endAdvanceTimeStep dt s5)))) =
          bindE (computeViscosity E dt ?s2)
            (\<lambda>s3. bindE (computePressure E dt s3) (\<lambda>s4. Inr (endAdvanceTimeStep dt s4)))"
      by (rule bindE_cong_Inr)
    with h show ?thesis by (simp add: onAdvanceTimeStep_def emptyGrid_def)
  qed
qed

text \<open>The substep on a grid without cells, and on a solver none of whose three solvers is set.\<close>

theorem onAdvanceTimeStep_skips_witness:
  "emptyGrid exampleEmptySolver \<and>
   onAdvanceTimeStep exampleCollaborators 1 exampleEmptySolver = Inr exampleEmptySolver \<and>
   \<not> emptyGrid exampleSolver \<and> diffusionSolver exampleSolver = None \<and>
   pressureSolver exampleSolver = None \<and> advectionSolver exampleSolver = None \<and>
   computeViscosity exampleCollaborators 1 exampleSolver = Inr exampleSolver \<and>
   computePressure exampleCollaborators 1 exampleSolver = Inr exampleSolver \<and>
   computeAdvection exampleCollaborators 1 exampleSolver = Inr exampleSolver \<and>
   onAdvanceTimeStep exampleCollaborators 1 exampleSolver =
     bindE (computePressure exampleCollaborators 1
              (computeExternalForces exampleCollaborators 1
                 (beginAdvanceTimeStep exampleCollaborators 1 exampleSolver)))
       (\<lambda>s4. bindE (computeAdvection exampleCollaborators 1 s4)
          (\<lambda>s5. Inr (endAdvanceTimeStep 1 s5)))"
proof -
  have e: "emptyGrid exampleEmptySolver"
    by (simp add: emptyGrid_def exampleEmptySolver_def)
  have n: "\<not> emptyGrid exampleSolver"
    by (simp add: emptyGrid_def exampleSolver_def oneCell_def)
  have p: "diffusionSolver exampleSolver = None" "pressureSolver exampleSolver = None"
    "advectionSolver exampleSolver = None"
    by (simp_all add: exampleSolver_def)
  note t1 = onAdvanceTimeStep_skips [of exampleEmptySolver exampleCollaborators 1]
  note t2 = onAdvanceTimeStep_skips [of exampleSolver exampleCollaborators 1]
  from t1 e have "onAdvanceTimeStep exampleCollaborators 1 exampleEmptySolver = Inr exampleEmptySolver"
    by blast
  moreover from t2 p have "computeViscosity exampleCollaborators 1 exampleSolver = Inr exampleSolver"
    "computePressure exampleCollaborators 1 exampleSolver = Inr exampleSolver"
    "computeAdvection exampleCollaborators 1 exampleSolver = Inr exampleSolver"
    by blast+
  moreover from t2 n p have "onAdvanceTimeStep exampleCollaborators 1 exampleSolver =
     bindE (computePressure exampleCollaborators 1
              (computeExternalForces exampleCollaborators 1
                 (beginAdvanceTimeStep exampleCollaborators 1 exampleSolver)))
       (\<lambda>s4. bindE (computeAdvection exampleCollaborators 1 s4)
          (\<lambda>s5. Inr (endAdvanceTimeStep 1 s5)))"
    by blast
  ultimately show ?thesis using e n p by blast
qed


section \<open>Proofs: blocked boundary condition solver\<close>

lemma linearIndex2_less:
  assumes "i < size2_x sz" "j < size2_y sz"
  shows "linearIndex2 sz i j < size2_x sz * size2_y sz"
proof -
  have "i + size2_x sz * j < size2_x sz * Suc j" using assms by simp
  also have "\<dots> \<le> size2_x sz * size2_y sz"
    by (rule mult_le_mono2) (use assms in simp)
  finally show ?thesis by (simp add: linearIndex2_def)
qed

lemma linearIndex2_inj:
  assumes "i < size2_x sz" "i' < size2_x sz" "linearIndex2 sz i j = linearIndex2 sz i' j'"
  shows "i = i' \<and> j = j'"
proof -
  let ?w = "size2_x sz"
  from assms(3) have e: "i + ?w * j = i' + ?w * j'" by (simp add: linearIndex2_def)
  from e have "(i + ?w * j) mod ?w = (i' + ?w * j') mod ?w" by simp
  with assms have i: "i = i'" by simp
  from e have "(i + ?w * j) div ?w = (i' + ?w * j') div ?w" by simp
  with assms have "j = j'" by simp
  with i show ?thesis by simp
qed

lemma at2_inside:
  "wellFormed2 a \<Longrightarrow> inside2 (arr2_size a) i j \<Longrightarrow> at2 a i j = Inr (raw2 a i j)"
  using linearIndex2_less [of i "arr2_size a" j]
  by (simp add: at2_def raw2_def wellFormed2_def inside2_def)

lemma set2_inside:
  assumes "wellFormed2 a" "inside2 (arr2_size a) i j"
  shows "\<exists>a'. set2 a i j v = Inr a' \<and> arr2_size a' = arr2_size a \<and> wellFormed2 a' \<and>
           (\<forall>i' j'. inside2 (arr2_size a) i' j' \<longrightarrow>
              raw2 a' i' j' = (if i' = i \<and> j' = j then v else raw2 a i' j'))"
proof -
  let ?n = "linearIndex2 (arr2_size a) i j"
  let ?a' = "a\<lparr>arr2_data := (arr2_data a)[?n := v]\<rparr>"
  have n: "?n < length (arr2_data a)"
    using assms linearIndex2_less [of i "arr2_size a" j]
    by (simp add: wellFormed2_def inside2_def)
  have s: "set2 a i j v = Inr ?a'"
    using assms n by (simp add: set2_def inside2_def)
  have r: "raw2 ?a' i' j' = (if i' = i \<and> j' = j then v else raw2 a i' j')"
    if "inside2 (arr2_size a) i' j'" for i' j'
  proof (cases "linearIndex2 (arr2_size a) i' j' = ?n")
    case True
    with that assms(2) have "i' = i \<and> j' = j"
      using linearIndex2_inj [of i' "arr2_size a" i j' j] by (simp add: inside2_def)
    then show ?thesis using n by (simp add: raw2_def)
  next
    case False
    then have ne: "\<not> (i' = i \<and> j' = j)" by auto
    have "raw2 ?a' i' j' = raw2 a i' j'" using False by (simp add: raw2_def)
    with ne show ?thesis by presburger
  qed
  have "wellFormed2 ?a'" using assms(1) by (simp add: wellFormed2_def)
  with s r show ?thesis by auto
qed

lemma set_cellIndices2: "set (cellIndices2 sz) = {(i, j). inside2 sz i j}"
  by (auto simp add: cellIndices2_def inside2_def)

lemma decSize_pos: "0 < n \<Longrightarrow> n < 2 ^ 64 \<Longrightarrow> decSize n = n - 1"
  by (simp add: decSize_def mod_if)


lemma assigned_refl: "gridShape sz vel \<Longrightarrow> assigned sz valU valV (\<lambda>f. False) (\<lambda>f. False) vel vel"
  by (simp add: assigned_def)

lemma assigned_trans:
  assumes "assigned sz valU valV PU PV vel vel1" "assigned sz valU valV QU QV vel1 vel2"
  shows "assigned sz valU valV (\<lambda>f. PU f \<or> QU f) (\<lambda>f. PV f \<or> QV f) vel vel2"
  using assms by (auto simp add: assigned_def)

lemma assigned_cong:
  "assigned sz valU valV PU PV vel vel' \<Longrightarrow> PU = QU \<Longrightarrow> PV = QV \<Longrightarrow>
   assigned sz valU valV QU QV vel vel'"
  by simp

lemma assignU:
  assumes g: "gridShape sz vel" and f: "inside2 (uSize sz) a b"
    and c: "bs_collider solver = Some c"
  shows "\<exists>vel'. bindE (colliderVelocityAt E solver p) (\<lambda>colliderVel. setU vel a b (v2_x colliderVel))
              = Inr vel' \<and> gridShape sz vel' \<and> fc2_dataV vel' = fc2_dataV vel \<and>
           (\<forall>a' b'. inside2 (uSize sz) a' b' \<longrightarrow>
              raw2 (fc2_dataU vel') a' b' =
                (if a' = a \<and> b' = b then v2_x (velocityAt E c p) else raw2 (fc2_dataU vel) a' b'))"
proof -
  from g f have w: "wellFormed2 (fc2_dataU vel)" and i: "inside2 (arr2_size (fc2_dataU vel)) a b"
    and sz: "arr2_size (fc2_dataU vel) = uSize sz"
    by (simp_all add: gridShape_def)
  from set2_inside [OF w i, of "v2_x (velocityAt E c p)"] obtain u' where
    u: "set2 (fc2_dataU vel) a b (v2_x (velocityAt E c p)) = Inr u'"
       "arr2_size u' = arr2_size (fc2_dataU vel)" "wellFormed2 u'"
       "\<forall>i' j'. inside2 (arr2_size (fc2_dataU vel)) i' j' \<longrightarrow>
              raw2 u' i' j' = (if i' = a \<and> j' = b then v2_x (velocityAt E c p)
                               else raw2 (fc2_dataU vel) i' j')"
    by blast
  let ?vel' = "vel\<lparr>fc2_dataU := u'\<rparr>"
  have "bindE (colliderVelocityAt E solver p) (\<lambda>colliderVel. setU vel a b (v2_x colliderVel)) = Inr ?vel'"
    using c u(1) by (simp add: colliderVelocityAt_def setU_def)
  moreover have "gridShape sz ?vel'" using g u(2,3) by (simp add: gridShape_def)
  moreover have "fc2_dataV ?vel' = fc2_dataV vel" by simp
  moreover have "\<forall>a' b'. inside2 (uSize sz) a' b' \<longrightarrow>
              raw2 (fc2_dataU ?vel') a' b' =
                (if a' = a \<and> b' = b then v2_x (velocityAt E c p) else raw2 (fc2_dataU vel) a' b')"
    using u(4) sz by simp
  ultimately show ?thesis by blast
qed

lemma assignV:
  assumes g: "gridShape sz vel" and f: "inside2 (vSize sz) a b"
    and c: "bs_collider solver = Some c"
  shows "\<exists>vel'. bindE (colliderVelocityAt E solver p) (\<lambda>colliderVel. setV vel a b (v2_y colliderVel))
              = Inr vel' \<and> gridShape sz vel' \<and> fc2_dataU vel' = fc2_dataU vel \<and>
           (\<forall>a' b'. inside2 (vSize sz) a' b' \<longrightarrow>
              raw2 (fc2_dataV vel') a' b' =
                (if a' = a \<and> b' = b then v2_y (velocityAt E c p) else raw2 (fc2_dataV vel) a' b'))"
proof -
  from g f have w: "wellFormed2 (fc2_dataV vel)" and i: "inside2 (arr2_size (fc2_dataV vel)) a b"
    and sz: "arr2_size (fc2_dataV vel) = vSize sz"
    by (simp_all add: gridShape_def)
  from set2_inside [OF w i, of "v2_y (velocityAt E c p)"] obtain v' where
    v: "set2 (fc2_dataV vel) a b (v2_y (velocityAt E c p)) = Inr v'"
       "arr2_size v' = arr2_size (fc2_dataV vel)" "wellFormed2 v'"
       "\<forall>i' j'. inside2 (arr2_size (fc2_dataV vel)) i' j' \<longrightarrow>
              raw2 v' i' j' = (if i' = a \<and> j' = b then v2_y (velocityAt E c p)
                               else raw2 (fc2_dataV vel) i' j')"
    by blast
  let ?vel' = "vel\<lparr>fc2_dataV := v'\<rparr>"
  have "bindE (colliderVelocityAt E solver p) (\<lambda>colliderVel. setV vel a b (v2_y colliderVel)) = Inr ?vel'"
    using c v(1) by (simp add: colliderVelocityAt_def setV_def)
  moreover have "gridShape sz ?vel'" using g v(2,3) by (simp add: gridShape_def)
  moreover have "fc2_dataU ?vel' = fc2_dataU vel" by simp
  moreover have "\<forall>a' b'. inside2 (vSize sz) a' b' \<longrightarrow>
              raw2 (fc2_dataV ?vel') a' b' =
                (if a' = a \<and> b' = b then v2_y (velocityAt E c p) else raw2 (fc2_dataV vel) a' b')"
    using v(4) sz by simp
  ultimately show ?thesis by blast
qed

text \<open>One guarded assignment to a u-face, and one to a v-face.\<close>

lemma whenFluid_U:
  assumes g: "gridShape sz vel" and f: "inside2 (uSize sz) a b"
    and c: "bs_collider solver = Some c"
    and n: "guard \<Longrightarrow> neighbour = Inr m"
  shows "\<exists>vel'. whenFluid guard neighbour
            (\<lambda>w. bindE (colliderVelocityAt E solver (uPos a b))
                    (\<lambda>colliderVel. setU w a b (v2_x colliderVel))) vel = Inr vel' \<and>
           assigned sz (\<lambda>a b. v2_x (velocityAt E c (uPos a b))) valV
             (\<lambda>f. guard \<and> m = kFluid \<and> f = (a, b)) (\<lambda>f. False) vel vel'"
proof (cases "guard \<and> m = kFluid")
  case True
  with n have r: "whenFluid guard neighbour
            (\<lambda>w. bindE (colliderVelocityAt E solver (uPos a b))
                    (\<lambda>colliderVel. setU w a b (v2_x colliderVel))) vel =
          bindE (colliderVelocityAt E solver (uPos a b)) (\<lambda>colliderVel. setU vel a b (v2_x colliderVel))"
    by (simp add: whenFluid_def)
  from assignU [OF g f c, of E "uPos a b"] obtain vel' where
    "bindE (colliderVelocityAt E solver (uPos a b)) (\<lambda>colliderVel. setU vel a b (v2_x colliderVel))
       = Inr vel'" "gridShape sz vel'" "fc2_dataV vel' = fc2_dataV vel"
    "\<forall>a' b'. inside2 (uSize sz) a' b' \<longrightarrow>
              raw2 (fc2_dataU vel') a' b' =
                (if a' = a \<and> b' = b then v2_x (velocityAt E c (uPos a b))
                 else raw2 (fc2_dataU vel) a' b')"
    by blast
  with r True show ?thesis by (auto simp add: assigned_def)
next
  case False
  with n have "whenFluid guard neighbour
            (\<lambda>w. bindE (colliderVelocityAt E solver (uPos a b))
                    (\<lambda>colliderVel. setU w a b (v2_x colliderVel))) vel = Inr vel"
    by (auto simp add: whenFluid_def)
  with False g show ?thesis by (auto simp add: assigned_def)
qed

lemma whenFluid_V:
  assumes g: "gridShape sz vel" and f: "inside2 (vSize sz) a b"
    and c: "bs_collider solver = Some c"
    and n: "guard \<Longrightarrow> neighbour = Inr m"
  shows "\<exists>vel'. whenFluid guard neighbour
            (\<lambda>w. bindE (colliderVelocityAt E solver (vPos a b))
                    (\<lambda>colliderVel. setV w a b (v2_y colliderVel))) vel = Inr vel' \<and>
           assigned sz valU (\<lambda>a b. v2_y (velocityAt E c (vPos a b)))
             (\<lambda>f. False) (\<lambda>f. guard \<and> m = kFluid \<and> f = (a, b)) vel vel'"
proof (cases "guard \<and> m = kFluid")
  case True
  with n have r: "whenFluid guard neighbour
            (\<lambda>w. bindE (colliderVelocityAt E solver (vPos a b))
                    (\<lambda>colliderVel. setV w a b (v2_y colliderVel))) vel =
          bindE (colliderVelocityAt E solver (vPos a b)) (\<lambda>colliderVel. setV vel a b (v2_y colliderVel))"
    by (simp add: whenFluid_def)
  from assignV [OF g f c, of E "vPos a b"] obtain vel' where
    "bindE (colliderVelocityAt E solver (vPos a b)) (\<lambda>colliderVel. setV vel a b (v2_y colliderVel))
       = Inr vel'" "gridShape sz vel'" "fc2_dataU vel' = fc2_dataU vel"
    "\<forall>a' b'. inside2 (vSize sz) a' b' \<longrightarrow>
              raw2 (fc2_dataV vel') a' b' =
                (if a' = a \<and> b' = b then v2_y (velocityAt E c (vPos a b))
                 else raw2 (fc2_dataV vel) a' b')"
    by blast
  with r True show ?thesis by (auto simp add: assigned_def)
next
  case False
  with n have "whenFluid guard neighbour
            (\<lambda>w. bindE (colliderVelocityAt E solver (vPos a b))
                    (\<lambda>colliderVel. setV w a b (v2_y colliderVel))) vel = Inr vel"
    by (auto simp add: whenFluid_def)
  with False g show ?thesis by (auto simp add: assigned_def)
qed


lemma noFluxAt_cell:
  assumes g: "gridShape sz vel" and ms: "arrayShape sz (bs_marker solver)"
    and c: "bs_collider solver = Some c" and ij: "inside2 sz i j"
  shows "\<exists>vel'. noFluxAt E solver sz uPos vPos (i, j) vel = Inr vel' \<and>
           assigned sz (\<lambda>a b. v2_x (velocityAt E c (uPos a b))) (\<lambda>a b. v2_y (velocityAt E c (vPos a b)))
             (writesU (bs_marker solver) sz (i, j)) (writesV (bs_marker solver) sz (i, j)) vel vel'"
proof -
  let ?m = "bs_marker solver"
  let ?valU = "\<lambda>a b. v2_x (velocityAt E c (uPos a b))"
  let ?valV = "\<lambda>a b. v2_y (velocityAt E c (vPos a b))"
  from ms have w: "wellFormed2 ?m" and s: "arr2_size ?m = sz" by (simp_all add: arrayShape_def)
  from ij have i: "i < size2_x sz" and j: "j < size2_y sz" by (simp_all add: inside2_def)
  from g have b: "size2_x sz < 2 ^ 64" "size2_y sz < 2 ^ 64" by (simp_all add: gridShape_def)
  have dx: "decSize (size2_x sz) = size2_x sz - 1" using i b by (intro decSize_pos) simp_all
  have dy: "decSize (size2_y sz) = size2_y sz - 1" using j b by (intro decSize_pos) simp_all
  have rd: "at2 ?m i j = Inr (raw2 ?m i j)" using at2_inside [OF w, of i j] s ij by simp
  show ?thesis
  proof (cases "raw2 ?m i j = kCollider")
    case False
    then have "noFluxAt E solver sz uPos vPos (i, j) vel = Inr vel"
      using rd by (simp add: noFluxAt_def)
    moreover have "writesU ?m sz (i, j) = (\<lambda>f. False)" "writesV ?m sz (i, j) = (\<lambda>f. False)"
      using False by (auto simp add: writesU_def writesV_def)
    ultimately show ?thesis using assigned_refl [OF g] by simp
  next
    case True
    have n1: "0 < i \<Longrightarrow> at2 ?m (i - 1) j = Inr (raw2 ?m (i - 1) j)"
      using at2_inside [OF w, of "i - 1" j] s i j by (simp add: inside2_def)
    have n2: "i < decSize (size2_x sz) \<Longrightarrow> at2 ?m (i + 1) j = Inr (raw2 ?m (i + 1) j)"
      using at2_inside [OF w, of "i + 1" j] s i j dx by (simp add: inside2_def)
    have n3: "0 < j \<Longrightarrow> at2 ?m i (j - 1) = Inr (raw2 ?m i (j - 1))"
      using at2_inside [OF w, of i "j - 1"] s i j by (simp add: inside2_def)
    have n4: "j < decSize (size2_y sz) \<Longrightarrow> at2 ?m i (j + 1) = Inr (raw2 ?m i (j + 1))"
      using at2_inside [OF w, of i "j + 1"] s i j dy by (simp add: inside2_def)
    have f1: "inside2 (uSize sz) i j" and f2: "inside2 (uSize sz) (i + 1) j"
      and f3: "inside2 (vSize sz) i j" and f4: "inside2 (vSize sz) i (j + 1)"
      using i j by (simp_all add: inside2_def uSize_def vSize_def)
    from whenFluid_U [OF g f1 c n1, of "0 < i" E uPos ?valV] obtain vel1 where
      r1: "whenFluid (0 < i) (at2 ?m (i - 1) j)
            (\<lambda>w. bindE (colliderVelocityAt E solver (uPos i j))
                    (\<lambda>colliderVel. setU w i j (v2_x colliderVel))) vel = Inr vel1"
      and a1: "assigned sz ?valU ?valV
             (\<lambda>f. 0 < i \<and> raw2 ?m (i - 1) j = kFluid \<and> f = (i, j)) (\<lambda>f. False) vel vel1"
      by blast
    from a1 have g1: "gridShape sz vel1" by (simp add: assigned_def)
    from whenFluid_U [OF g1 f2 c n2, of "i < decSize (size2_x sz)" E uPos ?valV] obtain vel2 where
      r2: "whenFluid (i < decSize (size2_x sz)) (at2 ?m (i + 1) j)
            (\<lambda>w. bindE (colliderVelocityAt E solver (uPos (i + 1) j))
                    (\<lambda>colliderVel. setU w (i + 1) j (v2_x colliderVel))) vel1 = Inr vel2"
      and a2: "assigned sz ?valU ?valV
             (\<lambda>f. i < decSize (size2_x sz) \<and> raw2 ?m (i + 1) j = kFluid \<and> f = (i + 1, j))
             (\<lambda>f. False) vel1 vel2"
      by blast
    from a2 have g2: "gridShape sz vel2" by (simp add: assigned_def)
    from whenFluid_V [OF g2 f3 c n3, of "0 < j" E vPos ?valU] obtain vel3 where
      r3: "whenFluid (0 < j) (at2 ?m i (j - 1))
            (\<lambda>w. bindE (colliderVelocityAt E solver (vPos i j))
                    (\<lambda>colliderVel. setV w i j (v2_y colliderVel))) vel2 = Inr vel3"
      and a3: "assigned sz ?valU ?valV (\<lambda>f. False)
             (\<lambda>f. 0 < j \<and> raw2 ?m i (j - 1) = kFluid \<and> f = (i, j)) vel2 vel3"
      by blast
    from a3 have g3: "gridShape sz vel3" by (simp add: assigned_def)
    from whenFluid_V [OF g3 f4 c n4, of "j < decSize (size2_y sz)" E vPos ?valU] obtain vel4 where
      r4: "whenFluid (j < decSize (size2_y sz)) (at2 ?m i (j + 1))
            (\<lambda>w. bindE (colliderVelocityAt E solver (vPos i (j + 1)))
                    (\<lambda>colliderVel. setV w i (j + 1) (v2_y colliderVel))) vel3 = Inr vel4"
      and a4: "assigned sz ?valU ?valV (\<lambda>f. False)
             (\<lambda>f. j < decSize (size2_y sz) \<and> raw2 ?m i (j + 1) = kFluid \<and> f = (i, j + 1))
             vel3 vel4"
      by blast
    have run: "noFluxAt E solver sz uPos vPos (i, j) vel = Inr vel4"
      using rd True r1 r2 r3 r4 by (simp add: noFluxAt_def)
    note all = assigned_trans [OF assigned_trans [OF assigned_trans [OF a1 a2] a3] a4]
    have pu: "(\<lambda>f. (((0 < i \<and> raw2 ?m (i - 1) j = kFluid \<and> f = (i, j)) \<or>
                 (i < decSize (size2_x sz) \<and> raw2 ?m (i + 1) j = kFluid \<and> f = (i + 1, j))) \<or> False)
                \<or> False) = writesU ?m sz (i, j)"
      using True dx i by (auto simp add: writesU_def fun_eq_iff)
    have pv: "(\<lambda>f. ((False \<or> False) \<or> (0 < j \<and> raw2 ?m i (j - 1) = kFluid \<and> f = (i, j))) \<or>
                 (j < decSize (size2_y sz) \<and> raw2 ?m i (j + 1) = kFluid \<and> f = (i, j + 1)))
               = writesV ?m sz (i, j)"
      using True dy j by (auto simp add: writesV_def fun_eq_iff)
    from assigned_cong [OF all pu pv] run show ?thesis by blast
  qed
qed

lemma noFlux_loop:
  assumes ms: "arrayShape sz (bs_marker solver)" and c: "bs_collider solver = Some c"
  shows "gridShape sz vel \<Longrightarrow> \<forall>cell \<in> set cells. inside2 sz (fst cell) (snd cell) \<Longrightarrow>
         \<exists>vel'. forEachE cells (noFluxAt E solver sz uPos vPos) vel = Inr vel' \<and>
           assigned sz (\<lambda>a b. v2_x (velocityAt E c (uPos a b))) (\<lambda>a b. v2_y (velocityAt E c (vPos a b)))
             (\<lambda>f. \<exists>cell \<in> set cells. writesU (bs_marker solver) sz cell f)
             (\<lambda>f. \<exists>cell \<in> set cells. writesV (bs_marker solver) sz cell f) vel vel'"
proof (induction cells arbitrary: vel)
  case Nil
  then show ?case using assigned_refl [of sz vel] by simp
next
  case (Cons cell cells)
  obtain i j where ij: "cell = (i, j)" by (cases cell) auto
  from Cons.prems ij have "inside2 sz i j" by simp
  from noFluxAt_cell [OF Cons.prems(1) ms c this, of E uPos vPos] ij obtain vel1 where
    r1: "noFluxAt E solver sz uPos vPos cell vel = Inr vel1"
    and a1: "assigned sz (\<lambda>a b. v2_x (velocityAt E c (uPos a b))) (\<lambda>a b. v2_y (velocityAt E c (vPos a b)))
             (writesU (bs_marker solver) sz cell) (writesV (bs_marker solver) sz cell) vel vel1"
    by blast
  from a1 have g1: "gridShape sz vel1" by (simp add: assigned_def)
  from Cons.prems have "\<forall>cell \<in> set cells. inside2 sz (fst cell) (snd cell)" by simp
  from Cons.IH [OF g1 this] obtain vel' where
    r: "forEachE cells (noFluxAt E solver sz uPos vPos) vel1 = Inr vel'"
    and a: "assigned sz (\<lambda>a b. v2_x (velocityAt E c (uPos a b))) (\<lambda>a b. v2_y (velocityAt E c (vPos a b)))
             (\<lambda>f. \<exists>cell \<in> set cells. writesU (bs_marker solver) sz cell f)
             (\<lambda>f. \<exists>cell \<in> set cells. writesV (bs_marker solver) sz cell f) vel1 vel'"
    by blast
  have "forEachE (cell # cells) (noFluxAt E solver sz uPos vPos) vel = Inr vel'"
    using r1 r by simp
  moreover have "assigned sz (\<lambda>a b. v2_x (velocityAt E c (uPos a b))) (\<lambda>a b. v2_y (velocityAt E c (vPos a b)))
             (\<lambda>f. \<exists>cell \<in> set (cell # cells). writesU (bs_marker solver) sz cell f)
             (\<lambda>f. \<exists>cell \<in> set (cell # cells). writesV (bs_marker solver) sz cell f) vel vel'"
    by (rule assigned_cong [OF assigned_trans [OF a1 a]]) (auto simp add: fun_eq_iff)
  ultimately show ?case by blast
qed

lemma filled2_shape: "arrayShape sz (filled2 sz v)"
  by (simp add: arrayShape_def wellFormed2_def filled2_def)

lemma raw2_filled2: "inside2 sz i j \<Longrightarrow> raw2 (filled2 sz v) i j = v"
  using linearIndex2_less [of i sz j] by (simp add: raw2_def filled2_def inside2_def)

lemma classify_loop:
  assumes s: "arrayShape sz sdf"
  shows "arrayShape sz marker \<Longrightarrow> \<forall>cell \<in> set cells. inside2 sz (fst cell) (snd cell) \<Longrightarrow>
         \<exists>marker'. forEachE cells
             (\<lambda>(i, j) marker.
                bindE (at2 sdf i j) (\<lambda>phi.
                  set2 marker i j (if isInsideSdf phi then kCollider else kFluid))) marker
             = Inr marker' \<and> arrayShape sz marker' \<and>
           (\<forall>a b. inside2 sz a b \<longrightarrow>
              raw2 marker' a b =
                (if (a, b) \<in> set cells
                 then (if isInsideSdf (raw2 sdf a b) then kCollider else kFluid)
                 else raw2 marker a b))"
proof (induction cells arbitrary: marker)
  case Nil
  then show ?case by simp
next
  case (Cons cell cells)
  let ?body = "\<lambda>(i, j) marker.
                bindE (at2 sdf i j) (\<lambda>phi.
                  set2 marker i j (if isInsideSdf phi then kCollider else kFluid))"
  let ?cls = "\<lambda>a b. if isInsideSdf (raw2 sdf a b) then kCollider else kFluid"
  obtain i j where ij: "cell = (i, j)" by (cases cell) auto
  from Cons.prems ij have in1: "inside2 sz i j" by simp
  from s in1 have rd: "at2 sdf i j = Inr (raw2 sdf i j)"
    using at2_inside [of sdf i j] by (simp add: arrayShape_def)
  from Cons.prems(1) in1 have w: "wellFormed2 marker" "inside2 (arr2_size marker) i j"
    and ms: "arr2_size marker = sz"
    by (simp_all add: arrayShape_def)
  from set2_inside [OF w, of "?cls i j"] obtain m1 where
    m1: "set2 marker i j (?cls i j) = Inr m1" "arr2_size m1 = arr2_size marker" "wellFormed2 m1"
        "\<forall>i' j'. inside2 (arr2_size marker) i' j' \<longrightarrow>
              raw2 m1 i' j' = (if i' = i \<and> j' = j then ?cls i j else raw2 marker i' j')"
    by blast
  have b1: "?body cell marker = Inr m1" using ij rd m1(1) by simp
  have s1: "arrayShape sz m1" using m1(2,3) ms by (simp add: arrayShape_def)
  from Cons.prems have "\<forall>cell \<in> set cells. inside2 sz (fst cell) (snd cell)" by simp
  from Cons.IH [OF s1 this] obtain marker' where
    r: "forEachE cells ?body m1 = Inr marker'" "arrayShape sz marker'"
       "\<forall>a b. inside2 sz a b \<longrightarrow>
              raw2 marker' a b = (if (a, b) \<in> set cells then ?cls a b else raw2 m1 a b)"
    by blast
  have "forEachE (cell # cells) ?body marker = Inr marker'" using b1 r(1) by simp
  moreover have "\<forall>a b. inside2 sz a b \<longrightarrow>
              raw2 marker' a b = (if (a, b) \<in> set (cell # cells) then ?cls a b else raw2 marker a b)"
    using r(3) m1(4) ms ij by auto
  ultimately show ?case using r(2) by blast
qed

lemma onColliderUpdated_marker:
  assumes "arrayShape sz (bs_colliderSdf (fractionalOnColliderUpdated E sz spacing gridOrigin solver0))"
  shows "\<exists>marker. onColliderUpdated E sz spacing gridOrigin solver0 =
             Inr ((fractionalOnColliderUpdated E sz spacing gridOrigin solver0)\<lparr>bs_marker := marker\<rparr>) \<and>
           arrayShape sz marker \<and>
           (\<forall>i j. inside2 sz i j \<longrightarrow>
              raw2 marker i j =
                (if isInsideSdf (raw2 (bs_colliderSdf
                       (fractionalOnColliderUpdated E sz spacing gridOrigin solver0)) i j)
                 then kCollider else kFluid))"
proof -
  let ?solver1 = "fractionalOnColliderUpdated E sz spacing gridOrigin solver0"
  let ?sdf = "bs_colliderSdf ?solver1"
  have c: "\<forall>cell \<in> set (cellIndices2 sz). inside2 sz (fst cell) (snd cell)"
    by (auto simp add: set_cellIndices2)
  from classify_loop [OF assms filled2_shape c, of 0] obtain marker' where
    m: "forEachE (cellIndices2 sz)
             (\<lambda>(i, j) marker.
                bindE (at2 ?sdf i j) (\<lambda>phi.
                  set2 marker i j (if isInsideSdf phi then kCollider else kFluid))) (filled2 sz 0)
             = Inr marker'" "arrayShape sz marker'"
       "\<forall>a b. inside2 sz a b \<longrightarrow>
              raw2 marker' a b =
                (if (a, b) \<in> set (cellIndices2 sz)
                 then (if isInsideSdf (raw2 ?sdf a b) then kCollider else kFluid)
                 else raw2 (filled2 sz 0) a b)"
    by blast
  have "onColliderUpdated E sz spacing gridOrigin solver0 = Inr (?solver1\<lparr>bs_marker := marker'\<rparr>)"
    using m(1) by (simp add: onColliderUpdated_def Let_def)
  moreover have "\<forall>i j. inside2 sz i j \<longrightarrow>
              raw2 marker' i j = (if isInsideSdf (raw2 ?sdf i j) then kCollider else kFluid)"
    using m(3) by (simp add: set_cellIndices2)
  ultimately show ?thesis using m(2) by blast
qed

lemma kFluid_not_kCollider: "kFluid \<noteq> kCollider"
  by (simp add: kFluid_def kCollider_def)

lemma colliderCell_iff:
  "arrayShape sz (bs_colliderSdf solver) \<Longrightarrow> inside2 sz i j \<Longrightarrow>
   colliderCell solver i j \<longleftrightarrow> isInsideSdf (raw2 (bs_colliderSdf solver) i j)"
  using at2_inside [of "bs_colliderSdf solver" i j]
  by (simp add: colliderCell_def arrayShape_def)

lemma fluidCell_iff:
  "arrayShape sz (bs_colliderSdf solver) \<Longrightarrow> inside2 sz i j \<Longrightarrow>
   fluidCell solver i j \<longleftrightarrow> \<not> isInsideSdf (raw2 (bs_colliderSdf solver) i j)"
  using at2_inside [of "bs_colliderSdf solver" i j]
  by (simp add: fluidCell_def arrayShape_def)

lemma colliderCell_inside:
  "arrayShape sz (bs_colliderSdf solver) \<Longrightarrow> colliderCell solver i j \<Longrightarrow> inside2 sz i j"
  by (auto simp add: colliderCell_def arrayShape_def at2_def inside2_def split: if_splits)

lemma fluidCell_inside:
  "arrayShape sz (bs_colliderSdf solver) \<Longrightarrow> fluidCell solver i j \<Longrightarrow> inside2 sz i j"
  by (auto simp add: fluidCell_def arrayShape_def at2_def inside2_def split: if_splits)


lemma marker_classes:
  assumes s: "arrayShape sz (bs_colliderSdf solver)"
    and m: "\<forall>i j. inside2 sz i j \<longrightarrow>
              raw2 (bs_marker solver) i j =
                (if isInsideSdf (raw2 (bs_colliderSdf solver) i j) then kCollider else kFluid)"
  shows "inside2 sz i j \<Longrightarrow> raw2 (bs_marker solver) i j = kCollider \<longleftrightarrow> colliderCell solver i j"
    and "inside2 sz i j \<Longrightarrow> raw2 (bs_marker solver) i j = kFluid \<longleftrightarrow> fluidCell solver i j"
  using m colliderCell_iff [OF s, of i j] fluidCell_iff [OF s, of i j] kFluid_not_kCollider
  by auto

lemma writesU_interface:
  assumes s: "arrayShape sz (bs_colliderSdf solver)"
    and m: "\<forall>i j. inside2 sz i j \<longrightarrow>
              raw2 (bs_marker solver) i j =
                (if isInsideSdf (raw2 (bs_colliderSdf solver) i j) then kCollider else kFluid)"
  shows "(\<exists>cell \<in> set (cellIndices2 sz). writesU (bs_marker solver) sz cell (a, b)) \<longleftrightarrow>
         interfaceU solver a b"
proof
  assume "\<exists>cell \<in> set (cellIndices2 sz). writesU (bs_marker solver) sz cell (a, b)"
  then obtain i j where ij: "inside2 sz i j" and w: "writesU (bs_marker solver) sz (i, j) (a, b)"
    by (auto simp add: set_cellIndices2)
  from w have c: "raw2 (bs_marker solver) i j = kCollider" and bj: "b = j"
    and d: "(a = i \<and> 0 < i \<and> raw2 (bs_marker solver) (i - 1) j = kFluid) \<or>
            (a = i + 1 \<and> i + 1 < size2_x sz \<and> raw2 (bs_marker solver) (i + 1) j = kFluid)"
    by (simp_all add: writesU_def)
  from c ij have cc: "colliderCell solver i j" using marker_classes(1) [OF s m] by simp
  from d show "interfaceU solver a b"
  proof
    assume h: "a = i \<and> 0 < i \<and> raw2 (bs_marker solver) (i - 1) j = kFluid"
    with ij have "inside2 sz (i - 1) j" by (auto simp add: inside2_def intro: less_imp_diff_less)
    with h have "fluidCell solver (i - 1) j" using marker_classes(2) [OF s m] by simp
    with h cc bj show ?thesis by (simp add: interfaceU_def)
  next
    assume h: "a = i + 1 \<and> i + 1 < size2_x sz \<and> raw2 (bs_marker solver) (i + 1) j = kFluid"
    with ij have "inside2 sz (i + 1) j" by (simp add: inside2_def)
    with h have "fluidCell solver (i + 1) j" using marker_classes(2) [OF s m] by simp
    with h cc bj show ?thesis by (simp add: interfaceU_def)
  qed
next
  assume "interfaceU solver a b"
  then have a: "0 < a" and d: "(colliderCell solver a b \<and> fluidCell solver (a - 1) b) \<or>
              (colliderCell solver (a - 1) b \<and> fluidCell solver a b)"
    by (simp_all add: interfaceU_def)
  from d show "\<exists>cell \<in> set (cellIndices2 sz). writesU (bs_marker solver) sz cell (a, b)"
  proof
    assume h: "colliderCell solver a b \<and> fluidCell solver (a - 1) b"
    then have i1: "inside2 sz a b" and i2: "inside2 sz (a - 1) b"
      using colliderCell_inside [OF s] fluidCell_inside [OF s] by blast+
    from h i1 i2 have "raw2 (bs_marker solver) a b = kCollider"
      "raw2 (bs_marker solver) (a - 1) b = kFluid"
      using marker_classes [OF s m] by simp_all
    with a have "writesU (bs_marker solver) sz (a, b) (a, b)" by (simp add: writesU_def)
    with i1 show ?thesis by (auto simp add: set_cellIndices2)
  next
    assume h: "colliderCell solver (a - 1) b \<and> fluidCell solver a b"
    then have i1: "inside2 sz (a - 1) b" and i2: "inside2 sz a b"
      using colliderCell_inside [OF s] fluidCell_inside [OF s] by blast+
    from h i1 i2 have "raw2 (bs_marker solver) (a - 1) b = kCollider"
      "raw2 (bs_marker solver) a b = kFluid"
      using marker_classes [OF s m] by simp_all
    with a i2 have "writesU (bs_marker solver) sz (a - 1, b) (a, b)"
      by (simp add: writesU_def inside2_def)
    with i1 show ?thesis by (auto simp add: set_cellIndices2)
  qed
qed

lemma writesV_interface:
  assumes s: "arrayShape sz (bs_colliderSdf solver)"
    and m: "\<forall>i j. inside2 sz i j \<longrightarrow>
              raw2 (bs_marker solver) i j =
                (if isInsideSdf (raw2 (bs_colliderSdf solver) i j) then kCollider else kFluid)"
  shows "(\<exists>cell \<in> set (cellIndices2 sz). writesV (bs_marker solver) sz cell (a, b)) \<longleftrightarrow>
         interfaceV solver a b"
proof
  assume "\<exists>cell \<in> set (cellIndices2 sz). writesV (bs_marker solver) sz cell (a, b)"
  then obtain i j where ij: "inside2 sz i j" and w: "writesV (bs_marker solver) sz (i, j) (a, b)"
    by (auto simp add: set_cellIndices2)
  from w have c: "raw2 (bs_marker solver) i j = kCollider" and ai: "a = i"
    and d: "(b = j \<and> 0 < j \<and> raw2 (bs_marker solver) i (j - 1) = kFluid) \<or>
            (b = j + 1 \<and> j + 1 < size2_y sz \<and> raw2 (bs_marker solver) i (j + 1) = kFluid)"
    by (simp_all add: writesV_def)
  from c ij have cc: "colliderCell solver i j" using marker_classes(1) [OF s m] by simp
  from d show "interfaceV solver a b"
  proof
    assume h: "b = j \<and> 0 < j \<and> raw2 (bs_marker solver) i (j - 1) = kFluid"
    with ij have "inside2 sz i (j - 1)" by (auto simp add: inside2_def intro: less_imp_diff_less)
    with h have "fluidCell solver i (j - 1)" using marker_classes(2) [OF s m] by simp
    with h cc ai show ?thesis by (simp add: interfaceV_def)
  next
    assume h: "b = j + 1 \<and> j + 1 < size2_y sz \<and> raw2 (bs_marker solver) i (j + 1) = kFluid"
    with ij have "inside2 sz i (j + 1)" by (simp add: inside2_def)
    with h have "fluidCell solver i (j + 1)" using marker_classes(2) [OF s m] by simp
    with h cc ai show ?thesis by (simp add: interfaceV_def)
  qed
next
  assume "interfaceV solver a b"
  then have b: "0 < b" and d: "(colliderCell solver a b \<and> fluidCell solver a (b - 1)) \<or>
              (colliderCell solver a (b - 1) \<and> fluidCell solver a b)"
    by (simp_all add: interfaceV_def)
  from d show "\<exists>cell \<in> set (cellIndices2 sz). writesV (bs_marker solver) sz cell (a, b)"
  proof
    assume h: "colliderCell solver a b \<and> fluidCell solver a (b - 1)"
    then have i1: "inside2 sz a b" and i2: "inside2 sz a (b - 1)"
      using colliderCell_inside [OF s] fluidCell_inside [OF s] by blast+
    from h i1 i2 have "raw2 (bs_marker solver) a b = kCollider"
      "raw2 (bs_marker solver) a (b - 1) = kFluid"
      using marker_classes [OF s m] by simp_all
    with b have "writesV (bs_marker solver) sz (a, b) (a, b)" by (simp add: writesV_def)
    with i1 show ?thesis by (auto simp add: set_cellIndices2)
  next
    assume h: "colliderCell solver a (b - 1) \<and> fluidCell solver a b"
    then have i1: "inside2 sz a (b - 1)" and i2: "inside2 sz a b"
      using colliderCell_inside [OF s] fluidCell_inside [OF s] by blast+
    from h i1 i2 have "raw2 (bs_marker solver) a (b - 1) = kCollider"
      "raw2 (bs_marker solver) a b = kFluid"
      using marker_classes [OF s m] by simp_all
    with b i2 have "writesV (bs_marker solver) sz (a, b - 1) (a, b)"
      by (simp add: writesV_def inside2_def)
    with i1 show ?thesis by (auto simp add: set_cellIndices2)
  qed
qed

lemma constrainVelocity_faces:
  assumes u: "onColliderUpdated E sz spacing gridOrigin solver0 = Inr solver"
    and s: "arrayShape sz (bs_colliderSdf solver)"
    and c: "bs_collider solver = Some c"
    and b: "gridShape sz (fractionalConstrainVelocity E solver velocityGrid depth)"
  shows "\<exists>vel'. constrainVelocity E solver velocityGrid depth = Inr vel' \<and>
           (\<forall>a b. inside2 (uSize sz) a b \<longrightarrow>
              at2 (fc2_dataU vel') a b =
                (if interfaceU solver a b
                 then Inr (v2_x (velocityAt E c
                        (uPosition2 E (fractionalConstrainVelocity E solver velocityGrid depth) a b)))
                 else at2 (fc2_dataU (fractionalConstrainVelocity E solver velocityGrid depth)) a b)) \<and>
           (\<forall>a b. inside2 (vSize sz) a b \<longrightarrow>
              at2 (fc2_dataV vel') a b =
                (if interfaceV solver a b
                 then Inr (v2_y (velocityAt E c
                        (vPosition2 E (fractionalConstrainVelocity E solver velocityGrid depth) a b)))
                 else at2 (fc2_dataV (fractionalConstrainVelocity E solver velocityGrid depth)) a b))"
proof -
  let ?base = "fractionalConstrainVelocity E solver velocityGrid depth"
  let ?solver1 = "fractionalOnColliderUpdated E sz spacing gridOrigin solver0"
  from u have sdf: "bs_colliderSdf solver = bs_colliderSdf ?solver1"
    by (auto simp add: onColliderUpdated_def Let_def bindE_def split: sum.splits)
  with s have "arrayShape sz (bs_colliderSdf ?solver1)" by simp
  from onColliderUpdated_marker [OF this] obtain marker where
    "onColliderUpdated E sz spacing gridOrigin solver0 = Inr (?solver1\<lparr>bs_marker := marker\<rparr>)"
    "arrayShape sz marker"
    "\<forall>i j. inside2 sz i j \<longrightarrow>
              raw2 marker i j =
                (if isInsideSdf (raw2 (bs_colliderSdf ?solver1) i j) then kCollider else kFluid)"
    by blast
  with u sdf have ms: "arrayShape sz (bs_marker solver)"
    and m: "\<forall>i j. inside2 sz i j \<longrightarrow>
              raw2 (bs_marker solver) i j =
                (if isInsideSdf (raw2 (bs_colliderSdf solver) i j) then kCollider else kFluid)"
    by auto
  have cells: "\<forall>cell \<in> set (cellIndices2 sz). inside2 sz (fst cell) (snd cell)"
    by (auto simp add: set_cellIndices2)
  from noFlux_loop [OF ms c b cells, of E "uPosition2 E ?base" "vPosition2 E ?base"] obtain vel' where
    r: "forEachE (cellIndices2 sz) (noFluxAt E solver sz (uPosition2 E ?base) (vPosition2 E ?base)) ?base
          = Inr vel'"
    and a: "assigned sz (\<lambda>a b. v2_x (velocityAt E c (uPosition2 E ?base a b)))
              (\<lambda>a b. v2_y (velocityAt E c (vPosition2 E ?base a b)))
              (\<lambda>f. \<exists>cell \<in> set (cellIndices2 sz). writesU (bs_marker solver) sz cell f)
              (\<lambda>f. \<exists>cell \<in> set (cellIndices2 sz). writesV (bs_marker solver) sz cell f) ?base vel'"
    by blast
  from b have res: "fc2_resolution ?base = sz" by (simp add: gridShape_def)
  from ms have "arr2_size (bs_marker solver) = sz" by (simp add: arrayShape_def)
  with r res have run: "constrainVelocity E solver velocityGrid depth = Inr vel'"
    by (simp add: constrainVelocity_def Let_def)
  from a have g': "gridShape sz vel'" by (simp add: assigned_def)
  have ru: "at2 (fc2_dataU g) x y = Inr (raw2 (fc2_dataU g) x y)"
    if "gridShape sz g" "inside2 (uSize sz) x y" for g x y
    using that at2_inside [of "fc2_dataU g" x y] by (simp add: gridShape_def)
  have rv: "at2 (fc2_dataV g) x y = Inr (raw2 (fc2_dataV g) x y)"
    if "gridShape sz g" "inside2 (vSize sz) x y" for g x y
    using that at2_inside [of "fc2_dataV g" x y] by (simp add: gridShape_def)
  have "at2 (fc2_dataU vel') x y =
          (if interfaceU solver x y
           then Inr (v2_x (velocityAt E c (uPosition2 E ?base x y)))
           else at2 (fc2_dataU ?base) x y)"
    if i: "inside2 (uSize sz) x y" for x y
  proof -
    from a i have "raw2 (fc2_dataU vel') x y =
        (if \<exists>cell \<in> set (cellIndices2 sz). writesU (bs_marker solver) sz cell (x, y)
         then v2_x (velocityAt E c (uPosition2 E ?base x y)) else raw2 (fc2_dataU ?base) x y)"
      by (simp add: assigned_def)
    then show ?thesis
      unfolding writesU_interface [OF s m] using ru [OF g' i] ru [OF b i] by simp
  qed
  moreover have "at2 (fc2_dataV vel') x y =
          (if interfaceV solver x y
           then Inr (v2_y (velocityAt E c (vPosition2 E ?base x y)))
           else at2 (fc2_dataV ?base) x y)"
    if i: "inside2 (vSize sz) x y" for x y
  proof -
    from a i have "raw2 (fc2_dataV vel') x y =
        (if \<exists>cell \<in> set (cellIndices2 sz). writesV (bs_marker solver) sz cell (x, y)
         then v2_y (velocityAt E c (vPosition2 E ?base x y)) else raw2 (fc2_dataV ?base) x y)"
      by (simp add: assigned_def)
    then show ?thesis
      unfolding writesV_interface [OF s m] using rv [OF g' i] rv [OF b i] by simp
  qed
  ultimately show ?thesis using run by blast
qed


text \<open>
  C4. With the marker array that \<^verbatim>\<open>onColliderUpdated\<close> built from the cached SDF, a
  collider that is not null and a base-class result of the shape of the grid,
  \<^verbatim>\<open>constrainVelocity\<close> returns the base-class result in which, for every collider cell
  with an axis-adjacent fluid cell, the velocity component on the shared face is the
  corresponding component of the collider's velocity at that face's position; every face
  that does not lie between a collider cell and a fluid cell keeps the value the
  fractional base class left there.
\<close>

theorem constrainVelocity_no_flux:
  assumes u: "onColliderUpdated E sz spacing gridOrigin solver0 = Inr solver"
    and s: "arrayShape sz (bs_colliderSdf solver)"
    and c: "bs_collider solver = Some c"
    and b: "gridShape sz (fractionalConstrainVelocity E solver velocityGrid depth)"
  shows "\<exists>vel'. constrainVelocity E solver velocityGrid depth = Inr vel' \<and>
           (\<forall>i j. colliderCell solver i j \<longrightarrow>
              (0 < i \<and> fluidCell solver (i - 1) j \<longrightarrow>
                 at2 (fc2_dataU vel') i j =
                   Inr (v2_x (velocityAt E c (uPosition2 E
                          (fractionalConstrainVelocity E solver velocityGrid depth) i j)))) \<and>
              (fluidCell solver (i + 1) j \<longrightarrow>
                 at2 (fc2_dataU vel') (i + 1) j =
                   Inr (v2_x (velocityAt E c (uPosition2 E
                          (fractionalConstrainVelocity E solver velocityGrid depth) (i + 1) j)))) \<and>
              (0 < j \<and> fluidCell solver i (j - 1) \<longrightarrow>
                 at2 (fc2_dataV vel') i j =
                   Inr (v2_y (velocityAt E c (vPosition2 E
                          (fractionalConstrainVelocity E solver velocityGrid depth) i j)))) \<and>
              (fluidCell solver i (j + 1) \<longrightarrow>
                 at2 (fc2_dataV vel') i (j + 1) =
                   Inr (v2_y (velocityAt E c (vPosition2 E
                          (fractionalConstrainVelocity E solver velocityGrid depth) i (j + 1)))))) \<and>
           (\<forall>a b. inside2 (uSize sz) a b \<and> \<not> interfaceU solver a b \<longrightarrow>
              at2 (fc2_dataU vel') a b =
                at2 (fc2_dataU (fractionalConstrainVelocity E solver velocityGrid depth)) a b) \<and>
           (\<forall>a b. inside2 (vSize sz) a b \<and> \<not> interfaceV solver a b \<longrightarrow>
              at2 (fc2_dataV vel') a b =
                at2 (fc2_dataV (fractionalConstrainVelocity E solver velocityGrid depth)) a b)"
proof -
  let ?base = "fractionalConstrainVelocity E solver velocityGrid depth"
  from constrainVelocity_faces [OF u s c b] obtain vel' where
    run: "constrainVelocity E solver velocityGrid depth = Inr vel'"
    and fu: "\<And>a b. inside2 (uSize sz) a b \<Longrightarrow>
              at2 (fc2_dataU vel') a b =
                (if interfaceU solver a b
                 then Inr (v2_x (velocityAt E c (uPosition2 E ?base a b)))
                 else at2 (fc2_dataU ?base) a b)"
    and fv: "\<And>a b. inside2 (vSize sz) a b \<Longrightarrow>
              at2 (fc2_dataV vel') a b =
                (if interfaceV solver a b
                 then Inr (v2_y (velocityAt E c (vPosition2 E ?base a b)))
                 else at2 (fc2_dataV ?base) a b)"
    by blast
  have ci: "inside2 sz i j" if "colliderCell solver i j" for i j
    using that by (rule colliderCell_inside [OF s])
  have fi: "inside2 sz i j" if "fluidCell solver i j" for i j
    using that by (rule fluidCell_inside [OF s])
  have u1: "at2 (fc2_dataU vel') i j = Inr (v2_x (velocityAt E c (uPosition2 E ?base i j)))"
    if "colliderCell solver i j" "0 < i \<and> fluidCell solver (i - 1) j" for i j
  proof -
    from that have "interfaceU solver i j" by (simp add: interfaceU_def)
    moreover from ci [OF that(1)] have "inside2 (uSize sz) i j"
      by (simp add: inside2_def uSize_def)
    ultimately show ?thesis using fu by simp
  qed
  have u2: "at2 (fc2_dataU vel') (i + 1) j =
              Inr (v2_x (velocityAt E c (uPosition2 E ?base (i + 1) j)))"
    if "colliderCell solver i j" "fluidCell solver (i + 1) j" for i j
  proof -
    from that have "interfaceU solver (i + 1) j" by (simp add: interfaceU_def)
    moreover from ci [OF that(1)] have "inside2 (uSize sz) (i + 1) j"
      by (simp add: inside2_def uSize_def)
    ultimately show ?thesis using fu by simp
  qed
  have v1: "at2 (fc2_dataV vel') i j = Inr (v2_y (velocityAt E c (vPosition2 E ?base i j)))"
    if "colliderCell solver i j" "0 < j \<and> fluidCell solver i (j - 1)" for i j
  proof -
    from that have "interfaceV solver i j" by (simp add: interfaceV_def)
    moreover from ci [OF that(1)] have "inside2 (vSize sz) i j"
      by (simp add: inside2_def vSize_def)
    ultimately show ?thesis using fv by simp
  qed
  have v2: "at2 (fc2_dataV vel') i (j + 1) =
              Inr (v2_y (velocityAt E c (vPosition2 E ?base i (j + 1))))"
    if "colliderCell solver i j" "fluidCell solver i (j + 1)" for i j
  proof -
    from that have "interfaceV solver i (j + 1)" by (simp add: interfaceV_def)
    moreover from ci [OF that(1)] have "inside2 (vSize sz) i (j + 1)"
      by (simp add: inside2_def vSize_def)
    ultimately show ?thesis using fv by simp
  qed
  have k1: "at2 (fc2_dataU vel') a b = at2 (fc2_dataU ?base) a b"
    if "inside2 (uSize sz) a b \<and> \<not> interfaceU solver a b" for a b
    using that fu by simp
  have k2: "at2 (fc2_dataV vel') a b = at2 (fc2_dataV ?base) a b"
    if "inside2 (vSize sz) a b \<and> \<not> interfaceV solver a b" for a b
    using that fv by simp
  from run u1 u2 v1 v2 k1 k2 show ?thesis by blast
qed

lemma cellIndices2_twoCells: "cellIndices2 twoCells = [(0, 0), (1, 0)]"
  by (simp add: cellIndices2_def twoCells_def upt_rec)

lemma example_onColliderUpdated:
  "onColliderUpdated exampleCollaborators2 twoCells \<lparr>v2_x = 1, v2_y = 1\<rparr> \<lparr>v2_x = 0, v2_y = 0\<rparr>
     exampleBoundarySolver = Inr exampleBoundarySolver"
  unfolding onColliderUpdated_def cellIndices2_twoCells
  by (simp add: exampleCollaborators2_def exampleBoundarySolver_def Let_def at2_def set2_def
      filled2_def linearIndex2_def twoCells_def isInsideSdf_def numeral_2_eq_2)

text \<open>Two cells, fluid then collider: the face between them takes the collider's velocity.\<close>

theorem constrainVelocity_no_flux_witness:
  "onColliderUpdated exampleCollaborators2 twoCells \<lparr>v2_x = 1, v2_y = 1\<rparr> \<lparr>v2_x = 0, v2_y = 0\<rparr>
     exampleBoundarySolver = Inr exampleBoundarySolver \<and>
   colliderCell exampleBoundarySolver 1 0 \<and> fluidCell exampleBoundarySolver 0 0 \<and>
   (\<exists>vel'. constrainVelocity exampleCollaborators2 exampleBoundarySolver
              (uniformVelocity twoCells \<lparr>v2_x = 1, v2_y = 1\<rparr>) 5 = Inr vel' \<and>
      at2 (fc2_dataU vel') 1 0 = Inr 7 \<and> at2 (fc2_dataU vel') 0 0 = Inr 1 \<and>
      at2 (fc2_dataU vel') 2 0 = Inr 1)"
proof -
  let ?vel = "uniformVelocity twoCells \<lparr>v2_x = 1, v2_y = 1\<rparr>"
  have s: "arrayShape twoCells (bs_colliderSdf exampleBoundarySolver)"
    by (simp add: arrayShape_def wellFormed2_def exampleBoundarySolver_def twoCells_def)
  have c: "bs_collider exampleBoundarySolver = Some ()"
    by (simp add: exampleBoundarySolver_def)
  have base: "fractionalConstrainVelocity exampleCollaborators2 exampleBoundarySolver ?vel 5 = ?vel"
    by (simp add: exampleCollaborators2_def)
  have b: "gridShape twoCells
             (fractionalConstrainVelocity exampleCollaborators2 exampleBoundarySolver ?vel 5)"
    unfolding base
    by (simp add: gridShape_def uniformVelocity_def filled2_def wellFormed2_def uSize_def
        vSize_def twoCells_def)
  have cc: "colliderCell exampleBoundarySolver 1 0"
    by (simp add: colliderCell_def exampleBoundarySolver_def at2_def linearIndex2_def
        twoCells_def isInsideSdf_def)
  have fc: "fluidCell exampleBoundarySolver 0 0"
    by (simp add: fluidCell_def exampleBoundarySolver_def at2_def linearIndex2_def
        twoCells_def isInsideSdf_def)
  have ncc: "\<not> colliderCell exampleBoundarySolver 0 0"
    by (simp add: colliderCell_def exampleBoundarySolver_def at2_def linearIndex2_def
        twoCells_def isInsideSdf_def)
  have nfc: "\<not> fluidCell exampleBoundarySolver 2 0"
    by (simp add: fluidCell_def exampleBoundarySolver_def at2_def twoCells_def)
  have n0: "\<not> interfaceU exampleBoundarySolver 0 0" by (simp add: interfaceU_def)
  have n2: "\<not> interfaceU exampleBoundarySolver 2 0"
    using nfc by (simp add: interfaceU_def colliderCell_def exampleBoundarySolver_def at2_def
        twoCells_def)
  have i0: "inside2 (uSize twoCells) 0 0" and i2: "inside2 (uSize twoCells) 2 0"
    by (simp_all add: inside2_def uSize_def twoCells_def)
  have r: "at2 (fc2_dataU ?vel) 0 0 = Inr 1" "at2 (fc2_dataU ?vel) 2 0 = Inr 1"
    by (simp_all add: uniformVelocity_def filled2_def at2_def uSize_def twoCells_def
        linearIndex2_def)
  have v: "velocityAt exampleCollaborators2 () p = \<lparr>v2_x = 7, v2_y = 9\<rparr>" for p
    by (simp add: exampleCollaborators2_def)
  from constrainVelocity_no_flux [OF example_onColliderUpdated s c b] obtain vel' where
    run: "constrainVelocity exampleCollaborators2 exampleBoundarySolver ?vel 5 = Inr vel'"
    and f: "\<forall>i j. colliderCell exampleBoundarySolver i j \<longrightarrow>
              (0 < i \<and> fluidCell exampleBoundarySolver (i - 1) j \<longrightarrow>
                 at2 (fc2_dataU vel') i j =
                   Inr (v2_x (velocityAt exampleCollaborators2 () (uPosition2 exampleCollaborators2
                          (fractionalConstrainVelocity exampleCollaborators2 exampleBoundarySolver ?vel 5) i j))))"
    and k: "\<forall>a b. inside2 (uSize twoCells) a b \<and> \<not> interfaceU exampleBoundarySolver a b \<longrightarrow>
              at2 (fc2_dataU vel') a b =
                at2 (fc2_dataU (fractionalConstrainVelocity exampleCollaborators2 exampleBoundarySolver ?vel 5)) a b"
    by blast
  from f cc fc have "at2 (fc2_dataU vel') 1 0 = Inr 7" by (simp add: v)
  moreover from k i0 n0 r(1) have "at2 (fc2_dataU vel') 0 0 = Inr 1" unfolding base by simp
  moreover from k i2 n2 r(2) have "at2 (fc2_dataU vel') 2 0 = Inr 1" unfolding base by simp
  ultimately show ?thesis using run example_onColliderUpdated cc fc by blast
qed

lemma mapIndexed2_shape:
  "arrayShape sz a \<Longrightarrow> arrayShape sz (mapIndexed2 f a)"
  by (simp add: arrayShape_def wellFormed2_def mapIndexed2_def)

lemma raw2_mapIndexed2:
  assumes "arrayShape sz a" "inside2 sz i j"
  shows "raw2 (mapIndexed2 f a) i j = f i j (raw2 a i j)"
proof -
  from assms have w: "length (arr2_data a) = size2_x sz * size2_y sz" and s: "arr2_size a = sz"
    by (simp_all add: arrayShape_def wellFormed2_def)
  from assms(2) have i: "i < size2_x sz" by (simp add: inside2_def)
  have n: "linearIndex2 sz i j < length (arr2_data a)"
    using linearIndex2_less [of i sz j] assms(2) w by (simp add: inside2_def)
  have "(i + size2_x sz * j) mod size2_x sz = i" "(i + size2_x sz * j) div size2_x sz = j"
    using i by simp_all
  then show ?thesis using n s by (simp add: raw2_def mapIndexed2_def linearIndex2_def)
qed

lemma noFlux_loop_without_collider_cells:
  assumes ms: "arrayShape sz (bs_marker solver)"
    and f: "\<forall>i j. inside2 sz i j \<longrightarrow> raw2 (bs_marker solver) i j \<noteq> kCollider"
  shows "\<forall>cell \<in> set cells. inside2 sz (fst cell) (snd cell) \<Longrightarrow>
         forEachE cells (noFluxAt E solver rs uPos vPos) vel = Inr vel"
proof (induction cells)
  case Nil
  then show ?case by simp
next
  case (Cons cell cells)
  obtain i j where ij: "cell = (i, j)" by (cases cell) auto
  from Cons.prems ij have in1: "inside2 sz i j" by simp
  from ms in1 have "at2 (bs_marker solver) i j = Inr (raw2 (bs_marker solver) i j)"
    using at2_inside [of "bs_marker solver" i j] by (simp add: arrayShape_def)
  with f in1 ij have "noFluxAt E solver rs uPos vPos cell vel = Inr vel"
    by (simp add: noFluxAt_def)
  moreover from Cons.prems have "\<forall>cell \<in> set cells. inside2 sz (fst cell) (snd cell)" by simp
  ultimately show ?case using Cons.IH by simp
qed

lemma kMaxD_pos: "0 < kMaxD"
proof -
  have "(0::real) < 2 - 1 / 2 ^ 52" by (simp add: field_simps)
  then show ?thesis unfolding kMaxD_def by (intro mult_pos_pos) simp_all
qed

lemma closedAt_examples:
  "closedAt kDirectionAll kDirectionLeft" "closedAt kDirectionAll kDirectionRight"
  "closedAt kDirectionAll kDirectionDown" "closedAt kDirectionAll kDirectionUp"
  "closedAt (or kDirectionLeft kDirectionUp) kDirectionLeft"
  "\<not> closedAt (or kDirectionLeft kDirectionUp) kDirectionRight"
  "\<not> closedAt (or kDirectionLeft kDirectionUp) kDirectionDown"
  "closedAt (or kDirectionLeft kDirectionUp) kDirectionUp"
  by (simp_all add: closedAt_def kDirectionAll_def kDirectionLeft_def kDirectionRight_def
      kDirectionDown_def kDirectionUp_def)

text \<open>
  C3. Closed and open domain boundaries without collider. For a solver with a null
  collider and a face-centered velocity grid filled uniformly, \<^verbatim>\<open>onColliderUpdated\<close>
  followed by \<^verbatim>\<open>constrainVelocity\<close> returns a grid in which the u-samples of the first
  and of the last column are 0 exactly when the left, respectively the right, side is
  closed, the v-samples of the first and of the last row are 0 exactly when the bottom,
  respectively the top, side is closed, and every other sample still holds the fill
  value. With all directions closed every sample on a domain boundary face is 0 and
  every interior sample is unchanged. The treatment of the domain boundary by the
  fractional base class is the one of \<^const>\<open>specFractionalConstrainVelocity\<close>; the
  marker classification and the no-flux loop are those of the blocked solver.
\<close>

theorem constrainVelocity_closed_domain:
  assumes "bs_collider solver0 = None"
  shows "\<exists>solver vel'.
           onColliderUpdated (nullColliderCollaborators velAt uPos vPos) sz spacing gridOrigin solver0
             = Inr solver \<and>
           constrainVelocity (nullColliderCollaborators velAt uPos vPos) solver
             (uniformVelocity sz fill) depth = Inr vel' \<and>
           (\<forall>i j. i \<le> size2_x sz \<and> j < size2_y sz \<longrightarrow>
              at2 (fc2_dataU vel') i j =
                Inr (if (i = 0 \<and> closedAt (bs_closedDomainBoundaryFlag solver0) kDirectionLeft) \<or>
                        (i = size2_x sz \<and> closedAt (bs_closedDomainBoundaryFlag solver0) kDirectionRight)
                     then 0 else v2_x fill)) \<and>
           (\<forall>i j. i < size2_x sz \<and> j \<le> size2_y sz \<longrightarrow>
              at2 (fc2_dataV vel') i j =
                Inr (if (j = 0 \<and> closedAt (bs_closedDomainBoundaryFlag solver0) kDirectionDown) \<or>
                        (j = size2_y sz \<and> closedAt (bs_closedDomainBoundaryFlag solver0) kDirectionUp)
                     then 0 else v2_y fill))"
proof -
  let ?E = "nullColliderCollaborators velAt uPos vPos :: 'a collaborators2"
  let ?flag = "bs_closedDomainBoundaryFlag solver0"
  have sdf1: "bs_colliderSdf (fractionalOnColliderUpdated ?E sz spacing gridOrigin solver0) =
      filled2 sz kMaxD"
    by (simp add: nullColliderCollaborators_def specFractionalOnColliderUpdated_def)
  then have "arrayShape sz (bs_colliderSdf (fractionalOnColliderUpdated ?E sz spacing gridOrigin solver0))"
    by (simp add: filled2_shape)
  from onColliderUpdated_marker [OF this] obtain marker where
    u: "onColliderUpdated ?E sz spacing gridOrigin solver0 =
          Inr ((fractionalOnColliderUpdated ?E sz spacing gridOrigin solver0)\<lparr>bs_marker := marker\<rparr>)"
    and ms: "arrayShape sz marker"
    and m: "\<forall>i j. inside2 sz i j \<longrightarrow>
              raw2 marker i j =
                (if isInsideSdf (raw2 (bs_colliderSdf
                       (fractionalOnColliderUpdated ?E sz spacing gridOrigin solver0)) i j)
                 then kCollider else kFluid)"
    by blast
  let ?solver = "(fractionalOnColliderUpdated ?E sz spacing gridOrigin solver0)\<lparr>bs_marker := marker\<rparr>"
  have fl: "bs_closedDomainBoundaryFlag ?solver = ?flag"
    by (simp add: nullColliderCollaborators_def specFractionalOnColliderUpdated_def)
  have ms': "arrayShape sz (bs_marker ?solver)" using ms by simp
  have nc: "\<forall>i j. inside2 sz i j \<longrightarrow> raw2 (bs_marker ?solver) i j \<noteq> kCollider"
    using m sdf1 kMaxD_pos kFluid_not_kCollider
    by (simp add: raw2_filled2 isInsideSdf_def)
  let ?vel = "uniformVelocity sz fill"
  let ?base = "fractionalConstrainVelocity ?E ?solver ?vel depth"
  have cells: "\<forall>cell \<in> set (cellIndices2 sz). inside2 sz (fst cell) (snd cell)"
    by (auto simp add: set_cellIndices2)
  have "constrainVelocity ?E ?solver ?vel depth =
      forEachE (cellIndices2 sz)
        (noFluxAt ?E ?solver (fc2_resolution ?base) (uPosition2 ?E ?base) (vPosition2 ?E ?base)) ?base"
    using ms by (simp add: constrainVelocity_def Let_def arrayShape_def)
  also have "\<dots> = Inr ?base"
    by (rule noFlux_loop_without_collider_cells [OF ms' nc cells])
  finally have run: "constrainVelocity ?E ?solver ?vel depth = Inr ?base" .
  have base: "?base = specFractionalConstrainVelocity ?solver ?vel depth"
    by (simp add: nullColliderCollaborators_def)
  have su: "arrayShape (uSize sz) (fc2_dataU ?vel)" and sv: "arrayShape (vSize sz) (fc2_dataV ?vel)"
    by (simp_all add: uniformVelocity_def filled2_shape)
  have au: "at2 (fc2_dataU ?base) i j =
              Inr (if (i = 0 \<and> closedAt ?flag kDirectionLeft) \<or>
                      (i = size2_x sz \<and> closedAt ?flag kDirectionRight)
                   then 0 else v2_x fill)"
    if h: "i \<le> size2_x sz \<and> j < size2_y sz" for i j
  proof -
    from h have i: "inside2 (uSize sz) i j" by (simp add: inside2_def uSize_def)
    let ?f = "\<lambda>i j u. if (i = 0 \<and> closedAt (bs_closedDomainBoundaryFlag ?solver) kDirectionLeft) \<or>
                (i + 1 = size2_x (arr2_size (fc2_dataU ?vel)) \<and>
                 closedAt (bs_closedDomainBoundaryFlag ?solver) kDirectionRight)
             then 0 else u"
    have d: "fc2_dataU ?base = mapIndexed2 ?f (fc2_dataU ?vel)"
      unfolding base by (simp add: specFractionalConstrainVelocity_def)
    have "arrayShape (uSize sz) (fc2_dataU ?base)"
      unfolding d by (rule mapIndexed2_shape [OF su])
    then have "at2 (fc2_dataU ?base) i j = Inr (raw2 (fc2_dataU ?base) i j)"
      using at2_inside [of "fc2_dataU ?base" i j] i by (simp add: arrayShape_def)
    also have "raw2 (fc2_dataU ?base) i j = ?f i j (raw2 (fc2_dataU ?vel) i j)"
      unfolding d by (rule raw2_mapIndexed2 [OF su i])
    also have "raw2 (fc2_dataU ?vel) i j = v2_x fill"
      using i by (simp add: uniformVelocity_def raw2_filled2)
    finally show ?thesis
      using fl by (simp add: uniformVelocity_def filled2_def uSize_def)
  qed
  have av: "at2 (fc2_dataV ?base) i j =
              Inr (if (j = 0 \<and> closedAt ?flag kDirectionDown) \<or>
                      (j = size2_y sz \<and> closedAt ?flag kDirectionUp)
                   then 0 else v2_y fill)"
    if h: "i < size2_x sz \<and> j \<le> size2_y sz" for i j
  proof -
    from h have i: "inside2 (vSize sz) i j" by (simp add: inside2_def vSize_def)
    let ?f = "\<lambda>i j v. if (j = 0 \<and> closedAt (bs_closedDomainBoundaryFlag ?solver) kDirectionDown) \<or>
                (j + 1 = size2_y (arr2_size (fc2_dataV ?vel)) \<and>
                 closedAt (bs_closedDomainBoundaryFlag ?solver) kDirectionUp)
             then 0 else v"
    have d: "fc2_dataV ?base = mapIndexed2 ?f (fc2_dataV ?vel)"
      unfolding base by (simp add: specFractionalConstrainVelocity_def)
    have "arrayShape (vSize sz) (fc2_dataV ?base)"
      unfolding d by (rule mapIndexed2_shape [OF sv])
    then have "at2 (fc2_dataV ?base) i j = Inr (raw2 (fc2_dataV ?base) i j)"
      using at2_inside [of "fc2_dataV ?base" i j] i by (simp add: arrayShape_def)
    also have "raw2 (fc2_dataV ?base) i j = ?f i j (raw2 (fc2_dataV ?vel) i j)"
      unfolding d by (rule raw2_mapIndexed2 [OF sv i])
    also have "raw2 (fc2_dataV ?vel) i j = v2_y fill"
      using i by (simp add: uniformVelocity_def raw2_filled2)
    finally show ?thesis
      using fl by (simp add: uniformVelocity_def filled2_def vSize_def)
  qed
  from u run au av show ?thesis by blast
qed

theorem constrainVelocity_closed_domain_witness:
  "bs_collider (newBoundarySolver kDirectionAll) = None \<and>
   (\<exists>solver vel'.
      onColliderUpdated testCollaborators testGridSize \<lparr>v2_x = 1, v2_y = 1\<rparr> \<lparr>v2_x = - 5, v2_y = - 5\<rparr>
        (newBoundarySolver kDirectionAll) = Inr solver \<and>
      constrainVelocity testCollaborators solver
        (uniformVelocity testGridSize \<lparr>v2_x = 1, v2_y = 1\<rparr>) 5 = Inr vel' \<and>
      at2 (fc2_dataU vel') 0 3 = Inr 0 \<and> at2 (fc2_dataU vel') 10 3 = Inr 0 \<and>
      at2 (fc2_dataU vel') 5 3 = Inr 1 \<and>
      at2 (fc2_dataV vel') 3 0 = Inr 0 \<and> at2 (fc2_dataV vel') 3 10 = Inr 0 \<and>
      at2 (fc2_dataV vel') 3 5 = Inr 1) \<and>
   bs_collider (newBoundarySolver (or kDirectionLeft kDirectionUp)) = None \<and>
   (\<exists>solver vel'.
      onColliderUpdated testCollaborators testGridSize \<lparr>v2_x = 1, v2_y = 1\<rparr> \<lparr>v2_x = - 5, v2_y = - 5\<rparr>
        (newBoundarySolver (or kDirectionLeft kDirectionUp)) = Inr solver \<and>
      constrainVelocity testCollaborators solver
        (uniformVelocity testGridSize \<lparr>v2_x = 1, v2_y = 1\<rparr>) 5 = Inr vel' \<and>
      at2 (fc2_dataU vel') 0 3 = Inr 0 \<and> at2 (fc2_dataU vel') 10 3 = Inr 1 \<and>
      at2 (fc2_dataV vel') 3 0 = Inr 1 \<and> at2 (fc2_dataV vel') 3 10 = Inr 0)"
proof -
  have n: "bs_collider (newBoundarySolver flag) = None" for flag
    by (simp add: newBoundarySolver_def)
  have f: "bs_closedDomainBoundaryFlag (newBoundarySolver flag) = flag" for flag
    by (simp add: newBoundarySolver_def)
  have sz: "size2_x testGridSize = 10" "size2_y testGridSize = 10"
    by (simp_all add: testGridSize_def)
  note t = constrainVelocity_closed_domain [OF n, where velAt = "\<lambda>c p. p"
      and uPos = "\<lambda>g i j. \<lparr>v2_x = 0, v2_y = 0\<rparr>" and vPos = "\<lambda>g i j. \<lparr>v2_x = 0, v2_y = 0\<rparr>"
      and sz = testGridSize and spacing = "\<lparr>v2_x = 1, v2_y = 1\<rparr>"
      and gridOrigin = "\<lparr>v2_x = - 5, v2_y = - 5\<rparr>" and fill = "\<lparr>v2_x = 1, v2_y = 1\<rparr>"
      and depth = 5, folded testCollaborators_def, unfolded f sz]
  from t [of kDirectionAll] obtain solver vel' where
    a: "onColliderUpdated testCollaborators testGridSize \<lparr>v2_x = 1, v2_y = 1\<rparr> \<lparr>v2_x = - 5, v2_y = - 5\<rparr>
        (newBoundarySolver kDirectionAll) = Inr solver"
       "constrainVelocity testCollaborators solver
        (uniformVelocity testGridSize \<lparr>v2_x = 1, v2_y = 1\<rparr>) 5 = Inr vel'"
    and au: "\<And>i j. i \<le> 10 \<and> j < 10 \<Longrightarrow> at2 (fc2_dataU vel') i j =
                Inr (if (i = 0 \<and> closedAt kDirectionAll kDirectionLeft) \<or>
                        (i = 10 \<and> closedAt kDirectionAll kDirectionRight)
                     then 0 else v2_x \<lparr>v2_x = 1, v2_y = 1\<rparr>)"
    and av: "\<And>i j. i < 10 \<and> j \<le> 10 \<Longrightarrow> at2 (fc2_dataV vel') i j =
                Inr (if (j = 0 \<and> closedAt kDirectionAll kDirectionDown) \<or>
                        (j = 10 \<and> closedAt kDirectionAll kDirectionUp)
                     then 0 else v2_y \<lparr>v2_x = 1, v2_y = 1\<rparr>)"
    by blast
  have c: "\<exists>solver vel'.
      onColliderUpdated testCollaborators testGridSize \<lparr>v2_x = 1, v2_y = 1\<rparr> \<lparr>v2_x = - 5, v2_y = - 5\<rparr>
        (newBoundarySolver kDirectionAll) = Inr solver \<and>
      constrainVelocity testCollaborators solver
        (uniformVelocity testGridSize \<lparr>v2_x = 1, v2_y = 1\<rparr>) 5 = Inr vel' \<and>
      at2 (fc2_dataU vel') 0 3 = Inr 0 \<and> at2 (fc2_dataU vel') 10 3 = Inr 0 \<and>
      at2 (fc2_dataU vel') 5 3 = Inr 1 \<and>
      at2 (fc2_dataV vel') 3 0 = Inr 0 \<and> at2 (fc2_dataV vel') 3 10 = Inr 0 \<and>
      at2 (fc2_dataV vel') 3 5 = Inr 1"
    using a au [of 0 3] au [of 10 3] au [of 5 3] av [of 3 0] av [of 3 10] av [of 3 5]
    by (intro exI [of _ solver] exI [of _ vel']) (simp add: closedAt_examples)
  from t [of "or kDirectionLeft kDirectionUp"] obtain solver vel' where
    a: "onColliderUpdated testCollaborators testGridSize \<lparr>v2_x = 1, v2_y = 1\<rparr> \<lparr>v2_x = - 5, v2_y = - 5\<rparr>
        (newBoundarySolver (or kDirectionLeft kDirectionUp)) = Inr solver"
       "constrainVelocity testCollaborators solver
        (uniformVelocity testGridSize \<lparr>v2_x = 1, v2_y = 1\<rparr>) 5 = Inr vel'"
    and au: "\<And>i j. i \<le> 10 \<and> j < 10 \<Longrightarrow> at2 (fc2_dataU vel') i j =
                Inr (if (i = 0 \<and> closedAt (or kDirectionLeft kDirectionUp) kDirectionLeft) \<or>
                        (i = 10 \<and> closedAt (or kDirectionLeft kDirectionUp) kDirectionRight)
                     then 0 else v2_x \<lparr>v2_x = 1, v2_y = 1\<rparr>)"
    and av: "\<And>i j. i < 10 \<and> j \<le> 10 \<Longrightarrow> at2 (fc2_dataV vel') i j =
                Inr (if (j = 0 \<and> closedAt (or kDirectionLeft kDirectionUp) kDirectionDown) \<or>
                        (j = 10 \<and> closedAt (or kDirectionLeft kDirectionUp) kDirectionUp)
                     then 0 else v2_y \<lparr>v2_x = 1, v2_y = 1\<rparr>)"
    by blast
  have d: "\<exists>solver vel'.
      onColliderUpdated testCollaborators testGridSize \<lparr>v2_x = 1, v2_y = 1\<rparr> \<lparr>v2_x = - 5, v2_y = - 5\<rparr>
        (newBoundarySolver (or kDirectionLeft kDirectionUp)) = Inr solver \<and>
      constrainVelocity testCollaborators solver
        (uniformVelocity testGridSize \<lparr>v2_x = 1, v2_y = 1\<rparr>) 5 = Inr vel' \<and>
      at2 (fc2_dataU vel') 0 3 = Inr 0 \<and> at2 (fc2_dataU vel') 10 3 = Inr 1 \<and>
      at2 (fc2_dataV vel') 3 0 = Inr 1 \<and> at2 (fc2_dataV vel') 3 10 = Inr 0"
    using a au [of 0 3] au [of 10 3] av [of 3 0] av [of 3 10]
    by (intro exI [of _ solver] exI [of _ vel']) (simp add: closedAt_examples)
  from n c d show ?thesis by blast
qed


end
